theory Spec2Isabelle
  imports Complex_Main
begin

section \<open>Data model (types.ts)\<close>

text \<open>
  A JavaScript \<^verbatim>\<open>number\<close> that carries geometry is modelled as a \<^typ>\<open>real\<close>
  (an idealised double: no rounding, no NaN, no infinity).  \<^verbatim>\<open>Math.ceil\<close> returns an
  integer, so everything the packer computes from it (footprints, cursor, atlas size) is
  an \<^typ>\<open>int\<close>.  An optional field (\<^verbatim>\<open>uv?: ...\<close>) is an \<^typ>\<open>'a option\<close>.
  The rescaler is the exception: its results depend on the rounding of doubles and on
  division by zero, and its section models both.
\<close>

type_synonym vec3 = "real \<times> real \<times> real"
type_synonym vec2 = "real \<times> real"

datatype ModelType = ENTITY | BLOCK | GENERIC

text \<open>
  The records are parametrised by how a cube holds its uv array (\<open>'u\<close>) and how a bone
  holds its cubes (\<open>'c\<close>): by value in the functional model of this and the following
  sections (the type synonyms below), by address in the store model further down.
\<close>

record 'u ModelCube_of =
  cube_origin :: vec3
  cube_size :: vec3
  cube_rotation :: "vec3 option"
  cube_pivot :: "vec3 option"
  cube_uv :: "'u option"
  cube_color :: "string option"

type_synonym ModelCube = "vec2 ModelCube_of"

record ModelAttachment =
  att_name :: string
  att_position :: vec3

text \<open>
  types.ts declares the attachments of a bone as \<^verbatim>\<open>ModelAttachment[]\<close>, but the schema
  handed to the generator (geminiService.ts) asks for an array of strings, and the
  exporter and the editor accept both: an entry is a bare string (\<open>Inl\<close>) or an
  object (\<open>Inr\<close>).
\<close>

record 'c ModelBone_of =
  bone_name :: string
  bone_parent :: "string option"
  bone_pivot :: "vec3 option"
  bone_rotation :: "vec3 option"
  bone_cubes :: "'c list"
  bone_attachments :: "(string + ModelAttachment) list option"

type_synonym ModelBone = "ModelCube ModelBone_of"

text \<open>
  \<^verbatim>\<open>texture_size\<close> and \<^verbatim>\<open>bones\<close> are declared mandatory in types.ts, but the
  code tests both for absence (\<^verbatim>\<open>texture_size || [64, 64]\<close>,
  \<^verbatim>\<open>bedrockData?.bones\<close>), so both are optional here.
\<close>

record 'c BedrockModel_of =
  format_version :: string
  bedrock_identifier :: string
  texture_size :: "vec2 option"
  bones :: "'c ModelBone_of list option"

type_synonym BedrockModel = "ModelCube BedrockModel_of"

record 'c MinecraftModel_of =
  model_type :: ModelType
  bedrockData :: "'c BedrockModel_of option"

type_synonym MinecraftModel = "ModelCube MinecraftModel_of"

datatype density = D16x | D32x | D64x

section \<open>Box-UV footprint (textureMapper.ts)\<close>

definition PADDING :: int where
  "PADDING = 2"

definition MIN_TEXTURE_SIZE :: int where
  "MIN_TEXTURE_SIZE = 64"

text \<open>\<^verbatim>\<open>let densityScale = 1; if (density === '32x') ... = 2; if (density === '64x') ... = 4\<close>\<close>

fun densityScale :: "density \<Rightarrow> real" where
  "densityScale D16x = 1"
| "densityScale D32x = 2"
| "densityScale D64x = 4"

definition getBoxUVSize :: "'u ModelCube_of \<Rightarrow> real \<Rightarrow> int \<times> int" where
  "getBoxUVSize cube s =
     (case cube_size cube of (w, h, d) \<Rightarrow>
        let rw = \<lceil>w * s\<rceil>; rh = \<lceil>h * s\<rceil>; rd = \<lceil>d * s\<rceil>
        in (2 * (rw + rd), rd + rh))"

section \<open>Shelf packer (textureMapper.ts, packUVs)\<close>

text \<open>
  \<^verbatim>\<open>BoxPackerItem\<close>.  The source's id is the string \<^verbatim>\<open>`${bIdx}_${cIdx}`\<close>, later
  split at the underscore and parsed back; the model keeps the pair of indices.  In the
  functional model \<open>cubeRef\<close> is the cube's value; in the store model further down it is
  the cube's address, and the aliasing of \<open>cubeRef\<close> with the input model is explicit.
\<close>

record 'r BoxPackerItem_of =
  item_id :: "nat \<times> nat"
  item_w :: int
  item_h :: int
  cubeRef :: 'r

type_synonym BoxPackerItem = "ModelCube BoxPackerItem_of"

text \<open>Step 1: \<^verbatim>\<open>bones.forEach((bone, bIdx) => bone.cubes.forEach((cube, cIdx) => items.push(...)))\<close>\<close>

definition mkItem :: "real \<Rightarrow> nat \<Rightarrow> nat \<times> ModelCube \<Rightarrow> BoxPackerItem" where
  "mkItem s bIdx ic =
     (let sz = getBoxUVSize (snd ic) s
      in \<lparr>item_id = (bIdx, fst ic), item_w = fst sz, item_h = snd sz, cubeRef = snd ic\<rparr>)"

definition collectItems :: "ModelBone list \<Rightarrow> real \<Rightarrow> BoxPackerItem list" where
  "collectItems bs s =
     concat (map (\<lambda>ib. map (mkItem s (fst ib)) (enumerate 0 (bone_cubes (snd ib))))
                 (enumerate 0 bs))"

text \<open>
  Step 2: \<^verbatim>\<open>items.sort((a, b) => b.h - a.h)\<close>, a stable sort (ECMAScript 2019) by
  descending height; \<open>sort_key\<close> is the stable insertion sort.
\<close>

definition sortItems :: "'r BoxPackerItem_of list \<Rightarrow> 'r BoxPackerItem_of list" where
  "sortItems items = sort_key (\<lambda>it. - item_h it) items"

text \<open>\<^verbatim>\<open>items.reduce((acc, item) => acc + (item.w * item.h), 0)\<close>\<close>

definition totalArea :: "'r BoxPackerItem_of list \<Rightarrow> int" where
  "totalArea items = foldl (\<lambda>acc it. acc + item_w it * item_h it) 0 items"

text \<open>
  \<^verbatim>\<open>while ((dm * dm) < totalArea * 1.5) dm *= 2\<close>.  The loop is kept as a loop that
  might not return (it would not, started at \<open>dm = 0\<close>); that it does return from
  \<open>MIN_TEXTURE_SIZE\<close> is lemma \<open>growDim_returns\<close>.
\<close>

partial_function (option) growDim :: "int \<Rightarrow> int \<Rightarrow> int option" where
  "growDim dm area =
     (if real_of_int (dm * dm) < real_of_int area * 1.5
      then growDim (dm * 2) area else Some dm)"

declare growDim.simps [code]

text \<open>The mutable variables of step 3; \<open>textureW\<close> is not assigned inside the loop.\<close>

record pack_state =
  textureH :: int
  currentX :: int
  currentY :: int
  rowHeight :: int

text \<open>The body of \<^verbatim>\<open>items.forEach(item => ...)\<close>: the uv it assigns and the new variables.\<close>

definition place :: "int \<Rightarrow> pack_state \<Rightarrow> 'r BoxPackerItem_of \<Rightarrow> (int \<times> int) \<times> pack_state" where
  "place textureW st item =
     (let st1 = (if currentX st + item_w item > textureW
                 then st\<lparr>currentX := 0, currentY := currentY st + rowHeight st + PADDING,
                         rowHeight := 0\<rparr>
                 else st);
          st2 = (if currentY st1 + item_h item > textureH st1
                 then st1\<lparr>textureH := textureH st1 * 2\<rparr> else st1)
      in ((currentX st2, currentY st2),
          st2\<lparr>currentX := currentX st2 + item_w item + PADDING,
              rowHeight := max (rowHeight st2) (item_h item)\<rparr>))"

definition setUV :: "int \<times> int \<Rightarrow> BoxPackerItem \<Rightarrow> BoxPackerItem" where
  "setUV p item =
     item\<lparr>cubeRef := (cubeRef item)\<lparr>cube_uv := Some (real_of_int (fst p), real_of_int (snd p))\<rparr>\<rparr>"

fun packLoop :: "int \<Rightarrow> pack_state \<Rightarrow> BoxPackerItem list \<Rightarrow> BoxPackerItem list \<times> pack_state" where
  "packLoop textureW st [] = ([], st)"
| "packLoop textureW st (item # items) =
     (case place textureW st item of (p, st') \<Rightarrow>
        case packLoop textureW st' items of (items', st'') \<Rightarrow> (setUV p item # items', st''))"

text \<open>
  \<^verbatim>\<open>newModel.bedrockData.bones[bIdx].cubes[cIdx].uv = item.cubeRef.uv\<close>.  The indices
  come from the model itself, so they are in range; out of range the list update of HOL
  does nothing (the source would raise).
\<close>

definition reapply :: "BoxPackerItem \<Rightarrow> ModelBone list \<Rightarrow> ModelBone list" where
  "reapply item bs =
     (case item_id item of (bIdx, cIdx) \<Rightarrow>
        bs[bIdx := (bs ! bIdx)\<lparr>bone_cubes :=
             (bone_cubes (bs ! bIdx))[cIdx :=
                (bone_cubes (bs ! bIdx) ! cIdx)\<lparr>cube_uv := cube_uv (cubeRef item)\<rparr>]\<rparr>])"

text \<open>
  \<open>packUVs\<close> as a function from the model value to the returned model value; \<open>None\<close>
  would mean that the sizing loop does not return.  \<^verbatim>\<open>JSON.parse(JSON.stringify(model))\<close>
  is the identity on values.  (The source clones the model after it has written the uvs into
  the input's cubes and then writes them again into the clone; on values the second write
  alone gives the same result, every cube having an item.)
\<close>

definition packUVs :: "MinecraftModel \<Rightarrow> density \<Rightarrow> MinecraftModel option" where
  "packUVs model dn =
     (if model_type model \<noteq> ENTITY then Some model
      else case bedrockData model of None \<Rightarrow> Some model
      | Some bd \<Rightarrow>
        (case bones bd of None \<Rightarrow> Some model
         | Some bs \<Rightarrow>
           (let items = sortItems (collectItems bs (densityScale dn))
            in case growDim MIN_TEXTURE_SIZE (totalArea items) of None \<Rightarrow> None
               | Some dm \<Rightarrow>
                 (case packLoop dm \<lparr>textureH = dm, currentX = 0, currentY = 0, rowHeight = 0\<rparr> items
                  of (items', st) \<Rightarrow>
                    let textureW = (if textureH st > dm then textureH st else dm);
                        textureH' = (if textureW > textureH st then textureW else textureH st)
                    in Some (model\<lparr>bedrockData := Some (bd\<lparr>
                         texture_size := Some (real_of_int textureW, real_of_int textureH'),
                         bones := Some (fold reapply items' bs)\<rparr>)\<rparr>)))))"

section \<open>Atlas rescaler (textureMapper.ts, scaleModelUVs)\<close>

text \<open>
  The rescaler divides and multiplies, so what it returns depends on how a double rounds
  and on what a division by zero gives.  The numbers it computes with are therefore
  modelled as JavaScript has them: a finite value, one of the two infinities, NaN, or
  \<^verbatim>\<open>null\<close>, which is what \<^verbatim>\<open>JSON.stringify\<close> writes for the three non-finite numbers
  and which counts as 0 in arithmetic.  The two zeros of a double are not told apart.
\<close>

datatype number = Finite real | PosInfinity | NegInfinity | NaN | Null

text \<open>Rounding to the nearest integer, a tie to the even one.\<close>

definition roundHalfEven :: "real \<Rightarrow> int" where
  "roundHalfEven x =
     (let f = \<lfloor>x\<rfloor>
      in if x - real_of_int f < 1 / 2 then f
         else if 1 / 2 < x - real_of_int f then f + 1
         else if even f then f else f + 1)"

text \<open>
  The double that an arithmetic operation returns for the exact result \<open>x\<close> (IEEE 754
  binary64, round to nearest, ties to even): 53 significant bits where the exponent
  allows it, multiples of \<open>2 powr - 1074\<close> below that, and an infinity from
  \<open>2 ^ 1024\<close> on.
\<close>

definition toDouble :: "real \<Rightarrow> number" where
  "toDouble x =
     (if x = 0 then Finite 0
      else let e = max (\<lfloor>log 2 \<bar>x\<bar>\<rfloor> - 52) (- 1074);
               y = real_of_int (roundHalfEven (x / 2 powr real_of_int e)) * 2 powr real_of_int e
           in if 2 ^ 1024 \<le> y then PosInfinity
              else if y \<le> - (2 ^ 1024) then NegInfinity
              else Finite y)"

text \<open>\<^verbatim>\<open>a / b\<close> of two finite numbers.\<close>

definition jsDiv :: "real \<Rightarrow> real \<Rightarrow> number" where
  "jsDiv a b =
     (if b = 0 then (if a = 0 then NaN else if 0 < a then PosInfinity else NegInfinity)
      else toDouble (a / b))"

text \<open>\<^verbatim>\<open>x * y\<close>: \<^verbatim>\<open>null\<close> counts as 0, and an infinity times 0 is NaN.\<close>

fun toNumber :: "number \<Rightarrow> number" where
  "toNumber Null = Finite 0"
| "toNumber x = x"

fun signOf :: "number \<Rightarrow> real" where
  "signOf (Finite a) = sgn a"
| "signOf PosInfinity = 1"
| "signOf NegInfinity = - 1"
| "signOf x = 0"

definition jsMul :: "number \<Rightarrow> number \<Rightarrow> number" where
  "jsMul x y =
     (case (toNumber x, toNumber y) of
        (Finite a, Finite b) \<Rightarrow> toDouble (a * b)
      | (NaN, _) \<Rightarrow> NaN
      | (_, NaN) \<Rightarrow> NaN
      | (a, b) \<Rightarrow>
          if signOf a * signOf b = 0 then NaN
          else if 0 < signOf a * signOf b then PosInfinity else NegInfinity)"

text \<open>
  \<^verbatim>\<open>Math.round\<close> rounds half up and its result is exact: on a finite number it is \<open>round\<close>
  of HOL, \<open>\<lfloor>x + 1/2\<rfloor>\<close>.
\<close>

fun jsRound :: "number \<Rightarrow> number" where
  "jsRound (Finite x) = Finite (real_of_int (round x))"
| "jsRound x = toNumber x"

text \<open>What \<^verbatim>\<open>JSON.parse(JSON.stringify(x))\<close> makes of a number.\<close>

fun jsonNumber :: "number \<Rightarrow> number" where
  "jsonNumber (Finite x) = Finite x"
| "jsonNumber x = Null"

text \<open>
  A model as the rescaler reads and returns it: the entries of a uv array are numbers in
  the sense above.
\<close>

type_synonym nvec2 = "number \<times> number"
type_synonym JsCube = "nvec2 ModelCube_of"
type_synonym JsBone = "JsCube ModelBone_of"
type_synonym JsModel = "JsCube MinecraftModel_of"

text \<open>\<open>TypeError\<close>: \<^verbatim>\<open>bedrockData.bones.forEach\<close> on a model without bones.\<close>

datatype failure = TypeError

text \<open>\<^verbatim>\<open>JSON.parse(JSON.stringify(model))\<close>, as a value.\<close>

definition jsonCube :: "JsCube \<Rightarrow> JsCube" where
  "jsonCube cube = cube\<lparr>cube_uv := map_option (map_prod jsonNumber jsonNumber) (cube_uv cube)\<rparr>"

definition jsonClone :: "JsModel \<Rightarrow> JsModel" where
  "jsonClone model =
     model\<lparr>bedrockData := map_option
       (\<lambda>bd. bd\<lparr>bones := map_option
          (map (\<lambda>bone. bone\<lparr>bone_cubes := map jsonCube (bone_cubes bone)\<rparr>)) (bones bd)\<rparr>)
       (bedrockData model)\<rparr>"

text \<open>The body of \<^verbatim>\<open>bone.cubes.forEach((cube) => ...)\<close>.\<close>

definition scaleCube :: "number \<Rightarrow> number \<Rightarrow> JsCube \<Rightarrow> JsCube" where
  "scaleCube scaleX scaleY cube =
     (case cube_uv cube of None \<Rightarrow> cube
      | Some (u, v) \<Rightarrow>
          cube\<lparr>cube_uv := Some (jsRound (jsMul u scaleX), jsRound (jsMul v scaleY))\<rparr>)"

definition scaleModelUVs :: "JsModel \<Rightarrow> real \<Rightarrow> real \<Rightarrow> failure + JsModel" where
  "scaleModelUVs model newWidth newHeight =
     (case bedrockData model of None \<Rightarrow> Inr model
      | Some bd \<Rightarrow>
        (case (case texture_size bd of None \<Rightarrow> (real_of_int MIN_TEXTURE_SIZE, real_of_int MIN_TEXTURE_SIZE)
                                     | Some ts \<Rightarrow> ts) of (oldW, oldH) \<Rightarrow>
           if oldW = newWidth \<and> oldH = newHeight then Inr model
           else let scaleX = jsDiv newWidth oldW; scaleY = jsDiv newHeight oldH;
                    newModel = jsonClone model
                in case bedrockData newModel of None \<Rightarrow> Inl TypeError
                   | Some newBd \<Rightarrow>
                     (case bones newBd of None \<Rightarrow> Inl TypeError
                      | Some bs \<Rightarrow>
                          Inr (newModel\<lparr>bedrockData := Some (newBd\<lparr>
                                 texture_size := Some (newWidth, newHeight),
                                 bones := Some (map (\<lambda>bone. bone\<lparr>bone_cubes :=
                                            map (scaleCube scaleX scaleY) (bone_cubes bone)\<rparr>) bs)\<rparr>)\<rparr>))))"

text \<open>
  The spec's name for the per-axis map: \<open>new = round (old * newSize / oldSize)\<close>.
\<close>

definition rescale :: "real \<Rightarrow> real \<Rightarrow> real \<Rightarrow> int" where
  "rescale old oldSize newSize = round (old * newSize / oldSize)"

section \<open>Atlas layout renderer (textureMapper.ts, drawTextureLayout)\<close>

text \<open>
  The canvas is not part of the repository.  A call
  \<^verbatim>\<open>drawRect(x, y, w, h, color, label)\<close> is modelled by the record of its arguments (the
  label names the face), and the image returned by \<open>drawTextureLayout\<close> by the size of
  the canvas and the rectangles drawn on its white background, in drawing order.
\<close>

datatype face = Top | Bottom | Right | Front | Left | Back

record drawnRect =
  rect_face :: face
  rect_x :: real
  rect_y :: real
  rect_w :: int
  rect_h :: int
  rect_color :: string

record canvas =
  canvas_width :: real
  canvas_height :: real
  canvas_rects :: "drawnRect list"

text \<open>The body of \<^verbatim>\<open>bone.cubes.forEach((cube) => ...)\<close>; a cube without uv draws nothing.\<close>

definition drawCube :: "real \<Rightarrow> ModelCube \<Rightarrow> drawnRect list" where
  "drawCube scale cube =
     (case cube_uv cube of None \<Rightarrow> []
      | Some (u, v) \<Rightarrow>
        (case cube_size cube of (cw, ch, cd) \<Rightarrow>
           let w_px = \<lceil>cw * scale\<rceil>; h_px = \<lceil>ch * scale\<rceil>; d_px = \<lceil>cd * scale\<rceil>
           in [\<lparr>rect_face = Top, rect_x = u + real_of_int d_px, rect_y = v,
                 rect_w = w_px, rect_h = d_px, rect_color = ''#ffcccc''\<rparr>,
               \<lparr>rect_face = Bottom, rect_x = u + real_of_int d_px + real_of_int w_px, rect_y = v,
                 rect_w = w_px, rect_h = d_px, rect_color = ''#cc0000''\<rparr>,
               \<lparr>rect_face = Right, rect_x = u, rect_y = v + real_of_int d_px,
                 rect_w = d_px, rect_h = h_px, rect_color = ''#ccccff''\<rparr>,
               \<lparr>rect_face = Front, rect_x = u + real_of_int d_px, rect_y = v + real_of_int d_px,
                 rect_w = w_px, rect_h = h_px, rect_color = ''#ccffcc''\<rparr>,
               \<lparr>rect_face = Left, rect_x = u + real_of_int d_px + real_of_int w_px,
                 rect_y = v + real_of_int d_px,
                 rect_w = d_px, rect_h = h_px, rect_color = ''#0000cc''\<rparr>,
               \<lparr>rect_face = Back,
                 rect_x = u + real_of_int d_px + real_of_int w_px + real_of_int d_px,
                 rect_y = v + real_of_int d_px,
                 rect_w = w_px, rect_h = h_px, rect_color = ''#00cc00''\<rparr>]))"

text \<open>
  \<open>Inr None\<close> is the early return of the empty string; \<open>Inl TypeError\<close> is
  \<^verbatim>\<open>model.bedrockData.bones.forEach\<close> on a model without bones.
\<close>

definition drawTextureLayout :: "MinecraftModel \<Rightarrow> density \<Rightarrow> failure + canvas option" where
  "drawTextureLayout model dn =
     (if model_type model \<noteq> ENTITY then Inr None
      else case bedrockData model of None \<Rightarrow> Inr None
      | Some bd \<Rightarrow>
        (case (case texture_size bd of
                 None \<Rightarrow> (real_of_int MIN_TEXTURE_SIZE, real_of_int MIN_TEXTURE_SIZE)
               | Some ts \<Rightarrow> ts) of (texW, texH) \<Rightarrow>
           (case bones bd of None \<Rightarrow> Inl TypeError
            | Some bs \<Rightarrow>
                Inr (Some \<lparr>canvas_width = texW, canvas_height = texH,
                           canvas_rects = concat (map (\<lambda>bone.
                              concat (map (drawCube (densityScale dn)) (bone_cubes bone))) bs)\<rparr>))))"

section \<open>Export texture layout (part 001, getTextureLayout)\<close>

record FaceLayout =
  face_offset :: vec2
  face_mirror :: "bool \<times> bool"
  face_angle :: real

record TextureLayout =
  layout_front :: FaceLayout
  layout_back :: FaceLayout
  layout_left :: FaceLayout
  layout_right :: FaceLayout
  layout_top :: FaceLayout
  layout_bottom :: FaceLayout

definition faceAt :: "real \<Rightarrow> real \<Rightarrow> FaceLayout" where
  "faceAt x y = \<lparr>face_offset = (x, y), face_mirror = (False, False), face_angle = 0\<rparr>"

text \<open>\<^verbatim>\<open>textureWidth\<close> and \<^verbatim>\<open>textureHeight\<close> are parameters the source does not use.\<close>

definition getTextureLayout :: "ModelCube \<Rightarrow> real \<Rightarrow> real \<Rightarrow> TextureLayout" where
  "getTextureLayout cube textureWidth textureHeight =
     (case (case cube_uv cube of None \<Rightarrow> (0, 0) | Some p \<Rightarrow> p) of (u, v) \<Rightarrow>
      case cube_size cube of (w, h, d) \<Rightarrow>
        let rw = \<lceil>w\<rceil>; rh = \<lceil>h\<rceil>; rd = \<lceil>d\<rceil>
        in \<lparr>layout_front = faceAt (u + real_of_int rd) (v + real_of_int rd),
            layout_back = faceAt (u + real_of_int rd + real_of_int rw + real_of_int rd) (v + real_of_int rd),
            layout_left = faceAt (u + real_of_int rd + real_of_int rw) (v + real_of_int rd),
            layout_right = faceAt u (v + real_of_int rd),
            layout_top = faceAt (u + real_of_int rd) v,
            layout_bottom = faceAt (u + real_of_int rd + real_of_int rw) v\<rparr>)"

section \<open>Export to the flat relative node tree (part 001, buildHytaleNodeTree)\<close>

type_synonym quat = "real \<times> real \<times> real \<times> real"

text \<open>
  The shape descriptor of a node.  The fields that have the same value in every node the
  exporter builds (\<^verbatim>\<open>visible\<close>, \<^verbatim>\<open>doubleSided\<close>, \<^verbatim>\<open>shadingMode\<close>, \<^verbatim>\<open>unwrapMode\<close>) are
  left out; \<^verbatim>\<open>textureLayout: {}\<close> is \<open>None\<close>.
\<close>

record Shape =
  shape_type :: string
  shape_offset :: vec3
  shape_stretch :: vec3
  shape_isPiece :: "bool option"
  shape_size :: "vec3 option"
  shape_textureLayout :: "TextureLayout option"

text \<open>
  \<^verbatim>\<open>HytaleNode\<close>.  The id is the value of the counter \<^verbatim>\<open>nodeIdCounter\<close>, which the source
  prints in decimal.
\<close>

datatype HytaleNode =
  HytaleNode (node_id: nat) (node_name: string) (node_children: "HytaleNode list")
    (node_position: vec3) (node_orientation: quat) (node_shape: Shape)

text \<open>JavaScript truthiness of an optional string: \<^verbatim>\<open>undefined\<close> and \<^verbatim>\<open>""\<close> are falsy.\<close>

definition truthy :: "string option \<Rightarrow> bool" where
  "truthy s = (s \<noteq> None \<and> s \<noteq> Some [])"

text \<open>\<^verbatim>\<open>b => parentId ? b.parent === parentId : !b.parent\<close>\<close>

definition belongsTo :: "string option \<Rightarrow> ModelBone \<Rightarrow> bool" where
  "belongsTo parentId b =
     (if truthy parentId then bone_parent b = parentId else \<not> truthy (bone_parent b))"

text \<open>Decimal digits of an index, for \<^verbatim>\<open>`${bone.name}_shape_${idx}`\<close>.\<close>

fun decimal :: "nat \<Rightarrow> string" where
  "decimal n =
     (if n < 10 then [''0123456789'' ! n] else decimal (n div 10) @ [''0123456789'' ! (n mod 10)])"

declare decimal.simps [simp del]

definition orDefault :: "'a \<Rightarrow> 'a option \<Rightarrow> 'a" where
  "orDefault d x = (case x of None \<Rightarrow> d | Some v \<Rightarrow> v)"

definition boneNode :: "(vec3 \<Rightarrow> quat) \<Rightarrow> nat \<Rightarrow> ModelBone \<Rightarrow> vec3 \<Rightarrow> HytaleNode list \<Rightarrow> HytaleNode" where
  "boneNode e2q i bone parentPivot children =
     (case orDefault (0, 0, 0) (bone_pivot bone) of (px, py, pz) \<Rightarrow>
      case parentPivot of (ppx, ppy, ppz) \<Rightarrow>
        HytaleNode i (bone_name bone) children (px - ppx, py - ppy, pz - ppz)
          (e2q (orDefault (0, 0, 0) (bone_rotation bone)))
          \<lparr>shape_type = ''none'', shape_offset = (0, 0, 0), shape_stretch = (1, 1, 1),
           shape_isPiece = Some False, shape_size = None, shape_textureLayout = None\<rparr>)"

definition cubeNode :: "(vec3 \<Rightarrow> quat) \<Rightarrow> vec2 \<Rightarrow> ModelBone \<Rightarrow> nat \<Rightarrow> nat \<times> ModelCube \<Rightarrow> HytaleNode" where
  "cubeNode e2q textureSize bone i ic =
     (case ic of (idx, cube) \<Rightarrow>
      case orDefault (0, 0, 0) (bone_pivot bone) of (px, py, pz) \<Rightarrow>
      case cube_origin cube of (ox, oy, oz) \<Rightarrow>
      case cube_size cube of (w, h, d) \<Rightarrow>
        let cx = ox + w / 2; cy = oy + h / 2; cz = oz + d / 2
        in HytaleNode (i + idx) (bone_name bone @ ''_shape_'' @ decimal idx) []
             (cx - px, cy - py, cz - pz)
             (e2q (orDefault (0, 0, 0) (cube_rotation cube)))
             \<lparr>shape_type = ''box'', shape_offset = (0, 0, 0), shape_stretch = (1, 1, 1),
              shape_isPiece = None, shape_size = Some (w, h, d),
              shape_textureLayout =
                Some (getTextureLayout cube (fst textureSize) (snd textureSize))\<rparr>)"

text \<open>
  The body of \<^verbatim>\<open>bone.attachments.forEach(att => ...)\<close>.  A bare string is the name as
  it stands, at position \<^verbatim>\<open>[0,0,0]\<close>; of an object, \<^verbatim>\<open>att.name || "attachment"\<close>
  replaces an empty name.
\<close>

definition attNode :: "nat \<Rightarrow> nat \<times> (string + ModelAttachment) \<Rightarrow> HytaleNode" where
  "attNode i ka =
     (case ka of (k, att) \<Rightarrow>
        HytaleNode (i + k)
          (case att of Inl str \<Rightarrow> str
           | Inr obj \<Rightarrow> if att_name obj = [] then ''attachment'' else att_name obj) []
          (case att of Inl str \<Rightarrow> (0, 0, 0) | Inr obj \<Rightarrow> att_position obj) (0, 0, 0, 1)
          \<lparr>shape_type = ''none'', shape_offset = (0, 0, 0), shape_stretch = (1, 1, 1),
           shape_isPiece = Some True, shape_size = None, shape_textureLayout = None\<rparr>)"

text \<open>
  \<open>buildHytaleNodeTree\<close> recurses on the name of each bone it emits, not on a smaller
  structure: with a bone named \<^verbatim>\<open>""\<close>, or two bones of one name, the source recurses until
  the stack overflows.  The model takes fuel, the depth of recursion allowed, and returns
  \<open>None\<close> when it runs out.  The counter \<^verbatim>\<open>nodeIdCounter\<close> is passed in and returned.
  \<open>e2q\<close> stands for \<^verbatim>\<open>eulerToQuaternion\<close>, a call into the THREE library, which is not
  part of the repository.  \<open>allBones\<close> is the parameter \<^verbatim>\<open>bones\<close>, and \<open>buildBones\<close> the loop \<^verbatim>\<open>for (const bone of currentBones)\<close>.
\<close>

fun buildHytaleNodeTree ::
    "(vec3 \<Rightarrow> quat) \<Rightarrow> nat \<Rightarrow> ModelBone list \<Rightarrow> string option \<Rightarrow> vec3 \<Rightarrow> vec2 \<Rightarrow> nat
     \<Rightarrow> (HytaleNode list \<times> nat) option"
  and buildBones ::
    "(vec3 \<Rightarrow> quat) \<Rightarrow> nat \<Rightarrow> ModelBone list \<Rightarrow> ModelBone list \<Rightarrow> vec3 \<Rightarrow> vec2 \<Rightarrow> nat
     \<Rightarrow> (HytaleNode list \<times> nat) option"
where
  "buildHytaleNodeTree e2q 0 allBones parentId parentPivot textureSize n = None"
| "buildHytaleNodeTree e2q (Suc fuel) allBones parentId parentPivot textureSize n =
     buildBones e2q fuel allBones (filter (belongsTo parentId) allBones) parentPivot textureSize n"
| "buildBones e2q fuel allBones [] parentPivot textureSize n = Some ([], n)"
| "buildBones e2q fuel allBones (bone # rest) parentPivot textureSize n =
     (let cubeNodes = map (cubeNode e2q textureSize bone (n + 2)) (enumerate 0 (bone_cubes bone));
          n1 = n + 1 + length (bone_cubes bone);
          atts = orDefault [] (bone_attachments bone);
          attNodes = map (attNode (n1 + 1)) (enumerate 0 atts);
          n2 = n1 + length atts
      in case buildHytaleNodeTree e2q fuel allBones (Some (bone_name bone))
                (orDefault (0, 0, 0) (bone_pivot bone)) textureSize n2 of
           None \<Rightarrow> None
         | Some (childrenNodes, n3) \<Rightarrow>
             (case buildBones e2q fuel allBones rest parentPivot textureSize n3 of
                None \<Rightarrow> None
              | Some (nodes, n4) \<Rightarrow>
                  Some (boneNode e2q (n + 1) bone parentPivot
                          (cubeNodes @ attNodes @ childrenNodes) # nodes, n4)))"

section \<open>The editor and the viewer on parent references (parts 002 and 003)\<close>

text \<open>
  \<^verbatim>\<open>handleDeleteBone\<close> (part 002) removes one bone with \<^verbatim>\<open>newBones.splice(index, 1)\<close> and
  leaves the \<^verbatim>\<open>parent\<close> fields of the other bones as they are; spreading a missing bone
  array raises.
\<close>

definition handleDeleteBone :: "nat \<Rightarrow> MinecraftModel \<Rightarrow> failure + MinecraftModel" where
  "handleDeleteBone index prevModel =
     (if model_type prevModel = ENTITY
      then (case bedrockData prevModel of None \<Rightarrow> Inr prevModel
            | Some bd \<Rightarrow>
                (case bones bd of None \<Rightarrow> Inl TypeError
                 | Some bs \<Rightarrow>
                     Inr (prevModel\<lparr>bedrockData :=
                            Some (bd\<lparr>bones := Some (take index bs @ drop (Suc index) bs)\<rparr>)\<rparr>)))
      else Inr prevModel)"

text \<open>
  The bones the viewer draws at top level (part 003):
  \<^verbatim>\<open>bones.filter(b => !b.parent || !bones.find(p => p.name === b.parent))\<close>, the
  disjunction written as a conditional.  Below a bone it draws the bones that name it as
  their parent, as the export does.
\<close>

definition rootBones :: "ModelBone list \<Rightarrow> ModelBone list" where
  "rootBones allBones =
     filter (\<lambda>b. if truthy (bone_parent b)
                  then find (\<lambda>p. Some (bone_name p) = bone_parent b) allBones = None
                  else True) allBones"

section \<open>The store model: packUVs and scaleModelUVs on objects\<close>

text \<open>
  The functional model above gives the value a function returns.  What the functions do to
  the objects they are handed needs the objects: a store maps addresses to model objects,
  to cube objects and to uv arrays (the two-element arrays \<^verbatim>\<open>[u, v]\<close>), and \<open>next_addr\<close> is
  the first address not yet allocated.  A model object stands for the model together with
  its \<^verbatim>\<open>bedrockData\<close>, its bone array, its bones and their cube arrays: the two functions
  never write to these in place, and copy or share them only as a whole.  A cube object
  is written to through \<^verbatim>\<open>cubeRef\<close>, and a uv array can be shared, so both have
  addresses of their own.
\<close>

type_synonym addr = nat

record store =
  models :: "addr \<Rightarrow> addr MinecraftModel_of"
  cubes :: "addr \<Rightarrow> addr ModelCube_of"
  uvs :: "addr \<Rightarrow> nvec2"
  next_addr :: addr

text \<open>Allocation: \<^verbatim>\<open>[u, v]\<close>, a new cube object, a new model object.\<close>

definition newUV :: "nvec2 \<Rightarrow> store \<Rightarrow> addr \<times> store" where
  "newUV v s = (next_addr s, s\<lparr>uvs := (uvs s)(next_addr s := v), next_addr := Suc (next_addr s)\<rparr>)"

definition newCube :: "addr ModelCube_of \<Rightarrow> store \<Rightarrow> addr \<times> store" where
  "newCube c s = (next_addr s, s\<lparr>cubes := (cubes s)(next_addr s := c), next_addr := Suc (next_addr s)\<rparr>)"

definition newModel :: "addr MinecraftModel_of \<Rightarrow> store \<Rightarrow> addr \<times> store" where
  "newModel m s = (next_addr s, s\<lparr>models := (models s)(next_addr s := m), next_addr := Suc (next_addr s)\<rparr>)"

text \<open>\<^verbatim>\<open>cube.uv = [u, v]\<close> and \<^verbatim>\<open>cube.uv = otherCube.uv\<close> are writes of an address.\<close>

definition setCubeUV :: "addr \<Rightarrow> addr option \<Rightarrow> store \<Rightarrow> store" where
  "setCubeUV c u s = s\<lparr>cubes := (cubes s)(c := (cubes s c)\<lparr>cube_uv := u\<rparr>)\<rparr>"

text \<open>
  The value of the tree of objects below an address; the entries of the uv arrays are
  numbers in the sense of the rescaler's section.
\<close>

definition readCube :: "store \<Rightarrow> addr \<Rightarrow> JsCube" where
  "readCube s a =
     (let c = cubes s a
      in \<lparr>cube_origin = cube_origin c, cube_size = cube_size c, cube_rotation = cube_rotation c,
          cube_pivot = cube_pivot c, cube_uv = map_option (uvs s) (cube_uv c),
          cube_color = cube_color c\<rparr>)"

definition readBone :: "store \<Rightarrow> addr ModelBone_of \<Rightarrow> JsBone" where
  "readBone s b =
     \<lparr>bone_name = bone_name b, bone_parent = bone_parent b, bone_pivot = bone_pivot b,
      bone_rotation = bone_rotation b, bone_cubes = map (readCube s) (bone_cubes b),
      bone_attachments = bone_attachments b\<rparr>"

definition readBedrock :: "store \<Rightarrow> addr BedrockModel_of \<Rightarrow> JsCube BedrockModel_of" where
  "readBedrock s bd =
     \<lparr>format_version = format_version bd, bedrock_identifier = bedrock_identifier bd,
      texture_size = texture_size bd, bones = map_option (map (readBone s)) (bones bd)\<rparr>"

definition readModel :: "store \<Rightarrow> addr \<Rightarrow> JsModel" where
  "readModel s a =
     (let m = models s a
      in \<lparr>model_type = model_type m, bedrockData = map_option (readBedrock s) (bedrockData m)\<rparr>)"

text \<open>\<^verbatim>\<open>JSON.parse\<close>: a fresh object for every cube, every uv array and the model.\<close>

definition parseCube :: "JsCube \<Rightarrow> store \<Rightarrow> addr \<times> store" where
  "parseCube c s =
     (case cube_uv c of
        None \<Rightarrow>
          newCube \<lparr>cube_origin = cube_origin c, cube_size = cube_size c,
                   cube_rotation = cube_rotation c, cube_pivot = cube_pivot c, cube_uv = None,
                   cube_color = cube_color c\<rparr> s
      | Some v \<Rightarrow>
          (case newUV v s of (u, s1) \<Rightarrow>
             newCube \<lparr>cube_origin = cube_origin c, cube_size = cube_size c,
                      cube_rotation = cube_rotation c, cube_pivot = cube_pivot c,
                      cube_uv = Some u, cube_color = cube_color c\<rparr> s1))"

fun parseCubes :: "JsCube list \<Rightarrow> store \<Rightarrow> addr list \<times> store" where
  "parseCubes [] s = ([], s)"
| "parseCubes (c # cs) s =
     (case parseCube c s of (a, s1) \<Rightarrow>
      case parseCubes cs s1 of (as, s2) \<Rightarrow> (a # as, s2))"

fun parseBones :: "JsBone list \<Rightarrow> store \<Rightarrow> addr ModelBone_of list \<times> store" where
  "parseBones [] s = ([], s)"
| "parseBones (b # bs) s =
     (case parseCubes (bone_cubes b) s of (cs, s1) \<Rightarrow>
      case parseBones bs s1 of (bs', s2) \<Rightarrow>
        (\<lparr>bone_name = bone_name b, bone_parent = bone_parent b, bone_pivot = bone_pivot b,
          bone_rotation = bone_rotation b, bone_cubes = cs,
          bone_attachments = bone_attachments b\<rparr> # bs', s2))"

definition parseModel :: "JsModel \<Rightarrow> store \<Rightarrow> addr \<times> store" where
  "parseModel m s =
     (case bedrockData m of
        None \<Rightarrow> newModel \<lparr>model_type = model_type m, bedrockData = None\<rparr> s
      | Some bd \<Rightarrow>
          (case (case bones bd of None \<Rightarrow> (None, s)
                 | Some bs \<Rightarrow> (case parseBones bs s of (bs', s1) \<Rightarrow> (Some bs', s1)))
           of (obs, s1) \<Rightarrow>
             newModel \<lparr>model_type = model_type m,
                       bedrockData = Some \<lparr>format_version = format_version bd,
                                            bedrock_identifier = bedrock_identifier bd,
                                            texture_size = texture_size bd, bones = obs\<rparr>\<rparr> s1))"

text \<open>
  \<^verbatim>\<open>JSON.parse(JSON.stringify(model))\<close>: the value below the address, as JSON writes it,
  parsed into fresh objects.
\<close>

definition cloneModel :: "store \<Rightarrow> addr \<Rightarrow> addr \<times> store" where
  "cloneModel s a = parseModel (jsonClone (readModel s a)) s"

text \<open>\<^verbatim>\<open>newModel.bedrockData.texture_size = [w, h]\<close>\<close>

definition setTextureSize :: "addr \<Rightarrow> vec2 \<Rightarrow> store \<Rightarrow> store" where
  "setTextureSize a ts s =
     s\<lparr>models := (models s)(a :=
         (models s a)\<lparr>bedrockData := map_option (\<lambda>bd. bd\<lparr>texture_size := Some ts\<rparr>)
                                         (bedrockData (models s a))\<rparr>)\<rparr>"

subsection \<open>packUVs on the store\<close>

text \<open>Step 1; \<open>cubeRef\<close> is the address of the input model's cube.\<close>

definition mkItemSt :: "store \<Rightarrow> real \<Rightarrow> nat \<Rightarrow> nat \<times> addr \<Rightarrow> addr BoxPackerItem_of" where
  "mkItemSt s sc bIdx ic =
     (let sz = getBoxUVSize (cubes s (snd ic)) sc
      in \<lparr>item_id = (bIdx, fst ic), item_w = fst sz, item_h = snd sz, cubeRef = snd ic\<rparr>)"

definition collectItemsSt :: "store \<Rightarrow> addr ModelBone_of list \<Rightarrow> real \<Rightarrow> addr BoxPackerItem_of list" where
  "collectItemsSt s bs sc =
     concat (map (\<lambda>ib. map (mkItemSt s sc (fst ib)) (enumerate 0 (bone_cubes (snd ib))))
                 (enumerate 0 bs))"

text \<open>Step 3: \<^verbatim>\<open>item.cubeRef.uv = [currentX, currentY]\<close> writes to the input's cube.\<close>

fun packLoopSt :: "int \<Rightarrow> pack_state \<Rightarrow> addr BoxPackerItem_of list \<Rightarrow> store \<Rightarrow> pack_state \<times> store" where
  "packLoopSt textureW st [] s = (st, s)"
| "packLoopSt textureW st (item # items) s =
     (case place textureW st item of (p, st') \<Rightarrow>
      case newUV (Finite (real_of_int (fst p)), Finite (real_of_int (snd p))) s of (u, s1) \<Rightarrow>
        packLoopSt textureW st' items (setCubeUV (cubeRef item) (Some u) s1))"

text \<open>
  \<^verbatim>\<open>newModel.bedrockData.bones[bIdx].cubes[cIdx].uv = item.cubeRef.uv\<close>: the new cube
  gets the address of the array that the input's cube holds.
\<close>

definition reapplySt :: "addr \<Rightarrow> addr BoxPackerItem_of \<Rightarrow> store \<Rightarrow> store" where
  "reapplySt a' item s =
     (case item_id item of (bIdx, cIdx) \<Rightarrow>
      case bedrockData (models s a') of None \<Rightarrow> s
      | Some bd \<Rightarrow>
        (case bones bd of None \<Rightarrow> s
         | Some bs \<Rightarrow>
             setCubeUV (bone_cubes (bs ! bIdx) ! cIdx) (cube_uv (cubes s (cubeRef item))) s))"

definition packUVsSt :: "store \<Rightarrow> addr \<Rightarrow> density \<Rightarrow> (addr \<times> store) option" where
  "packUVsSt s a dn =
     (let model = models s a
      in if model_type model \<noteq> ENTITY then Some (a, s)
         else case bedrockData model of None \<Rightarrow> Some (a, s)
         | Some bd \<Rightarrow>
           (case bones bd of None \<Rightarrow> Some (a, s)
            | Some bs \<Rightarrow>
              (let items = sortItems (collectItemsSt s bs (densityScale dn))
               in case growDim MIN_TEXTURE_SIZE (totalArea items) of None \<Rightarrow> None
                  | Some dm \<Rightarrow>
                    (case packLoopSt dm \<lparr>textureH = dm, currentX = 0, currentY = 0, rowHeight = 0\<rparr>
                            items s
                     of (st, s1) \<Rightarrow>
                       let textureW = (if textureH st > dm then textureH st else dm);
                           textureH' = (if textureW > textureH st then textureW else textureH st)
                       in case cloneModel s1 a of (a', s2) \<Rightarrow>
                            Some (a', fold (reapplySt a') items
                                        (setTextureSize a' (real_of_int textureW, real_of_int textureH') s2))))))"

subsection \<open>scaleModelUVs on the store\<close>

text \<open>
  The body of \<^verbatim>\<open>bone.cubes.forEach((cube) => ...)\<close>, on a cube of the clone: the new
  origin is a new array.  In \<open>scaleModelUVsSt\<close> the clone is made before the bones are
  looked at, as in the source; when the call raises, what the clone allocated is
  unreachable, and no store is returned.
\<close>

definition scaleCubeSt :: "number \<Rightarrow> number \<Rightarrow> addr \<Rightarrow> store \<Rightarrow> store" where
  "scaleCubeSt scaleX scaleY c s =
     (case cube_uv (cubes s c) of None \<Rightarrow> s
      | Some u \<Rightarrow>
          (case newUV (jsRound (jsMul (fst (uvs s u)) scaleX),
                       jsRound (jsMul (snd (uvs s u)) scaleY)) s of (u', s1) \<Rightarrow>
             setCubeUV c (Some u') s1))"

definition scaleModelUVsSt :: "store \<Rightarrow> addr \<Rightarrow> real \<Rightarrow> real \<Rightarrow> failure + addr \<times> store" where
  "scaleModelUVsSt s a newWidth newHeight =
     (case bedrockData (models s a) of None \<Rightarrow> Inr (a, s)
      | Some bd \<Rightarrow>
        (case (case texture_size bd of
                 None \<Rightarrow> (real_of_int MIN_TEXTURE_SIZE, real_of_int MIN_TEXTURE_SIZE)
               | Some ts \<Rightarrow> ts) of (oldW, oldH) \<Rightarrow>
           if oldW = newWidth \<and> oldH = newHeight then Inr (a, s)
           else (let scaleX = jsDiv newWidth oldW; scaleY = jsDiv newHeight oldH
                 in case cloneModel s a of (a', s1) \<Rightarrow>
                    (let s2 = setTextureSize a' (newWidth, newHeight) s1
                     in case bedrockData (models s2 a') of None \<Rightarrow> Inl TypeError
                        | Some bd' \<Rightarrow>
                          (case bones bd' of None \<Rightarrow> Inl TypeError
                           | Some bs' \<Rightarrow>
                               Inr (a', fold (\<lambda>bone s. fold (scaleCubeSt scaleX scaleY) (bone_cubes bone) s)
                                          bs' s2))))))"

section \<open>Notions used in the statements and proofs\<close>

text \<open>
  The cube at bone index \<open>b\<close>, cube index \<open>c\<close>, and whether that pair of indices is in
  range.  \<open>stripCube\<close> and \<open>stripBone\<close> forget the uv origins: two bone lists with the
  same stripped form differ in uv origins only.  \<open>placements\<close> lists the origins that
  \<open>packLoop\<close> assigns, as integers.  \<open>clear\<close> is the loop invariant of the shelf packer:
  a rectangle already placed lies left of the cursor in the current row, or above the
  current row, padding included.  \<open>overlapI\<close> (integers) and \<open>paddedOverlap\<close> (on cubes)
  say that two footprints, each extended by \<open>PADDING\<close> to the right and downwards, have a
  point in common.  \<open>sortedItems\<close>, \<open>initState\<close>, \<open>packedBones\<close> and \<open>atlasSide\<close> name
  the intermediate values of \<open>packUVs\<close>.  \<open>geom\<close> is what the packer reads of an item.
\<close>

definition cubeAt :: "ModelBone list \<Rightarrow> nat \<Rightarrow> nat \<Rightarrow> ModelCube" where
  "cubeAt bs b c = bone_cubes (bs ! b) ! c"

definition validIdx :: "ModelBone list \<Rightarrow> nat \<Rightarrow> nat \<Rightarrow> bool" where
  "validIdx bs b c = (b < length bs \<and> c < length (bone_cubes (bs ! b)))"

definition stripCube :: "ModelCube \<Rightarrow> ModelCube" where
  "stripCube c = c\<lparr>cube_uv := None\<rparr>"

definition stripBone :: "ModelBone \<Rightarrow> ModelBone" where
  "stripBone b = b\<lparr>bone_cubes := map stripCube (bone_cubes b)\<rparr>"

fun placements :: "int \<Rightarrow> pack_state \<Rightarrow> 'r BoxPackerItem_of list \<Rightarrow> (int \<times> int) list" where
  "placements tw st [] = []"
| "placements tw st (item # items) = fst (place tw st item) # placements tw (snd (place tw st item)) items"

type_synonym irect = "(int \<times> int) \<times> (int \<times> int)"

definition clear :: "pack_state \<Rightarrow> irect \<Rightarrow> bool" where
  "clear st r =
     (case r of ((x, y), (w, h)) \<Rightarrow>
        (y = currentY st \<and> x + w + PADDING \<le> currentX st \<and> h \<le> rowHeight st)
        \<or> y + h + PADDING \<le> currentY st)"

definition overlapI :: "irect \<Rightarrow> irect \<Rightarrow> bool" where
  "overlapI r1 r2 =
     (case r1 of ((x1, y1), (w1, h1)) \<Rightarrow> case r2 of ((x2, y2), (w2, h2)) \<Rightarrow>
        x1 < x2 + w2 + PADDING \<and> x2 < x1 + w1 + PADDING \<and>
        y1 < y2 + h2 + PADDING \<and> y2 < y1 + h1 + PADDING)"

definition rectOf :: "int \<times> int \<Rightarrow> 'r BoxPackerItem_of \<Rightarrow> irect" where
  "rectOf p it = (p, (item_w it, item_h it))"

definition sortedItems :: "ModelBone list \<Rightarrow> density \<Rightarrow> BoxPackerItem list" where
  "sortedItems bs dn = sortItems (collectItems bs (densityScale dn))"

definition initState :: "int \<Rightarrow> pack_state" where
  "initState dm = \<lparr>textureH = dm, currentX = 0, currentY = 0, rowHeight = 0\<rparr>"

definition packedBones :: "int \<Rightarrow> ModelBone list \<Rightarrow> density \<Rightarrow> ModelBone list" where
  "packedBones dm bs dn = fold reapply (fst (packLoop dm (initState dm) (sortedItems bs dn))) bs"

definition atlasSide :: "int \<Rightarrow> ModelBone list \<Rightarrow> density \<Rightarrow> int" where
  "atlasSide dm bs dn = max dm (textureH (snd (packLoop dm (initState dm) (sortedItems bs dn))))"

definition paddedOverlap :: "real \<Rightarrow> ModelCube \<Rightarrow> ModelCube \<Rightarrow> bool" where
  "paddedOverlap s c1 c2 =
     (case (cube_uv c1, cube_uv c2) of
        (Some (u1, v1), Some (u2, v2)) \<Rightarrow>
          (case (getBoxUVSize c1 s, getBoxUVSize c2 s) of ((w1, h1), (w2, h2)) \<Rightarrow>
             u1 < u2 + real_of_int (w2 + PADDING) \<and> u2 < u1 + real_of_int (w1 + PADDING) \<and>
             v1 < v2 + real_of_int (h2 + PADDING) \<and> v2 < v1 + real_of_int (h1 + PADDING))
      | _ \<Rightarrow> False)"

definition sizeGrid :: "ModelBone list \<Rightarrow> vec3 list list" where
  "sizeGrid bs = map (\<lambda>bone. map cube_size (bone_cubes bone)) bs"

definition uvGrid :: "ModelBone list \<Rightarrow> vec2 option list list" where
  "uvGrid bs = map (\<lambda>bone. map cube_uv (bone_cubes bone)) bs"

definition geom :: "'r BoxPackerItem_of \<Rightarrow> (nat \<times> nat) \<times> int \<times> int" where
  "geom it = (item_id it, item_w it, item_h it)"

definition rectOrigins :: "drawnRect list \<Rightarrow> (face \<times> vec2) list" where
  "rectOrigins rs = map (\<lambda>r. (rect_face r, (rect_x r, rect_y r))) rs"

definition layoutOffsets :: "TextureLayout \<Rightarrow> (face \<times> vec2) list" where
  "layoutOffsets l =
     [(Top, face_offset (layout_top l)), (Bottom, face_offset (layout_bottom l)),
      (Right, face_offset (layout_right l)), (Front, face_offset (layout_front l)),
      (Left, face_offset (layout_left l)), (Back, face_offset (layout_back l))]"

definition recordedSize :: "'c BedrockModel_of \<Rightarrow> vec2" where
  "recordedSize bd =
     (case texture_size bd of
        None \<Rightarrow> (real_of_int MIN_TEXTURE_SIZE, real_of_int MIN_TEXTURE_SIZE)
      | Some ts \<Rightarrow> ts)"

text \<open>
  \<open>scaled\<close> is what the rescaler makes of one entry of a uv array:
  \<^verbatim>\<open>Math.round(uv * (newSize / oldSize))\<close> of the entry as the clone holds it.
  \<open>exactly\<close> says that neither the quotient nor the product is changed by the rounding
  to a double.
\<close>

definition scaled :: "number \<Rightarrow> real \<Rightarrow> real \<Rightarrow> number" where
  "scaled u oldSize newSize = jsRound (jsMul (jsonNumber u) (jsDiv newSize oldSize))"

definition exactly :: "real \<Rightarrow> real \<Rightarrow> real \<Rightarrow> bool" where
  "exactly old oldSize newSize =
     (oldSize \<noteq> 0 \<and> toDouble (newSize / oldSize) = Finite (newSize / oldSize) \<and>
      toDouble (old * (newSize / oldSize)) = Finite (old * (newSize / oldSize)))"

definition rescaleCube :: "vec2 \<Rightarrow> vec2 \<Rightarrow> JsCube \<Rightarrow> JsCube" where
  "rescaleCube old new cube =
     cube\<lparr>cube_uv := map_option (\<lambda>uv. (scaled (fst uv) (fst old) (fst new),
                                         scaled (snd uv) (snd old) (snd new)))
                        (cube_uv cube)\<rparr>"

text \<open>\<open>dangling\<close>: the bone names a parent, and no bone of the model has that name.\<close>

definition dangling :: "ModelBone list \<Rightarrow> ModelBone \<Rightarrow> bool" where
  "dangling allBones b =
     (truthy (bone_parent b) \<and> bone_parent b \<notin> Some ` bone_name ` set allBones)"

text \<open>
  Relations between the store before and after a call.  \<open>untouched\<close>: every object
  allocated before is the same after.  \<open>onlyUVWritten\<close>: every model object and uv array
  allocated before is the same after, and every cube object is the same up to its
  \<^verbatim>\<open>uv\<close> field.  \<open>cubeAddrs\<close> lists the cubes of a model object; \<open>allocatedBefore\<close> and
  \<open>allocatedAfter\<close> say on which side of an address a model, its cubes and their uv arrays
  lie, and \<open>freshCube\<close> the same of one cube.
\<close>

definition untouched :: "store \<Rightarrow> store \<Rightarrow> bool" where
  "untouched s s' =
     (next_addr s \<le> next_addr s' \<and>
      (\<forall>x<next_addr s. models s' x = models s x \<and> cubes s' x = cubes s x \<and> uvs s' x = uvs s x))"

definition onlyUVWritten :: "store \<Rightarrow> store \<Rightarrow> bool" where
  "onlyUVWritten s s' =
     (next_addr s \<le> next_addr s' \<and>
      (\<forall>x<next_addr s. models s' x = models s x \<and> uvs s' x = uvs s x \<and>
          (cubes s' x)\<lparr>cube_uv := None\<rparr> = (cubes s x)\<lparr>cube_uv := None\<rparr>))"

definition cubeAddrs :: "addr MinecraftModel_of \<Rightarrow> addr list" where
  "cubeAddrs m =
     (case bedrockData m of None \<Rightarrow> []
      | Some bd \<Rightarrow> (case bones bd of None \<Rightarrow> [] | Some bs \<Rightarrow> concat (map bone_cubes bs)))"

definition allocatedAfter :: "addr \<Rightarrow> store \<Rightarrow> addr \<Rightarrow> bool" where
  "allocatedAfter n s a =
     (n \<le> a \<and>
      (\<forall>c\<in>set (cubeAddrs (models s a)). n \<le> c \<and> (\<forall>u. cube_uv (cubes s c) = Some u \<longrightarrow> n \<le> u)))"

definition allocatedBefore :: "addr \<Rightarrow> store \<Rightarrow> addr \<Rightarrow> bool" where
  "allocatedBefore n s a =
     (a < n \<and>
      (\<forall>c\<in>set (cubeAddrs (models s a)). c < n \<and> (\<forall>u. cube_uv (cubes s c) = Some u \<longrightarrow> u < n)))"

definition freshCube :: "addr \<Rightarrow> store \<Rightarrow> addr \<Rightarrow> bool" where
  "freshCube n s c = (n \<le> c \<and> c < next_addr s \<and> (\<forall>u. cube_uv (cubes s c) = Some u \<longrightarrow> n \<le> u))"

text \<open>
  \<open>keepsAtlas\<close>: the model has no \<^verbatim>\<open>bedrockData\<close>, or the size asked for is the recorded
  one.  \<open>hasBones\<close>: \<^verbatim>\<open>bedrockData.bones\<close> is there.  \<open>atlasOf\<close> is the recorded
  \<^verbatim>\<open>texture_size\<close>, and \<open>cubeCounts\<close> the bone names with the number of cubes of each.
\<close>

definition keepsAtlas :: "'c MinecraftModel_of \<Rightarrow> real \<Rightarrow> real \<Rightarrow> bool" where
  "keepsAtlas m w h = (case bedrockData m of None \<Rightarrow> True | Some bd \<Rightarrow> recordedSize bd = (w, h))"

definition hasBones :: "'c MinecraftModel_of \<Rightarrow> bool" where
  "hasBones m = (case bedrockData m of None \<Rightarrow> False | Some bd \<Rightarrow> bones bd \<noteq> None)"

definition atlasOf :: "'c MinecraftModel_of \<Rightarrow> vec2 option" where
  "atlasOf m = (case bedrockData m of None \<Rightarrow> None | Some bd \<Rightarrow> texture_size bd)"

definition cubeCounts :: "'c MinecraftModel_of \<Rightarrow> (string \<times> nat) list" where
  "cubeCounts m =
     (case bedrockData m of None \<Rightarrow> []
      | Some bd \<Rightarrow>
          (case bones bd of None \<Rightarrow> []
           | Some bs \<Rightarrow> map (\<lambda>b. (bone_name b, length (bone_cubes b))) bs))"

section \<open>Example models\<close>

text \<open>
  \<open>INITIAL_MODEL\<close> and the bones of \<open>STEVE_MODEL\<close> are those of constants.ts (their
  attachments left out of \<open>STEVE_bones\<close>); the other models are built for the statements
  below: a cube taller and a cube wider than the atlas, a cube of size zero and negative,
  \<open>INITIAL_MODEL\<close> carrying a stale uv origin and atlas size, a one-cube model with a
  given atlas size and uv origin for the rescaler, and \<open>STEVE_bones\<close> without the bone
  \<open>pelvis\<close>, which five of the other bones name as their parent; the stores hold
  \<open>INITIAL_MODEL\<close> without and with a uv origin, and a model with a recorded size of
  zero.  \<open>insideAtlas\<close> says
  that a cube's uv origin and footprint lie within an atlas of the given size;
  \<open>cubeSizes\<close>, \<open>uvOrigins\<close> and \<open>atlasSize\<close> read the cube sizes (of a model that
  \<open>packUVs\<close> does pack), the uv origins and the recorded atlas size of a model.
\<close>

definition INITIAL_MODEL :: MinecraftModel where
  "INITIAL_MODEL =
     \<lparr>model_type = ENTITY,
      bedrockData = Some
        \<lparr>format_version = ''1.12.0'', bedrock_identifier = ''hytale.unknown'',
         texture_size = Some (64, 64),
         bones = Some
           [\<lparr>bone_name = ''root'', bone_parent = None, bone_pivot = Some (0, 0, 0),
             bone_rotation = None,
             bone_cubes =
               [\<lparr>cube_origin = (-4, 0, -4), cube_size = (8, 8, 8), cube_rotation = None,
                 cube_pivot = None, cube_uv = None, cube_color = Some ''#60a5fa''\<rparr>],
             bone_attachments = Some [Inr \<lparr>att_name = ''ground'', att_position = (0, 0, 0)\<rparr>]\<rparr>]\<rparr>\<rparr>"

definition plainCube :: "vec3 \<Rightarrow> vec3 \<Rightarrow> ModelCube" where
  "plainCube org sz =
     \<lparr>cube_origin = org, cube_size = sz, cube_rotation = None, cube_pivot = None,
      cube_uv = None, cube_color = None\<rparr>"

definition plainBone :: "string \<Rightarrow> string option \<Rightarrow> vec3 \<Rightarrow> ModelCube list \<Rightarrow> ModelBone" where
  "plainBone n p pv cs =
     \<lparr>bone_name = n, bone_parent = p, bone_pivot = Some pv, bone_rotation = None,
      bone_cubes = cs, bone_attachments = None\<rparr>"

definition entityModel :: "ModelBone list \<Rightarrow> MinecraftModel" where
  "entityModel bs =
     \<lparr>model_type = ENTITY,
      bedrockData = Some \<lparr>format_version = ''1.12.0'', bedrock_identifier = ''geometry.example'',
                          texture_size = Some (64, 64), bones = Some bs\<rparr>\<rparr>"

definition STEVE_bones :: "ModelBone list" where
  "STEVE_bones =
     [plainBone ''root'' None (0, 0, 0) [],
      plainBone ''pelvis'' (Some ''root'') (0, 12, 0) [plainCube (-4, 12, -2) (8, 12, 4)],
      plainBone ''head'' (Some ''pelvis'') (0, 24, 0) [plainCube (-4, 24, -4) (8, 8, 8)],
      plainBone ''arm_right'' (Some ''pelvis'') (-5, 22, 0) [plainCube (-8, 12, -2) (4, 12, 4)],
      plainBone ''arm_left'' (Some ''pelvis'') (5, 22, 0) [plainCube (4, 12, -2) (4, 12, 4)],
      plainBone ''leg_right'' (Some ''pelvis'') (-1.9, 12, 0) [plainCube (-3.9, 0, -2) (4, 12, 4)],
      plainBone ''leg_left'' (Some ''pelvis'') (1.9, 12, 0) [plainCube (-0.1, 0, -2) (4, 12, 4)]]"

definition tallModel :: MinecraftModel where
  "tallModel = entityModel [plainBone ''post'' None (0, 0, 0) [plainCube (0, 0, 0) (1, 200, 1)]]"

definition wideModel :: MinecraftModel where
  "wideModel = entityModel [plainBone ''beam'' None (0, 0, 0) [plainCube (0, 0, 0) (100, 1, 1)]]"

definition degenerateBones :: "ModelBone list" where
  "degenerateBones =
     [plainBone ''body'' None (0, 0, 0) [plainCube (-4, 0, -4) (8, 8, 8), plainCube (0, 0, 0) (0, -1, 0)]]"

definition insideAtlas :: "real \<Rightarrow> vec2 \<Rightarrow> ModelCube \<Rightarrow> bool" where
  "insideAtlas s ts cube =
     (case cube_uv cube of None \<Rightarrow> False
      | Some (u, v) \<Rightarrow>
          0 \<le> u \<and> 0 \<le> v \<and>
          u + real_of_int (fst (getBoxUVSize cube s)) \<le> fst ts \<and>
          v + real_of_int (snd (getBoxUVSize cube s)) \<le> snd ts)"

definition cubeSizes :: "MinecraftModel \<Rightarrow> vec3 list list option" where
  "cubeSizes m =
     (if model_type m = ENTITY
      then (case bedrockData m of None \<Rightarrow> None | Some bd \<Rightarrow> map_option sizeGrid (bones bd))
      else None)"

definition uvOrigins :: "MinecraftModel \<Rightarrow> vec2 option list list option" where
  "uvOrigins m = (case bedrockData m of None \<Rightarrow> None | Some bd \<Rightarrow> map_option uvGrid (bones bd))"

definition atlasSize :: "MinecraftModel \<Rightarrow> vec2 option" where
  "atlasSize m = (case bedrockData m of None \<Rightarrow> None | Some bd \<Rightarrow> texture_size bd)"

definition staleModel :: MinecraftModel where
  "staleModel =
     \<lparr>model_type = ENTITY,
      bedrockData = Some
        \<lparr>format_version = ''1.12.0'', bedrock_identifier = ''hytale.unknown'',
         texture_size = Some (256, 256),
         bones = Some
           [\<lparr>bone_name = ''root'', bone_parent = None, bone_pivot = Some (0, 0, 0),
             bone_rotation = None,
             bone_cubes =
               [\<lparr>cube_origin = (-4, 0, -4), cube_size = (8, 8, 8), cube_rotation = None,
                 cube_pivot = None, cube_uv = Some (5, 7), cube_color = Some ''#60a5fa''\<rparr>],
             bone_attachments = Some [Inr \<lparr>att_name = ''ground'', att_position = (0, 0, 0)\<rparr>]\<rparr>]\<rparr>\<rparr>"

definition packedInitialCube :: ModelCube where
  "packedInitialCube =
     \<lparr>cube_origin = (-4, 0, -4), cube_size = (8, 8, 8), cube_rotation = None,
      cube_pivot = None, cube_uv = Some (0, 0), cube_color = Some ''#60a5fa''\<rparr>"

definition atlasModel :: "vec2 \<Rightarrow> nvec2 option \<Rightarrow> JsModel" where
  "atlasModel ts uv =
     \<lparr>model_type = ENTITY,
      bedrockData = Some
        \<lparr>format_version = ''1.12.0'', bedrock_identifier = ''geometry.example'',
         texture_size = Some ts,
         bones = Some
           [\<lparr>bone_name = ''root'', bone_parent = None, bone_pivot = Some (0, 0, 0),
             bone_rotation = None,
             bone_cubes =
               [\<lparr>cube_origin = (-4, 0, -4), cube_size = (8, 8, 8), cube_rotation = None,
                 cube_pivot = None, cube_uv = uv, cube_color = None\<rparr>],
             bone_attachments = None\<rparr>]\<rparr>\<rparr>"

definition headlessBones :: "ModelBone list" where
  "headlessBones =
     [plainBone ''root'' None (0, 0, 0) [],
      plainBone ''head'' (Some ''pelvis'') (0, 24, 0) [plainCube (-4, 24, -4) (8, 8, 8)],
      plainBone ''arm_right'' (Some ''pelvis'') (-5, 22, 0) [plainCube (-8, 12, -2) (4, 12, 4)],
      plainBone ''arm_left'' (Some ''pelvis'') (5, 22, 0) [plainCube (4, 12, -2) (4, 12, 4)],
      plainBone ''leg_right'' (Some ''pelvis'') (-1.9, 12, 0) [plainCube (-3.9, 0, -2) (4, 12, 4)],
      plainBone ''leg_left'' (Some ''pelvis'') (1.9, 12, 0) [plainCube (-0.1, 0, -2) (4, 12, 4)]]"

definition initialStore :: store where
  "initialStore =
     \<lparr>models = (\<lambda>_. \<lparr>model_type = GENERIC, bedrockData = None\<rparr>)
        (0 := \<lparr>model_type = ENTITY,
               bedrockData = Some
                 \<lparr>format_version = ''1.12.0'', bedrock_identifier = ''hytale.unknown'',
                  texture_size = Some (64, 64),
                  bones = Some
                    [\<lparr>bone_name = ''root'', bone_parent = None, bone_pivot = Some (0, 0, 0),
                      bone_rotation = None, bone_cubes = [1],
                      bone_attachments = Some [Inr \<lparr>att_name = ''ground'', att_position = (0, 0, 0)\<rparr>]\<rparr>]\<rparr>\<rparr>),
      cubes = (\<lambda>_. \<lparr>cube_origin = (0, 0, 0), cube_size = (0, 0, 0), cube_rotation = None,
                     cube_pivot = None, cube_uv = None, cube_color = None\<rparr>)
        (1 := \<lparr>cube_origin = (-4, 0, -4), cube_size = (8, 8, 8), cube_rotation = None,
               cube_pivot = None, cube_uv = None, cube_color = Some ''#60a5fa''\<rparr>),
      uvs = (\<lambda>_. (Finite 0, Finite 0)),
      next_addr = 2\<rparr>"


definition paintedStore :: store where
  "paintedStore =
     \<lparr>models = (\<lambda>_. \<lparr>model_type = GENERIC, bedrockData = None\<rparr>)
        (0 := \<lparr>model_type = ENTITY,
               bedrockData = Some
                 \<lparr>format_version = ''1.12.0'', bedrock_identifier = ''hytale.unknown'',
                  texture_size = Some (64, 64),
                  bones = Some
                    [\<lparr>bone_name = ''root'', bone_parent = None, bone_pivot = Some (0, 0, 0),
                      bone_rotation = None, bone_cubes = [1],
                      bone_attachments = Some [Inr \<lparr>att_name = ''ground'', att_position = (0, 0, 0)\<rparr>]\<rparr>]\<rparr>\<rparr>),
      cubes = (\<lambda>_. \<lparr>cube_origin = (0, 0, 0), cube_size = (0, 0, 0), cube_rotation = None,
                     cube_pivot = None, cube_uv = None, cube_color = None\<rparr>)
        (1 := \<lparr>cube_origin = (-4, 0, -4), cube_size = (8, 8, 8), cube_rotation = None,
               cube_pivot = None, cube_uv = Some 2, cube_color = Some ''#60a5fa''\<rparr>),
      uvs = (\<lambda>_. (Finite 0, Finite 0))(2 := (Finite 26, Finite 18)),
      next_addr = 3\<rparr>"

definition zeroStore :: store where
  "zeroStore =
     \<lparr>models = (\<lambda>_. \<lparr>model_type = GENERIC, bedrockData = None\<rparr>)
        (0 := \<lparr>model_type = ENTITY,
               bedrockData = Some
                 \<lparr>format_version = ''1.12.0'', bedrock_identifier = ''hytale.unknown'',
                  texture_size = Some (0, 0),
                  bones = Some
                    [\<lparr>bone_name = ''root'', bone_parent = None, bone_pivot = Some (0, 0, 0),
                      bone_rotation = None, bone_cubes = [1, 2],
                      bone_attachments = None\<rparr>]\<rparr>\<rparr>),
      cubes = (\<lambda>_. \<lparr>cube_origin = (0, 0, 0), cube_size = (0, 0, 0), cube_rotation = None,
                     cube_pivot = None, cube_uv = None, cube_color = None\<rparr>)
        (1 := \<lparr>cube_origin = (-4, 0, -4), cube_size = (8, 8, 8), cube_rotation = None,
               cube_pivot = None, cube_uv = Some 3, cube_color = None\<rparr>),
      uvs = (\<lambda>_. (Finite 0, Finite 0))(3 := (Finite 0, Finite 5)),
      next_addr = 4\<rparr>"

section \<open>Properties\<close>

subsection \<open>The sizing loop returns\<close>

lemma growDim_pos_returns:
  "0 < dm \<Longrightarrow> \<exists>d. growDim dm a = Some d \<and> dm \<le> d"
proof (induction "nat (\<lceil>real_of_int a * 1.5\<rceil> - dm * dm)" arbitrary: dm rule: less_induct)
  case less
  show ?case
  proof (cases "real_of_int (dm * dm) < real_of_int a * 1.5")
    case True
    then have c: "dm * dm < \<lceil>real_of_int a * 1.5\<rceil>"
      by (simp add: less_ceiling_iff)
    have "dm * dm < (dm * 2) * (dm * 2)"
      using less.prems by (simp add: mult_pos_pos)
    with c have "nat (\<lceil>real_of_int a * 1.5\<rceil> - (dm * 2) * (dm * 2)) < nat (\<lceil>real_of_int a * 1.5\<rceil> - dm * dm)"
      by linarith
    moreover have "0 < dm * 2" using less.prems by simp
    ultimately obtain d where d: "growDim (dm * 2) a = Some d" "dm * 2 \<le> d"
      using less.hyps by blast
    have "growDim dm a = growDim (dm * 2) a"
      using True by (subst growDim.simps) simp
    with d less.prems show ?thesis by auto
  next
    case False
    then have "growDim dm a = Some dm"
      by (subst growDim.simps) simp
    then show ?thesis by simp
  qed
qed

lemma growDim_returns: "\<exists>d. growDim MIN_TEXTURE_SIZE a = Some d \<and> MIN_TEXTURE_SIZE \<le> d"
  by (rule growDim_pos_returns) (simp add: MIN_TEXTURE_SIZE_def)

lemma enumerate_nth: "enumerate 0 xs = map (\<lambda>i. (i, xs ! i)) [0..<length xs]"
  by (rule nth_equalityI) (simp_all add: nth_enumerate_eq)

lemma collectItems_alt:
  "collectItems bs s =
     concat (map (\<lambda>b. map (\<lambda>c. mkItem s b (c, cubeAt bs b c)) [0..<length (bone_cubes (bs ! b))])
                 [0..<length bs])"
  by (simp add: collectItems_def enumerate_nth comp_def cubeAt_def)

lemma item_id_mkItem [simp]: "item_id (mkItem s b ic) = (b, fst ic)"
  by (simp add: mkItem_def Let_def)

lemma cubeRef_mkItem [simp]: "cubeRef (mkItem s b ic) = snd ic"
  by (simp add: mkItem_def Let_def)

lemma wh_mkItem [simp]: "(item_w (mkItem s b ic), item_h (mkItem s b ic)) = getBoxUVSize (snd ic) s"
  by (simp add: mkItem_def Let_def)

lemma set_collectItems:
  "set (collectItems bs s) = {mkItem s b (c, cubeAt bs b c) | b c. validIdx bs b c}"
  unfolding collectItems_alt validIdx_def by auto blast

lemma ids_collectItems:
  "map item_id (collectItems bs s) =
     concat (map (\<lambda>b. map (\<lambda>c. (b, c)) [0..<length (bone_cubes (bs ! b))]) [0..<length bs])"
  by (simp add: collectItems_alt map_concat comp_def)

lemma distinct_concat_Pair:
  "distinct xs \<Longrightarrow> (\<forall>x\<in>set xs. distinct (f x)) \<Longrightarrow>
   distinct (concat (map (\<lambda>x. map (Pair x) (f x)) xs))"
  by (induction xs) (auto simp: distinct_map inj_on_def)

lemma distinct_ids_collectItems: "distinct (map item_id (collectItems bs s))"
  unfolding ids_collectItems by (rule distinct_concat_Pair) simp_all

lemma set_ids_collectItems:
  "set (map item_id (collectItems bs s)) = {(b, c). validIdx bs b c}"
  unfolding ids_collectItems validIdx_def by auto

lemma sort_key_props:
  "set (sort_key f xs) = set xs" "distinct (map g (sort_key f xs)) = distinct (map g xs)"
  by (simp_all add: distinct_map)

lemma packLoop_placements:
  "fst (packLoop tw st its) = map2 setUV (placements tw st its) its"
  by (induction its arbitrary: st) (simp_all add: case_prod_beta)

lemma length_placements [simp]: "length (placements tw st its) = length its"
  by (induction its arbitrary: st) auto

lemma item_setUV [simp]:
  "item_id (setUV p it) = item_id it" "item_w (setUV p it) = item_w it"
  "item_h (setUV p it) = item_h it"
  "cube_uv (cubeRef (setUV p it)) = Some (real_of_int (fst p), real_of_int (snd p))"
  by (simp_all add: setUV_def)

lemma ids_packLoop: "map item_id (fst (packLoop tw st its)) = map item_id its"
  unfolding packLoop_placements
  by (rule nth_equalityI) simp_all

lemma length_reapply [simp]: "length (reapply it bs) = length bs"
  by (simp add: reapply_def split: prod.splits)

lemma nth_reapply:
  "b < length bs \<Longrightarrow>
   reapply it bs ! b =
     (if fst (item_id it) = b
      then (bs ! b)\<lparr>bone_cubes := (bone_cubes (bs ! b))[snd (item_id it) :=
              (bone_cubes (bs ! b) ! snd (item_id it))\<lparr>cube_uv := cube_uv (cubeRef it)\<rparr>]\<rparr>
      else bs ! b)"
  by (simp add: reapply_def nth_list_update case_prod_beta)

lemma validIdx_reapply [simp]: "validIdx (reapply it bs) b c = validIdx bs b c"
  by (cases "b < length bs") (simp_all add: validIdx_def nth_reapply)

lemma cubeAt_reapply:
  "validIdx bs b c \<Longrightarrow>
   cubeAt (reapply it bs) b c =
     (if item_id it = (b, c) then (cubeAt bs b c)\<lparr>cube_uv := cube_uv (cubeRef it)\<rparr>
      else cubeAt bs b c)"
  by (cases "item_id it") (auto simp: validIdx_def cubeAt_def nth_reapply nth_list_update)

lemma map_stripCube_update:
  "map stripCube (cs[k := (cs ! k)\<lparr>cube_uv := u\<rparr>]) = map stripCube cs"
  by (cases "k < length cs")
     (auto simp: nth_list_update stripCube_def list_update_beyond intro!: nth_equalityI)

lemma strip_reapply [simp]: "map stripBone (reapply it bs) = map stripBone bs"
proof (rule nth_equalityI)
  show "length (map stripBone (reapply it bs)) = length (map stripBone bs)" by simp
next
  fix i assume "i < length (map stripBone (reapply it bs))"
  then have i: "i < length bs" by simp
  have "stripBone (reapply it bs ! i) = stripBone (bs ! i)"
    by (simp add: nth_reapply i stripBone_def map_stripCube_update)
  then show "map stripBone (reapply it bs) ! i = map stripBone bs ! i"
    using i by simp
qed

lemma strip_fold_reapply [simp]: "map stripBone (fold reapply its bs) = map stripBone bs"
  by (induction its arbitrary: bs) auto

lemma validIdx_fold_reapply [simp]: "validIdx (fold reapply its bs) b c = validIdx bs b c"
  by (induction its arbitrary: bs) auto

lemma uv_fold_reapply:
  "distinct (map item_id its) \<Longrightarrow> validIdx bs b c \<Longrightarrow>
   cube_uv (cubeAt (fold reapply its bs) b c) =
     (case map_of (map (\<lambda>it. (item_id it, cube_uv (cubeRef it))) its) (b, c) of
        Some u \<Rightarrow> u | None \<Rightarrow> cube_uv (cubeAt bs b c))"
proof (induction its arbitrary: bs)
  case Nil
  then show ?case by simp
next
  case (Cons it its)
  have notin: "item_id it \<notin> item_id ` set its" using Cons.prems(1) by simp
  have v: "validIdx (reapply it bs) b c" using Cons.prems(2) by simp
  have d: "distinct (map item_id its)" using Cons.prems(1) by simp
  show ?case
  proof (cases "item_id it = (b, c)")
    case True
    then have "map_of (map (\<lambda>it. (item_id it, cube_uv (cubeRef it))) its) (b, c) = None"
      using notin by (auto simp: map_of_eq_None_iff image_image)
    then show ?thesis
      using True Cons.IH [OF d v] Cons.prems(2) by (simp add: cubeAt_reapply)
  next
    case False
    then show ?thesis
      using Cons.IH [OF d v] Cons.prems(2) by (simp add: cubeAt_reapply split: option.splits)
  qed
qed

lemma overlapI_sym: "overlapI r1 r2 = overlapI r2 r1"
  by (auto simp: overlapI_def split: prod.splits)

lemma place_rowHeight: "0 \<le> rowHeight st \<Longrightarrow> 0 \<le> rowHeight (snd (place tw st it))"
  by (auto simp: place_def Let_def)

lemma place_keeps_clear:
  "0 \<le> rowHeight st \<Longrightarrow> 0 \<le> item_w it \<Longrightarrow> clear st r \<Longrightarrow>
   clear (snd (place tw st it)) r"
  by (auto simp: place_def Let_def clear_def PADDING_def split: prod.splits)

lemma place_avoids_clear:
  "0 \<le> rowHeight st \<Longrightarrow> clear st r \<Longrightarrow>
   \<not> overlapI r (rectOf (fst (place tw st it)) it)"
  by (auto simp: place_def Let_def clear_def overlapI_def rectOf_def PADDING_def split: prod.splits)

lemma place_new_clear:
  "clear (snd (place tw st it)) (rectOf (fst (place tw st it)) it)"
  by (auto simp: place_def Let_def clear_def rectOf_def PADDING_def)

lemma placements_avoid_clear:
  "0 \<le> rowHeight st \<Longrightarrow> \<forall>it\<in>set its. 0 \<le> item_w it \<Longrightarrow> clear st r \<Longrightarrow>
   i < length its \<Longrightarrow> \<not> overlapI r (rectOf (placements tw st its ! i) (its ! i))"
proof (induction its arbitrary: st i)
  case Nil
  then show ?case by simp
next
  case (Cons it its)
  show ?case
  proof (cases i)
    case 0
    then show ?thesis using Cons.prems by (simp add: place_avoids_clear)
  next
    case (Suc k)
    have "\<not> overlapI r (rectOf (placements tw (snd (place tw st it)) its ! k) (its ! k))"
      using Cons.prems Suc
      by (intro Cons.IH) (simp_all add: place_rowHeight place_keeps_clear)
    then show ?thesis using Suc by simp
  qed
qed

lemma placements_disjoint_lt:
  "0 \<le> rowHeight st \<Longrightarrow> \<forall>it\<in>set its. 0 \<le> item_w it \<Longrightarrow> i < j \<Longrightarrow> j < length its \<Longrightarrow>
   \<not> overlapI (rectOf (placements tw st its ! i) (its ! i))
               (rectOf (placements tw st its ! j) (its ! j))"
proof (induction its arbitrary: st i j)
  case Nil
  then show ?case by simp
next
  case (Cons it its)
  obtain k where j: "j = Suc k" using Cons.prems(3) by (cases j) auto
  have rh: "0 \<le> rowHeight (snd (place tw st it))"
    using Cons.prems(1) by (rule place_rowHeight)
  have ws: "\<forall>it\<in>set its. 0 \<le> item_w it" using Cons.prems(2) by simp
  have k: "k < length its" using Cons.prems(4) j by simp
  show ?case
  proof (cases i)
    case 0
    have "\<not> overlapI (rectOf (fst (place tw st it)) it)
            (rectOf (placements tw (snd (place tw st it)) its ! k) (its ! k))"
      using rh ws place_new_clear k by (rule placements_avoid_clear)
    then show ?thesis using 0 j by simp
  next
    case (Suc l)
    have "\<not> overlapI (rectOf (placements tw (snd (place tw st it)) its ! l) (its ! l))
            (rectOf (placements tw (snd (place tw st it)) its ! k) (its ! k))"
      using rh ws _ k by (rule Cons.IH) (use Cons.prems(3) Suc j in simp)
    then show ?thesis using Suc j by simp
  qed
qed

lemma placements_disjoint:
  assumes "0 \<le> rowHeight st" "\<forall>it\<in>set its. 0 \<le> item_w it"
    and "i < length its" "j < length its" "i \<noteq> j"
  shows "\<not> overlapI (rectOf (placements tw st its ! i) (its ! i))
                    (rectOf (placements tw st its ! j) (its ! j))"
proof (cases "i < j")
  case True
  then show ?thesis using assms placements_disjoint_lt by blast
next
  case False
  then have "j < i" using assms(5) by simp
  then have "\<not> overlapI (rectOf (placements tw st its ! j) (its ! j))
                        (rectOf (placements tw st its ! i) (its ! i))"
    using assms placements_disjoint_lt by blast
  then show ?thesis by (subst overlapI_sym)
qed

lemma packUVs_entity:
  assumes "model_type m = ENTITY" "bedrockData m = Some bd" "bones bd = Some bs"
  obtains dm where
    "growDim MIN_TEXTURE_SIZE (totalArea (sortedItems bs dn)) = Some dm"
    "MIN_TEXTURE_SIZE \<le> dm"
    "packUVs m dn = Some (m\<lparr>bedrockData := Some (bd\<lparr>
        texture_size := Some (real_of_int (atlasSide dm bs dn), real_of_int (atlasSide dm bs dn)),
        bones := Some (packedBones dm bs dn)\<rparr>)\<rparr>)"
proof -
  obtain dm where dm: "growDim MIN_TEXTURE_SIZE (totalArea (sortedItems bs dn)) = Some dm"
      "MIN_TEXTURE_SIZE \<le> dm"
    using growDim_returns by blast
  have "packUVs m dn = Some (m\<lparr>bedrockData := Some (bd\<lparr>
        texture_size := Some (real_of_int (atlasSide dm bs dn), real_of_int (atlasSide dm bs dn)),
        bones := Some (packedBones dm bs dn)\<rparr>)\<rparr>)"
    using assms dm(1)
    by (simp add: packUVs_def sortedItems_def [symmetric] initState_def [symmetric]
        packedBones_def atlasSide_def Let_def max_def split: prod.splits)
  with dm show ?thesis using that by blast
qed

lemma set_sortedItems: "set (sortedItems bs dn) = set (collectItems bs (densityScale dn))"
  by (simp add: sortedItems_def sortItems_def)

lemma distinct_ids_sortedItems: "distinct (map item_id (sortedItems bs dn))"
  using distinct_ids_collectItems [of bs "densityScale dn"]
  by (simp add: sortedItems_def sortItems_def distinct_map)

lemma sortedItems_index:
  assumes "validIdx bs b c"
  obtains i where "i < length (sortedItems bs dn)"
    "sortedItems bs dn ! i = mkItem (densityScale dn) b (c, cubeAt bs b c)"
proof -
  have "mkItem (densityScale dn) b (c, cubeAt bs b c) \<in> set (sortedItems bs dn)"
    using assms unfolding set_sortedItems set_collectItems by blast
  then show ?thesis using that by (auto simp: in_set_conv_nth)
qed

lemma strip_cubeAt:
  assumes "map stripBone bs' = map stripBone bs" "validIdx bs b c"
  shows "stripCube (cubeAt bs' b c) = stripCube (cubeAt bs b c)"
proof -
  have l: "length bs' = length bs" using assms(1) by (metis length_map)
  have b: "b < length bs" using assms(2) by (simp add: validIdx_def)
  have "stripBone (bs' ! b) = stripBone (bs ! b)"
    using assms(1) b l by (metis nth_map)
  then have "bone_cubes (stripBone (bs' ! b)) = bone_cubes (stripBone (bs ! b))"
    by simp
  then have m: "map stripCube (bone_cubes (bs' ! b)) = map stripCube (bone_cubes (bs ! b))"
    by (simp add: stripBone_def)
  have c: "c < length (bone_cubes (bs ! b))" using assms(2) by (simp add: validIdx_def)
  have "length (bone_cubes (bs' ! b)) = length (bone_cubes (bs ! b))"
    using m by (metis length_map)
  then show ?thesis using m c by (metis cubeAt_def nth_map)
qed

lemma strip_size:
  "stripCube c1 = stripCube c2 \<Longrightarrow> cube_size c1 = cube_size c2"
proof -
  assume "stripCube c1 = stripCube c2"
  then have "cube_size (stripCube c1) = cube_size (stripCube c2)" by simp
  then show ?thesis by (simp add: stripCube_def)
qed

lemma strip_getBoxUVSize:
  "stripCube c1 = stripCube c2 \<Longrightarrow> getBoxUVSize c1 s = getBoxUVSize c2 s"
  using strip_size [of c1 c2] by (simp add: getBoxUVSize_def)

lemma packed_cube:
  assumes v: "validIdx bs b c" and i: "i < length (sortedItems bs dn)"
    and it: "sortedItems bs dn ! i = mkItem (densityScale dn) b (c, cubeAt bs b c)"
  shows "cube_uv (cubeAt (packedBones dm bs dn) b c) =
           Some (real_of_int (fst (placements dm (initState dm) (sortedItems bs dn) ! i)),
                 real_of_int (snd (placements dm (initState dm) (sortedItems bs dn) ! i)))"
    and "getBoxUVSize (cubeAt (packedBones dm bs dn) b c) (densityScale dn) =
           (item_w (sortedItems bs dn ! i), item_h (sortedItems bs dn ! i))"
proof -
  let ?its = "sortedItems bs dn"
  let ?its' = "fst (packLoop dm (initState dm) ?its)"
  let ?al = "map (\<lambda>it. (item_id it, cube_uv (cubeRef it))) ?its'"
  have ids: "map item_id ?its' = map item_id ?its" by (rule ids_packLoop)
  have d: "distinct (map item_id ?its')" using distinct_ids_sortedItems ids by simp
  have len: "length ?its' = length ?its" using ids by (metis length_map)
  have nth: "?its' ! i = setUV (placements dm (initState dm) ?its ! i) (?its ! i)"
    using i by (simp add: packLoop_placements)
  have "(item_id (?its' ! i), cube_uv (cubeRef (?its' ! i))) \<in> set ?al"
    using i len by (auto simp: in_set_conv_nth intro!: exI [of _ i])
  moreover have "distinct (map fst ?al)" using d by (simp add: comp_def)
  ultimately have "map_of ?al (item_id (?its' ! i)) = Some (cube_uv (cubeRef (?its' ! i)))"
    by (simp add: map_of_eq_Some_iff)
  then have "map_of ?al (b, c) =
      Some (Some (real_of_int (fst (placements dm (initState dm) ?its ! i)),
                  real_of_int (snd (placements dm (initState dm) ?its ! i))))"
    by (simp add: nth it)
  then show "cube_uv (cubeAt (packedBones dm bs dn) b c) =
           Some (real_of_int (fst (placements dm (initState dm) ?its ! i)),
                 real_of_int (snd (placements dm (initState dm) ?its ! i)))"
    unfolding packedBones_def using uv_fold_reapply [OF d v] by simp
  have "stripCube (cubeAt (packedBones dm bs dn) b c) = stripCube (cubeAt bs b c)"
    unfolding packedBones_def by (rule strip_cubeAt [OF _ v]) simp
  then have "getBoxUVSize (cubeAt (packedBones dm bs dn) b c) (densityScale dn) =
      getBoxUVSize (cubeAt bs b c) (densityScale dn)"
    by (rule strip_getBoxUVSize)
  then show "getBoxUVSize (cubeAt (packedBones dm bs dn) b c) (densityScale dn) =
           (item_w (?its ! i), item_h (?its ! i))"
    by (simp add: it)
qed

lemma validIdx_packedBones [simp]: "validIdx (packedBones dm bs dn) b c = validIdx bs b c"
  by (simp add: packedBones_def)

lemma packedBones_disjoint:
  assumes nonneg: "\<forall>it\<in>set (collectItems bs (densityScale dn)). 0 \<le> item_w it"
    and v1: "validIdx bs b c" and v2: "validIdx bs b' c'" and ne: "(b, c) \<noteq> (b', c')"
  shows "cube_uv (cubeAt (packedBones dm bs dn) b c) \<noteq> None \<and>
         cube_uv (cubeAt (packedBones dm bs dn) b' c') \<noteq> None \<and>
         \<not> paddedOverlap (densityScale dn) (cubeAt (packedBones dm bs dn) b c)
                                           (cubeAt (packedBones dm bs dn) b' c')"
proof -
  let ?its = "sortedItems bs dn"
  let ?pl = "placements dm (initState dm) ?its"
  obtain i where i: "i < length ?its" "?its ! i = mkItem (densityScale dn) b (c, cubeAt bs b c)"
    using v1 by (rule sortedItems_index)
  obtain j where j: "j < length ?its" "?its ! j = mkItem (densityScale dn) b' (c', cubeAt bs b' c')"
    using v2 by (rule sortedItems_index)
  have "item_id (?its ! i) \<noteq> item_id (?its ! j)" using ne by (simp add: i j)
  then have ij: "i \<noteq> j" by auto
  have w: "\<forall>it\<in>set ?its. 0 \<le> item_w it" using nonneg by (simp add: set_sortedItems)
  have rh: "0 \<le> rowHeight (initState dm)" by (simp add: initState_def)
  have no: "\<not> overlapI (rectOf (?pl ! i) (?its ! i)) (rectOf (?pl ! j) (?its ! j))"
    using rh w i(1) j(1) ij by (rule placements_disjoint)
  note ci = packed_cube [OF v1 i, of dm]
  note cj = packed_cube [OF v2 j, of dm]
  show ?thesis
    using no unfolding paddedOverlap_def overlapI_def rectOf_def ci cj
    by (simp add: case_prod_beta add.assoc del: of_int_add flip: of_int_add)
qed

lemma sizeGrid_validIdx:
  assumes "sizeGrid bs1 = sizeGrid bs2"
  shows "length bs1 = length bs2"
    and "b < length bs1 \<Longrightarrow> length (bone_cubes (bs1 ! b)) = length (bone_cubes (bs2 ! b))"
    and "validIdx bs1 b c = validIdx bs2 b c"
    and "validIdx bs1 b c \<Longrightarrow> cube_size (cubeAt bs1 b c) = cube_size (cubeAt bs2 b c)"
proof -
  show l: "length bs1 = length bs2" using assms unfolding sizeGrid_def by (rule map_eq_imp_length_eq)
  have row: "map cube_size (bone_cubes (bs1 ! b)) = map cube_size (bone_cubes (bs2 ! b))"
    if "b < length bs1" for b
  proof -
    have "sizeGrid bs1 ! b = sizeGrid bs2 ! b" using assms by simp
    then show ?thesis using that l by (simp add: sizeGrid_def)
  qed
  show l2: "length (bone_cubes (bs1 ! b)) = length (bone_cubes (bs2 ! b))" if "b < length bs1"
    using row [OF that] by (rule map_eq_imp_length_eq)
  show "validIdx bs1 b c = validIdx bs2 b c"
    using l l2 by (auto simp: validIdx_def)
  show "cube_size (cubeAt bs1 b c) = cube_size (cubeAt bs2 b c)" if "validIdx bs1 b c"
  proof -
    have b: "b < length bs1" and c: "c < length (bone_cubes (bs1 ! b))"
      using that by (simp_all add: validIdx_def)
    have "map cube_size (bone_cubes (bs1 ! b)) ! c = map cube_size (bone_cubes (bs2 ! b)) ! c"
      using row [OF b] by simp
    then show ?thesis using c l2 [OF b] by (simp add: cubeAt_def)
  qed
qed

lemma geom_mkItem: "geom (mkItem s b (c, cube)) = ((b, c), getBoxUVSize cube s)"
  by (simp add: geom_def mkItem_def Let_def)

lemma getBoxUVSize_size:
  "cube_size c1 = cube_size c2 \<Longrightarrow> getBoxUVSize c1 s = getBoxUVSize c2 s"
  by (simp add: getBoxUVSize_def)

lemma geom_collectItems:
  assumes "sizeGrid bs1 = sizeGrid bs2"
  shows "map geom (collectItems bs1 s) = map geom (collectItems bs2 s)"
proof -
  note g = sizeGrid_validIdx [OF assms]
  have "map (\<lambda>c. geom (mkItem s b (c, cubeAt bs1 b c))) [0..<length (bone_cubes (bs1 ! b))] =
        map (\<lambda>c. geom (mkItem s b (c, cubeAt bs2 b c))) [0..<length (bone_cubes (bs2 ! b))]"
    if "b < length bs1" for b
  proof -
    have "geom (mkItem s b (c, cubeAt bs1 b c)) = geom (mkItem s b (c, cubeAt bs2 b c))"
      if "c < length (bone_cubes (bs1 ! b))" for c
    proof -
      have "cube_size (cubeAt bs1 b c) = cube_size (cubeAt bs2 b c)"
        using g(4) [of b c] that \<open>b < length bs1\<close> by (simp add: validIdx_def)
      then have "getBoxUVSize (cubeAt bs1 b c) s = getBoxUVSize (cubeAt bs2 b c) s"
        by (rule getBoxUVSize_size)
      then show ?thesis by (simp add: geom_mkItem)
    qed
    then show ?thesis using g(2) [OF that] by simp
  qed
  then show ?thesis
    unfolding collectItems_alt map_concat using g(1)
    by (auto simp: comp_def intro!: arg_cong [where f = concat])
qed

lemma map_insort_key:
  "map f (insort_key (\<lambda>x. k (f x)) a xs) = insort_key k (f a) (map f xs)"
  by (induction xs) auto

lemma map_sort_key:
  "map f (sort_key (\<lambda>x. k (f x)) xs) = sort_key k (map f xs)"
  by (induction xs) (simp_all add: map_insort_key)

lemma geom_sortItems:
  "map geom (sortItems its) = sort_key (\<lambda>g. - snd (snd g)) (map geom its)"
  unfolding sortItems_def
  using map_sort_key [of geom "\<lambda>g. - snd (snd g)" its] by (simp add: geom_def)

lemma geom_sortedItems:
  "sizeGrid bs1 = sizeGrid bs2 \<Longrightarrow> map geom (sortedItems bs1 dn) = map geom (sortedItems bs2 dn)"
  using geom_collectItems [of bs1 bs2 "densityScale dn"]
  by (simp add: sortedItems_def geom_sortItems)

lemma totalArea_geom_aux:
  "map geom its1 = map geom its2 \<Longrightarrow>
   foldl (\<lambda>acc it. acc + item_w it * item_h it) a its1 =
   foldl (\<lambda>acc it. acc + item_w it * item_h it) a its2"
proof (induction its1 arbitrary: its2 a)
  case Nil
  then show ?case by simp
next
  case (Cons it its1)
  obtain it2 its2' where its2: "its2 = it2 # its2'" using Cons.prems by (cases its2) auto
  have g: "geom it = geom it2" "map geom its1 = map geom its2'"
    using Cons.prems its2 by simp_all
  have "item_w it = item_w it2" "item_h it = item_h it2"
    using g(1) by (simp_all add: geom_def)
  then show ?case using Cons.IH [OF g(2)] by (simp add: its2)
qed

lemma totalArea_geom: "map geom its1 = map geom its2 \<Longrightarrow> totalArea its1 = totalArea its2"
  unfolding totalArea_def by (rule totalArea_geom_aux)

lemma place_geom: "geom it1 = geom it2 \<Longrightarrow> place tw st it1 = place tw st it2"
  by (simp add: place_def geom_def)

lemma packLoop_geom:
  "map geom its1 = map geom its2 \<Longrightarrow>
   placements tw st its1 = placements tw st its2 \<and>
   snd (packLoop tw st its1) = snd (packLoop tw st its2)"
proof (induction its1 arbitrary: its2 st)
  case Nil
  then show ?case by simp
next
  case (Cons it its1)
  obtain it2 its2' where its2: "its2 = it2 # its2'" using Cons.prems by (cases its2) auto
  have p: "place tw st it = place tw st it2" using Cons.prems its2 by (intro place_geom) simp
  have "map geom its1 = map geom its2'" using Cons.prems its2 by simp
  from Cons.IH [OF this, of "snd (place tw st it2)"]
  have "placements tw (snd (place tw st it2)) its1 = placements tw (snd (place tw st it2)) its2'"
    and "snd (packLoop tw (snd (place tw st it2)) its1) =
         snd (packLoop tw (snd (place tw st it2)) its2')"
    by simp_all
  then show ?case
    unfolding its2 by (simp add: p case_prod_beta)
qed

lemma ids_geom: "map geom its1 = map geom its2 \<Longrightarrow> map item_id its1 = map item_id its2"
proof -
  assume "map geom its1 = map geom its2"
  then have "map fst (map geom its1) = map fst (map geom its2)" by simp
  then show ?thesis by (simp add: comp_def geom_def)
qed

lemma packedBones_uv_geom:
  assumes sg: "sizeGrid bs1 = sizeGrid bs2" and v: "validIdx bs1 b c"
  shows "cube_uv (cubeAt (packedBones dm bs1 dn) b c) =
         cube_uv (cubeAt (packedBones dm bs2 dn) b c)"
proof -
  let ?its1 = "sortedItems bs1 dn" and ?its2 = "sortedItems bs2 dn"
  have g: "map geom ?its1 = map geom ?its2" using sg by (rule geom_sortedItems)
  then have ids: "map item_id ?its1 = map item_id ?its2" by (rule ids_geom)
  then have len: "length ?its1 = length ?its2" by (rule map_eq_imp_length_eq)
  have v2: "validIdx bs2 b c" using sizeGrid_validIdx(3) [OF sg] v by simp
  obtain i where i: "i < length ?its1" "?its1 ! i = mkItem (densityScale dn) b (c, cubeAt bs1 b c)"
    using v by (rule sortedItems_index)
  obtain j where j: "j < length ?its2" "?its2 ! j = mkItem (densityScale dn) b (c, cubeAt bs2 b c)"
    using v2 by (rule sortedItems_index)
  have "map item_id ?its1 ! i = (b, c)" using i by simp
  moreover have "map item_id ?its1 ! j = (b, c)" unfolding ids using j by simp
  moreover have "i < length (map item_id ?its1)" "j < length (map item_id ?its1)"
    using i(1) j(1) len by simp_all
  ultimately have "i = j"
    using distinct_ids_sortedItems [of bs1 dn] by (metis nth_eq_iff_index_eq)
  then show ?thesis
    using packed_cube(1) [OF v i, of dm] packed_cube(1) [OF v2 j, of dm]
      packLoop_geom [OF g, of dm "initState dm"]
    by simp
qed

lemma atlasSide_geom:
  "sizeGrid bs1 = sizeGrid bs2 \<Longrightarrow> atlasSide dm bs1 dn = atlasSide dm bs2 dn"
  using packLoop_geom [OF geom_sortedItems, of bs1 bs2 dm "initState dm" dn]
  by (simp add: atlasSide_def)

lemma totalArea_sortedItems_geom:
  "sizeGrid bs1 = sizeGrid bs2 \<Longrightarrow>
   totalArea (sortedItems bs1 dn) = totalArea (sortedItems bs2 dn)"
  by (intro totalArea_geom geom_sortedItems)

lemma sizeGrid_strip:
  assumes "map stripBone bs1 = map stripBone bs2"
  shows "sizeGrid bs1 = sizeGrid bs2"
proof -
  have h: "map (\<lambda>b. map cube_size (bone_cubes b)) (map stripBone bs) = sizeGrid bs" for bs
    by (simp add: sizeGrid_def stripBone_def stripCube_def comp_def)
  have "map (\<lambda>b. map cube_size (bone_cubes b)) (map stripBone bs1) =
        map (\<lambda>b. map cube_size (bone_cubes b)) (map stripBone bs2)"
    using assms by (rule arg_cong)
  then show ?thesis unfolding h .
qed

lemma sizeGrid_packedBones [simp]: "sizeGrid (packedBones dm bs dn) = sizeGrid bs"
  by (rule sizeGrid_strip) (simp add: packedBones_def)

lemma cube_eqI:
  "stripCube c1 = stripCube c2 \<Longrightarrow> cube_uv c1 = cube_uv c2 \<Longrightarrow> c1 = c2"
proof -
  assume a: "stripCube c1 = stripCube c2" "cube_uv c1 = cube_uv c2"
  have e: "(stripCube c)\<lparr>cube_uv := cube_uv c\<rparr> = c" for c :: ModelCube
    by (simp add: stripCube_def)
  have "(stripCube c1)\<lparr>cube_uv := cube_uv c1\<rparr> = (stripCube c2)\<lparr>cube_uv := cube_uv c2\<rparr>"
    by (simp only: a)
  then show ?thesis unfolding e .
qed

lemma bone_eqI:
  "stripBone b1 = stripBone b2 \<Longrightarrow> bone_cubes b1 = bone_cubes b2 \<Longrightarrow> b1 = b2"
proof -
  assume a: "stripBone b1 = stripBone b2" "bone_cubes b1 = bone_cubes b2"
  have e: "(stripBone b)\<lparr>bone_cubes := bone_cubes b\<rparr> = b" for b :: ModelBone
    by (simp add: stripBone_def)
  have "(stripBone b1)\<lparr>bone_cubes := bone_cubes b1\<rparr> = (stripBone b2)\<lparr>bone_cubes := bone_cubes b2\<rparr>"
    by (simp only: a)
  then show ?thesis unfolding e .
qed

lemma bones_eqI:
  assumes st: "map stripBone bs1 = map stripBone bs2"
    and uv: "\<And>b c. validIdx bs1 b c \<Longrightarrow> cube_uv (cubeAt bs1 b c) = cube_uv (cubeAt bs2 b c)"
  shows "bs1 = bs2"
proof (rule nth_equalityI)
  show len: "length bs1 = length bs2" using st by (rule map_eq_imp_length_eq)
  fix b assume b: "b < length bs1"
  note sg = sizeGrid_validIdx [OF sizeGrid_strip [OF st]]
  have sb: "stripBone (bs1 ! b) = stripBone (bs2 ! b)"
  proof -
    have "map stripBone bs1 ! b = map stripBone bs2 ! b" by (simp only: st)
    then show ?thesis using b len by simp
  qed
  have "bone_cubes (bs1 ! b) = bone_cubes (bs2 ! b)"
  proof (rule nth_equalityI)
    show "length (bone_cubes (bs1 ! b)) = length (bone_cubes (bs2 ! b))"
      using sg(2) b by simp
    fix c assume c: "c < length (bone_cubes (bs1 ! b))"
    then have v: "validIdx bs1 b c" using b by (simp add: validIdx_def)
    have "validIdx bs2 b c" using v sg(3) by simp
    then have "stripCube (cubeAt bs1 b c) = stripCube (cubeAt bs2 b c)"
      by (rule strip_cubeAt [OF st])
    then have "cubeAt bs1 b c = cubeAt bs2 b c"
      using uv [OF v] by (rule cube_eqI)
    then show "bone_cubes (bs1 ! b) ! c = bone_cubes (bs2 ! b) ! c"
      by (simp add: cubeAt_def)
  qed
  with sb show "bs1 ! b = bs2 ! b" by (rule bone_eqI)
qed

lemma packedBones_idem: "packedBones dm (packedBones dm bs dn) dn = packedBones dm bs dn"
proof (rule bones_eqI)
  show "map stripBone (packedBones dm (packedBones dm bs dn) dn) = map stripBone (packedBones dm bs dn)"
    by (simp add: packedBones_def)
  fix b c assume "validIdx (packedBones dm (packedBones dm bs dn) dn) b c"
  then have v: "validIdx (packedBones dm bs dn) b c" by simp
  show "cube_uv (cubeAt (packedBones dm (packedBones dm bs dn) dn) b c) =
        cube_uv (cubeAt (packedBones dm bs dn) b c)"
    using v by (intro packedBones_uv_geom) simp_all
qed


text \<open>
  C2.  For every cube size \<open>(w, h, d)\<close> and every density tier (scale 1, 2 or 4), the
  footprint computed by \<open>getBoxUVSize\<close> has width \<open>2 * (ceil (w*s) + ceil (d*s))\<close> and
  height \<open>ceil (d*s) + ceil (h*s)\<close>.
\<close>

theorem getBoxUVSize_footprint:
  "densityScale dn \<in> {1, 2, 4} \<and>
   getBoxUVSize (cube\<lparr>cube_size := (w, h, d)\<rparr>) (densityScale dn) =
     (2 * (\<lceil>w * densityScale dn\<rceil> + \<lceil>d * densityScale dn\<rceil>),
      \<lceil>d * densityScale dn\<rceil> + \<lceil>h * densityScale dn\<rceil>)"
  by (cases dn) (simp_all add: getBoxUVSize_def Let_def)


lemmas example_defs =
  INITIAL_MODEL_def entityModel_def plainBone_def plainCube_def STEVE_bones_def
  tallModel_def wideModel_def degenerateBones_def

lemmas packUVs_eval =
  packUVs_def collectItems_def sortItems_def mkItem_def getBoxUVSize_def totalArea_def
  growDim.simps MIN_TEXTURE_SIZE_def place_def PADDING_def setUV_def reapply_def Let_def

lemma packUVs_disjoint:
  assumes "model_type m = ENTITY" "bedrockData m = Some bd" "bones bd = Some bs"
    and "\<forall>it\<in>set (collectItems bs (densityScale dn)). 0 \<le> item_w it"
  shows "\<exists>m' bd' bs'. packUVs m dn = Some m' \<and> bedrockData m' = Some bd' \<and> bones bd' = Some bs' \<and>
           (\<forall>b c. validIdx bs' b c = validIdx bs b c) \<and>
           (\<forall>b c b' c'. validIdx bs b c \<and> validIdx bs b' c' \<and> (b, c) \<noteq> (b', c') \<longrightarrow>
              cube_uv (cubeAt bs' b c) \<noteq> None \<and> cube_uv (cubeAt bs' b' c') \<noteq> None \<and>
              \<not> paddedOverlap (densityScale dn) (cubeAt bs' b c) (cubeAt bs' b' c'))"
proof -
  obtain dm where dm: "packUVs m dn = Some (m\<lparr>bedrockData := Some (bd\<lparr>
        texture_size := Some (real_of_int (atlasSide dm bs dn), real_of_int (atlasSide dm bs dn)),
        bones := Some (packedBones dm bs dn)\<rparr>)\<rparr>)"
    using assms(1-3) by (rule packUVs_entity)
  show ?thesis
    using dm packedBones_disjoint [OF assms(4), of _ _ _ _ dm] by (intro exI conjI) auto
qed

text \<open>
  C4.  For every model with 1 to 500 cubes whose footprints have widths and heights in
  \<open>[1, 64]\<close>, \<open>packUVs\<close> returns, assigns every cube a uv origin, and no two footprints,
  each extended by the padding, overlap.
\<close>

theorem packUVs_no_overlap:
  assumes "model_type m = ENTITY" "bedrockData m = Some bd" "bones bd = Some bs"
    and "1 \<le> length (collectItems bs (densityScale dn))"
    and "length (collectItems bs (densityScale dn)) \<le> 500"
    and "list_all (\<lambda>it. 1 \<le> item_w it \<and> item_w it \<le> 64 \<and> 1 \<le> item_h it \<and> item_h it \<le> 64)
           (collectItems bs (densityScale dn))"
  shows "\<exists>m' bd' bs'. packUVs m dn = Some m' \<and> bedrockData m' = Some bd' \<and> bones bd' = Some bs' \<and>
           (\<forall>b c. validIdx bs' b c = validIdx bs b c) \<and>
           (\<forall>b c b' c'. validIdx bs b c \<and> validIdx bs b' c' \<and> (b, c) \<noteq> (b', c') \<longrightarrow>
              cube_uv (cubeAt bs' b c) \<noteq> None \<and> cube_uv (cubeAt bs' b' c') \<noteq> None \<and>
              \<not> paddedOverlap (densityScale dn) (cubeAt bs' b c) (cubeAt bs' b' c'))"
proof -
  have "\<forall>it\<in>set (collectItems bs (densityScale dn)). 0 \<le> item_w it"
    using assms(6) by (auto simp: list_all_iff)
  with assms(1-3) show ?thesis by (rule packUVs_disjoint)
qed

theorem packUVs_no_overlap_witness:
  "model_type (entityModel STEVE_bones) = ENTITY \<and>
   length (collectItems STEVE_bones (densityScale D16x)) = 6 \<and>
   list_all (\<lambda>it. 1 \<le> item_w it \<and> item_w it \<le> 64 \<and> 1 \<le> item_h it \<and> item_h it \<le> 64)
     (collectItems STEVE_bones (densityScale D16x)) \<and>
   (\<exists>m' bd' bs'. packUVs (entityModel STEVE_bones) D16x = Some m' \<and>
      bedrockData m' = Some bd' \<and> bones bd' = Some bs' \<and>
      validIdx bs' 1 0 \<and> validIdx bs' 2 0 \<and>
      cube_uv (cubeAt bs' 1 0) \<noteq> None \<and> cube_uv (cubeAt bs' 2 0) \<noteq> None \<and>
      \<not> paddedOverlap (densityScale D16x) (cubeAt bs' 1 0) (cubeAt bs' 2 0))"
proof -
  let ?bd = "\<lparr>format_version = ''1.12.0'', bedrock_identifier = ''geometry.example'',
              texture_size = Some (64, 64), bones = Some STEVE_bones\<rparr>"
  have h1: "model_type (entityModel STEVE_bones) = ENTITY"
    and h2: "bedrockData (entityModel STEVE_bones) = Some ?bd"
    and h3: "bones ?bd = Some STEVE_bones"
    by (simp_all add: entityModel_def)
  have h45: "length (collectItems STEVE_bones (densityScale D16x)) = 6"
    by code_simp
  have h4: "1 \<le> length (collectItems STEVE_bones (densityScale D16x))"
    and h5: "length (collectItems STEVE_bones (densityScale D16x)) \<le> 500"
    unfolding h45 by simp_all
  have h6: "list_all (\<lambda>it. 1 \<le> item_w it \<and> item_w it \<le> 64 \<and> 1 \<le> item_h it \<and> item_h it \<le> 64)
           (collectItems STEVE_bones (densityScale D16x))"
    by code_simp
  have v: "validIdx STEVE_bones 1 0" "validIdx STEVE_bones 2 0"
    by (simp_all add: validIdx_def STEVE_bones_def plainBone_def)
  from packUVs_no_overlap [OF h1 h2 h3 h4 h5 h6]
  obtain m' bd' bs' where r: "packUVs (entityModel STEVE_bones) D16x = Some m'"
      "bedrockData m' = Some bd'" "bones bd' = Some bs'"
      "\<forall>b c. validIdx bs' b c = validIdx STEVE_bones b c"
      "\<forall>b c b' c'. validIdx STEVE_bones b c \<and> validIdx STEVE_bones b' c' \<and> (b, c) \<noteq> (b', c') \<longrightarrow>
              cube_uv (cubeAt bs' b c) \<noteq> None \<and> cube_uv (cubeAt bs' b' c') \<noteq> None \<and>
              \<not> paddedOverlap (densityScale D16x) (cubeAt bs' b c) (cubeAt bs' b' c')"
    by blast
  have "validIdx STEVE_bones 1 0 \<and> validIdx STEVE_bones 2 0 \<and> ((1::nat), (0::nat)) \<noteq> (2, 0)"
    using v by simp
  with r(5) have "cube_uv (cubeAt bs' 1 0) \<noteq> None \<and> cube_uv (cubeAt bs' 2 0) \<noteq> None \<and>
      \<not> paddedOverlap (densityScale D16x) (cubeAt bs' 1 0) (cubeAt bs' 2 0)"
    by blast
  moreover have "validIdx bs' 1 0" "validIdx bs' 2 0" using r(4) v by simp_all
  ultimately show ?thesis using h1 h45 h6 r(1-3) by blast
qed

text \<open>
  C9, as amended.  \<open>packUVs\<close> has no size check: in an ENTITY model with bones every
  cube, whatever its size, keeps its size and is given a uv origin; nothing is rejected and
  nothing is reported.
\<close>

theorem packUVs_assigns_every_cube:
  assumes "model_type m = ENTITY" "bedrockData m = Some bd" "bones bd = Some bs"
  shows "\<exists>m' bd' bs'. packUVs m dn = Some m' \<and> bedrockData m' = Some bd' \<and> bones bd' = Some bs' \<and>
           (\<forall>b c. validIdx bs' b c = validIdx bs b c) \<and>
           (\<forall>b c. validIdx bs b c \<longrightarrow>
              cube_size (cubeAt bs' b c) = cube_size (cubeAt bs b c) \<and>
              cube_uv (cubeAt bs' b c) \<noteq> None)"
proof -
  obtain dm where dm: "packUVs m dn = Some (m\<lparr>bedrockData := Some (bd\<lparr>
        texture_size := Some (real_of_int (atlasSide dm bs dn), real_of_int (atlasSide dm bs dn)),
        bones := Some (packedBones dm bs dn)\<rparr>)\<rparr>)"
    using assms by (rule packUVs_entity)
  have "cube_size (cubeAt (packedBones dm bs dn) b c) = cube_size (cubeAt bs b c) \<and>
        cube_uv (cubeAt (packedBones dm bs dn) b c) \<noteq> None" if v: "validIdx bs b c" for b c
  proof -
    obtain i where i: "i < length (sortedItems bs dn)"
      "sortedItems bs dn ! i = mkItem (densityScale dn) b (c, cubeAt bs b c)"
      using v by (rule sortedItems_index)
    have "validIdx (packedBones dm bs dn) b c" using v by simp
    then have "cube_size (cubeAt (packedBones dm bs dn) b c) = cube_size (cubeAt bs b c)"
      using sizeGrid_validIdx(4) [of "packedBones dm bs dn" bs b c] by simp
    then show ?thesis using packed_cube(1) [OF v i, of dm] by simp
  qed
  then show ?thesis using dm by (intro exI conjI) auto
qed

theorem packUVs_assigns_every_cube_witness:
  "model_type (entityModel degenerateBones) = ENTITY \<and>
   cube_size (cubeAt degenerateBones 0 1) = (0, -1, 0) \<and>
   (\<exists>m' bd' bs'. packUVs (entityModel degenerateBones) D16x = Some m' \<and>
      bedrockData m' = Some bd' \<and> bones bd' = Some bs' \<and> validIdx bs' 0 1 \<and>
      cube_size (cubeAt bs' 0 1) = (0, -1, 0) \<and> cube_uv (cubeAt bs' 0 1) \<noteq> None)"
proof -
  let ?bd = "\<lparr>format_version = ''1.12.0'', bedrock_identifier = ''geometry.example'',
              texture_size = Some (64, 64), bones = Some degenerateBones\<rparr>"
  have h1: "model_type (entityModel degenerateBones) = ENTITY"
    and h2: "bedrockData (entityModel degenerateBones) = Some ?bd"
    and h3: "bones ?bd = Some degenerateBones"
    by (simp_all add: entityModel_def)
  have v: "validIdx degenerateBones 0 1"
    and s: "cube_size (cubeAt degenerateBones 0 1) = (0, -1, 0)"
    by (simp_all add: validIdx_def cubeAt_def degenerateBones_def plainBone_def plainCube_def)
  from packUVs_assigns_every_cube [OF h1 h2 h3, of D16x]
  obtain m' bd' bs' where r: "packUVs (entityModel degenerateBones) D16x = Some m'"
      "bedrockData m' = Some bd'" "bones bd' = Some bs'"
      "\<forall>b c. validIdx bs' b c = validIdx degenerateBones b c"
      "\<forall>b c. validIdx degenerateBones b c \<longrightarrow>
              cube_size (cubeAt bs' b c) = cube_size (cubeAt degenerateBones b c) \<and>
              cube_uv (cubeAt bs' b c) \<noteq> None"
    by blast
  have "cube_size (cubeAt bs' 0 1) = (0, -1, 0)" "cube_uv (cubeAt bs' 0 1) \<noteq> None"
    using r(5) v s by auto
  moreover have "validIdx bs' 0 1" using r(4) v by simp
  ultimately show ?thesis using h1 s r(1-3) by blast
qed

text \<open>
  The claim as stated fails: the second cube of \<open>degenerateBones\<close> has size
  \<open>(0, -1, 0)\<close> and is packed at \<open>(34, 0)\<close>.
\<close>

theorem packUVs_degenerate_counterexample:
  "cube_size (cubeAt degenerateBones 0 1) = (0, -1, 0) \<and>
   packUVs (entityModel degenerateBones) D16x =
     Some (entityModel
       [plainBone ''body'' None (0, 0, 0)
          [(plainCube (-4, 0, -4) (8, 8, 8))\<lparr>cube_uv := Some (0, 0)\<rparr>,
           (plainCube (0, 0, 0) (0, -1, 0))\<lparr>cube_uv := Some (34, 0)\<rparr>]])"
  by (simp add: packUVs_eval example_defs cubeAt_def)

text \<open>
  C5.  The growth step doubles the atlas height at most once per item and never the width:
  a cube of size \<open>(1, 200, 1)\<close> (footprint 4 by 201) is placed at \<open>(0, 0)\<close> in an atlas
  recorded as 128 by 128, and a cube of size \<open>(100, 1, 1)\<close> (footprint 202 by 2) at
  \<open>(0, 2)\<close> in an atlas of 64 by 64.  Neither footprint lies within the recorded atlas.
\<close>

theorem packUVs_atlas_overflow:
  "packUVs tallModel D16x =
     Some (tallModel\<lparr>bedrockData := Some
        \<lparr>format_version = ''1.12.0'', bedrock_identifier = ''geometry.example'',
         texture_size = Some (128, 128),
         bones = Some [plainBone ''post'' None (0, 0, 0)
                         [(plainCube (0, 0, 0) (1, 200, 1))\<lparr>cube_uv := Some (0, 0)\<rparr>]]\<rparr>\<rparr>) \<and>
   getBoxUVSize (plainCube (0, 0, 0) (1, 200, 1)) (densityScale D16x) = (4, 201) \<and>
   \<not> insideAtlas (densityScale D16x) (128, 128) ((plainCube (0, 0, 0) (1, 200, 1))\<lparr>cube_uv := Some (0, 0)\<rparr>) \<and>
   packUVs wideModel D16x =
     Some (entityModel [plainBone ''beam'' None (0, 0, 0)
                         [(plainCube (0, 0, 0) (100, 1, 1))\<lparr>cube_uv := Some (0, 2)\<rparr>]]) \<and>
   getBoxUVSize (plainCube (0, 0, 0) (100, 1, 1)) (densityScale D16x) = (202, 2) \<and>
   \<not> insideAtlas (densityScale D16x) (64, 64) ((plainCube (0, 0, 0) (100, 1, 1))\<lparr>cube_uv := Some (0, 2)\<rparr>)"
  by (simp add: packUVs_eval example_defs insideAtlas_def)

lemma uvGrid_packedBones_geom:
  assumes sg: "sizeGrid bs1 = sizeGrid bs2"
  shows "uvGrid (packedBones dm bs1 dn) = uvGrid (packedBones dm bs2 dn)"
proof -
  let ?p1 = "packedBones dm bs1 dn" and ?p2 = "packedBones dm bs2 dn"
  have sgp: "sizeGrid ?p1 = sizeGrid ?p2" using sg by simp
  note g = sizeGrid_validIdx [OF sgp]
  have "map cube_uv (bone_cubes (?p1 ! b)) = map cube_uv (bone_cubes (?p2 ! b))"
    if b: "b < length ?p1" for b
  proof (rule nth_equalityI)
    show "length (map cube_uv (bone_cubes (?p1 ! b))) = length (map cube_uv (bone_cubes (?p2 ! b)))"
      using g(2) [OF b] by simp
    fix c assume "c < length (map cube_uv (bone_cubes (?p1 ! b)))"
    then have c: "c < length (bone_cubes (?p1 ! b))" by simp
    then have "validIdx ?p1 b c" using b by (simp add: validIdx_def)
    then have v: "validIdx bs1 b c" by simp
    have "cube_uv (cubeAt ?p1 b c) = cube_uv (cubeAt ?p2 b c)"
      using sg v by (rule packedBones_uv_geom)
    then show "map cube_uv (bone_cubes (?p1 ! b)) ! c = map cube_uv (bone_cubes (?p2 ! b)) ! c"
      using c g(2) [OF b] by (simp add: cubeAt_def)
  qed
  then show ?thesis
    unfolding uvGrid_def using g(1) by (intro nth_equalityI) simp_all
qed

lemma packUVs_passthrough:
  "cubeSizes m = None \<Longrightarrow> packUVs m dn = Some m"
  by (auto simp: cubeSizes_def packUVs_def split: if_splits option.splits)

lemma cubeSizes_Some:
  "cubeSizes m = Some g \<Longrightarrow>
   \<exists>bd bs. model_type m = ENTITY \<and> bedrockData m = Some bd \<and> bones bd = Some bs \<and> g = sizeGrid bs"
  by (auto simp: cubeSizes_def split: if_splits option.splits)

lemma packUVs_packable:
  assumes "model_type m = ENTITY" "bedrockData m = Some bd" "bones bd = Some bs"
    and "growDim MIN_TEXTURE_SIZE (totalArea (sortedItems bs dn)) = Some dm"
  shows "packUVs m dn = Some (m\<lparr>bedrockData := Some (bd\<lparr>
        texture_size := Some (real_of_int (atlasSide dm bs dn), real_of_int (atlasSide dm bs dn)),
        bones := Some (packedBones dm bs dn)\<rparr>)\<rparr>)"
  using assms
  by (simp add: packUVs_def sortedItems_def [symmetric] initState_def [symmetric]
        packedBones_def atlasSide_def Let_def max_def split: prod.splits)

text \<open>
  C6.  \<open>packUVs\<close> returns; run again on its own result it returns that result unchanged;
  and every model with the same bone and cube order and the same cube sizes gets the same
  uv origins and the same atlas size, whatever uv origins and atlas size it carried before.
\<close>

theorem packUVs_deterministic_idempotent:
  "\<exists>m'. packUVs m dn = Some m' \<and> packUVs m' dn = Some m' \<and>
     (\<forall>m2. cubeSizes m2 = cubeSizes m \<and> cubeSizes m \<noteq> None \<longrightarrow>
        (\<exists>m2'. packUVs m2 dn = Some m2' \<and> uvOrigins m2' = uvOrigins m' \<and>
               atlasSize m2' = atlasSize m'))"
proof (cases "cubeSizes m")
  case None
  then show ?thesis by (simp add: packUVs_passthrough)
next
  case (Some g)
  then obtain bd bs where m: "model_type m = ENTITY" "bedrockData m = Some bd" "bones bd = Some bs"
      "g = sizeGrid bs"
    using cubeSizes_Some by blast
  obtain dm where dm: "growDim MIN_TEXTURE_SIZE (totalArea (sortedItems bs dn)) = Some dm"
    using growDim_returns by blast
  let ?side = "\<lambda>bs. Some (real_of_int (atlasSide dm bs dn), real_of_int (atlasSide dm bs dn))"
  let ?bd' = "bd\<lparr>texture_size := ?side bs, bones := Some (packedBones dm bs dn)\<rparr>"
  let ?m' = "m\<lparr>bedrockData := Some ?bd'\<rparr>"
  have p1: "packUVs m dn = Some ?m'" using m(1-3) dm by (rule packUVs_packable)
  have sg': "sizeGrid (packedBones dm bs dn) = sizeGrid bs" by simp
  have dm': "growDim MIN_TEXTURE_SIZE (totalArea (sortedItems (packedBones dm bs dn) dn)) = Some dm"
    using dm totalArea_sortedItems_geom [OF sg', of dn] by simp
  have "packUVs ?m' dn = Some (?m'\<lparr>bedrockData := Some (?bd'\<lparr>
        texture_size := ?side (packedBones dm bs dn),
        bones := Some (packedBones dm (packedBones dm bs dn) dn)\<rparr>)\<rparr>)"
    by (rule packUVs_packable [OF _ _ _ dm']) (simp_all add: m)
  then have p2: "packUVs ?m' dn = Some ?m'"
    by (simp add: packedBones_idem atlasSide_geom [OF sg'])
  have p3: "\<exists>m2'. packUVs m2 dn = Some m2' \<and> uvOrigins m2' = uvOrigins ?m' \<and>
               atlasSize m2' = atlasSize ?m'"
    if "cubeSizes m2 = cubeSizes m" for m2
  proof -
    have "cubeSizes m2 = Some (sizeGrid bs)" using that Some m(4) by simp
    then obtain bd2 bs2 where m2: "model_type m2 = ENTITY" "bedrockData m2 = Some bd2"
        "bones bd2 = Some bs2" "sizeGrid bs = sizeGrid bs2"
      using cubeSizes_Some by blast
    have sg2: "sizeGrid bs2 = sizeGrid bs" using m2(4) by simp
    have dm2: "growDim MIN_TEXTURE_SIZE (totalArea (sortedItems bs2 dn)) = Some dm"
      using dm totalArea_sortedItems_geom [OF sg2, of dn] by simp
    have "packUVs m2 dn = Some (m2\<lparr>bedrockData := Some (bd2\<lparr>
        texture_size := ?side bs2, bones := Some (packedBones dm bs2 dn)\<rparr>)\<rparr>)"
      using m2(1-3) dm2 by (rule packUVs_packable)
    then show ?thesis
      by (simp add: uvOrigins_def atlasSize_def atlasSide_geom [OF sg2]
          uvGrid_packedBones_geom [OF sg2])
  qed
  show ?thesis using p1 p2 p3 by blast
qed

theorem packUVs_deterministic_idempotent_witness:
  "cubeSizes staleModel = cubeSizes INITIAL_MODEL \<and> cubeSizes INITIAL_MODEL \<noteq> None \<and>
   (\<exists>m' m2'. packUVs INITIAL_MODEL D16x = Some m' \<and> packUVs m' D16x = Some m' \<and>
      packUVs staleModel D16x = Some m2' \<and> uvOrigins m2' = uvOrigins m' \<and>
      atlasSize m2' = atlasSize m')"
proof -
  have h: "cubeSizes staleModel = cubeSizes INITIAL_MODEL \<and> cubeSizes INITIAL_MODEL \<noteq> None"
    by (simp add: cubeSizes_def staleModel_def INITIAL_MODEL_def sizeGrid_def)
  from packUVs_deterministic_idempotent [of INITIAL_MODEL D16x] h
  show ?thesis by blast
qed


subsection \<open>Face layout\<close>

lemma drawCube_rects:
  assumes "cube_uv cube = Some (u, v)" "cube_size cube = (w, h, d)"
    and "rw = \<lceil>w * s\<rceil>" "rh = \<lceil>h * s\<rceil>" "rd = \<lceil>d * s\<rceil>"
  shows "map (\<lambda>r. (rect_face r, (rect_x r, rect_y r), (rect_w r, rect_h r))) (drawCube s cube) =
     [(Top, (u + rd, v), (rw, rd)), (Bottom, (u + rd + rw, v), (rw, rd)),
      (Right, (u, v + rd), (rd, rh)), (Front, (u + rd, v + rd), (rw, rh)),
      (Left, (u + rd + rw, v + rd), (rd, rh)), (Back, (u + rd + rw + rd, v + rd), (rw, rh))]"
  using assms by (simp add: drawCube_def Let_def)

lemma layouts_agree_16x:
  assumes "cube_uv cube \<noteq> None"
  shows "rectOrigins (drawCube (densityScale D16x) cube) = layoutOffsets (getTextureLayout cube tw th)"
  using assms
  by (auto simp: rectOrigins_def layoutOffsets_def drawCube_def getTextureLayout_def faceAt_def Let_def
      split: prod.splits)

text \<open>
  C3.  The renderer places the six faces by the stated formulas (\<open>drawCube_rects\<close>), and
  at density 16x the export offsets are the same (\<open>layouts_agree_16x\<close>).  At any other
  density they are not: \<open>getTextureLayout\<close> does not scale by the density.  The cube of
  \<open>INITIAL_MODEL\<close>, packed at 32x, is drawn with its top face at \<open>(16, 0)\<close> and exported
  with its top face at \<open>(8, 0)\<close>.
\<close>

theorem layouts_disagree_32x:
  "packUVs INITIAL_MODEL D32x =
     Some (INITIAL_MODEL\<lparr>bedrockData := Some
        \<lparr>format_version = ''1.12.0'', bedrock_identifier = ''hytale.unknown'',
         texture_size = Some (64, 64),
         bones = Some
           [\<lparr>bone_name = ''root'', bone_parent = None, bone_pivot = Some (0, 0, 0),
             bone_rotation = None, bone_cubes = [packedInitialCube],
             bone_attachments = Some [Inr \<lparr>att_name = ''ground'', att_position = (0, 0, 0)\<rparr>]\<rparr>]\<rparr>\<rparr>) \<and>
   rectOrigins (drawCube (densityScale D32x) packedInitialCube) =
     [(Top, (16, 0)), (Bottom, (32, 0)), (Right, (0, 16)), (Front, (16, 16)),
      (Left, (32, 16)), (Back, (48, 16))] \<and>
   layoutOffsets (getTextureLayout packedInitialCube 64 64) =
     [(Top, (8, 0)), (Bottom, (16, 0)), (Right, (0, 8)), (Front, (8, 8)),
      (Left, (16, 8)), (Back, (24, 8))]"
  by (simp add: packUVs_eval example_defs packedInitialCube_def rectOrigins_def layoutOffsets_def
      drawCube_def getTextureLayout_def faceAt_def)

subsection \<open>Rescaling\<close>

lemma toDouble_at:
  assumes "2 powr real_of_int k \<le> \<bar>x\<bar>" "\<bar>x\<bar> < 2 powr (real_of_int k + 1)" "- 1022 \<le> k"
  shows "toDouble x =
     (let y = real_of_int (roundHalfEven (x / 2 powr real_of_int (k - 52))) * 2 powr real_of_int (k - 52)
      in if 2 ^ 1024 \<le> y then PosInfinity else if y \<le> - (2 ^ 1024) then NegInfinity else Finite y)"
proof -
  have pos: "0 < \<bar>x\<bar>" using assms(1) by (smt (verit) powr_gt_zero)
  then have nz: "x \<noteq> 0" by simp
  have "\<lfloor>log 2 \<bar>x\<bar>\<rfloor> = k"
    using assms(1,2) pos by (simp add: floor_log_eq_powr_iff)
  then have "max (\<lfloor>log 2 \<bar>x\<bar>\<rfloor> - 52) (- 1074) = k - 52" using assms(3) by simp
  then show ?thesis using nz by (simp add: toDouble_def Let_def)
qed

lemma roundHalfEven_of_int [simp]: "roundHalfEven (real_of_int n) = n"
  by (simp add: roundHalfEven_def)

lemma toDouble_dyadic:
  assumes "\<bar>n\<bar> < 2 ^ 53" "a \<le> 1022"
  shows "toDouble (real_of_int n / 2 ^ a) = Finite (real_of_int n / 2 ^ a)"
proof (cases "n = 0")
  case True
  then show ?thesis by (simp add: toDouble_def)
next
  case False
  define x where "x = real_of_int n / 2 ^ a"
  define m where "m = \<lfloor>log 2 \<bar>real_of_int n\<bar>\<rfloor>"
  have n1: "1 \<le> \<bar>real_of_int n\<bar>" using False by simp
  have n2: "\<bar>real_of_int n\<bar> < 2 ^ 53"
  proof -
    have "real_of_int \<bar>n\<bar> < real_of_int (2 ^ 53)" using assms(1) by (simp only: of_int_less_iff)
    then show ?thesis by simp
  qed
  have b: "2 powr real_of_int m \<le> \<bar>real_of_int n\<bar>" "\<bar>real_of_int n\<bar> < 2 powr (real_of_int m + 1)"
    using floor_log_eq_powr_iff [of "\<bar>real_of_int n\<bar>" 2 m] n1 by (simp_all add: m_def)
  have m0: "0 \<le> m" using n1 by (simp add: m_def)
  have p53: "(2::real) powr real (53::nat) = 2 ^ 53" by (rule powr_realpow) simp
  have "2 powr real_of_int m < 2 powr real (53::nat)" using b(1) n2 unfolding p53 by linarith
  then have "real_of_int m < real (53::nat)" by (rule powr_less_cancel) simp
  then have m1: "m < 53" by simp
  have pa: "(2::real) powr (- real a) = 1 / 2 ^ a"
    by (simp add: powr_minus powr_realpow divide_inverse)
  have ax: "\<bar>x\<bar> = \<bar>real_of_int n\<bar> * 2 powr (- real a)"
    by (simp add: x_def pa abs_divide)
  have k: "real_of_int (m - int a) = real_of_int m + (- real a)" by simp
  have bx: "2 powr real_of_int (m - int a) \<le> \<bar>x\<bar>" "\<bar>x\<bar> < 2 powr (real_of_int (m - int a) + 1)"
  proof -
    have "2 powr real_of_int (m - int a) = 2 powr real_of_int m * 2 powr (- real a)"
      unfolding k by (rule powr_add)
    then show "2 powr real_of_int (m - int a) \<le> \<bar>x\<bar>"
      unfolding ax using b(1) by (simp add: mult_right_mono)
    have "real_of_int (m - int a) + 1 = (real_of_int m + 1) + (- real a)" by simp
    then have "2 powr (real_of_int (m - int a) + 1) = 2 powr (real_of_int m + 1) * 2 powr (- real a)"
      by (simp only: powr_add)
    then show "\<bar>x\<bar> < 2 powr (real_of_int (m - int a) + 1)"
      unfolding ax using b(2) by (simp add: mult_strict_right_mono)
  qed
  have lo: "- 1022 \<le> m - int a" using m0 assms(2) by simp
  define j where "j = nat (52 - m)"
  have e: "real_of_int (m - int a - 52) = - real j + (- real a)" using m1 by (simp add: j_def)
  have p: "2 powr real_of_int (m - int a - 52) = 1 / (2 ^ j * 2 ^ a)"
    unfolding e powr_add by (simp add: powr_minus powr_realpow divide_inverse)
  have q: "x / 2 powr real_of_int (m - int a - 52) = real_of_int (n * 2 ^ j)"
    unfolding p by (simp add: x_def)
  have y: "real_of_int (roundHalfEven (x / 2 powr real_of_int (m - int a - 52))) *
             2 powr real_of_int (m - int a - 52) = x"
    unfolding q roundHalfEven_of_int unfolding p by (simp add: x_def)
  have "(1::real) \<le> 2 ^ a" by (rule one_le_power) simp
  then have "\<bar>real_of_int n\<bar> * 1 \<le> \<bar>real_of_int n\<bar> * 2 ^ a"
    by (intro mult_left_mono) simp_all
  then have "\<bar>x\<bar> \<le> \<bar>real_of_int n\<bar>"
    by (simp add: x_def abs_divide divide_le_eq)
  then have x2: "\<bar>x\<bar> < 2 ^ 53" using n2 by linarith
  have big: "(2::real) ^ 53 < 2 ^ 1024" by simp
  have "\<not> 2 ^ 1024 \<le> x" "\<not> x \<le> - (2 ^ 1024)" using x2 big by linarith+
  then show ?thesis
    using toDouble_at [OF bx lo, unfolded y] by (simp add: x_def Let_def)
qed

lemma toDouble_of_int:
  assumes "\<bar>k\<bar> < 2 ^ 53"
  shows "toDouble (real_of_int k) = Finite (real_of_int k)"
  using toDouble_dyadic [OF assms, of 0] by simp

lemma exactly_power_of_two:
  assumes "\<bar>N\<bar> < 2 ^ 53" "\<bar>k * N\<bar> < 2 ^ 53" "a \<le> 1022"
  shows "exactly (real_of_int k) (2 ^ a) (real_of_int N)"
proof -
  have 1: "toDouble (real_of_int N / 2 ^ a) = Finite (real_of_int N / 2 ^ a)"
    by (rule toDouble_dyadic [OF assms(1,3)])
  have "toDouble (real_of_int (k * N) / 2 ^ a) = Finite (real_of_int (k * N) / 2 ^ a)"
    by (rule toDouble_dyadic [OF assms(2,3)])
  then have 2: "toDouble (real_of_int k * (real_of_int N / 2 ^ a)) =
                Finite (real_of_int k * (real_of_int N / 2 ^ a))"
    by simp
  show ?thesis using 1 2 by (simp add: exactly_def)
qed

lemma scaled_exact:
  assumes "exactly u old new"
  shows "scaled (Finite u) old new = Finite (real_of_int (rescale u old new))"
  using assms by (simp add: exactly_def scaled_def jsDiv_def jsMul_def rescale_def)

lemma scaled_power_of_two:
  assumes "\<bar>N\<bar> < 2 ^ 53" "\<bar>k * N\<bar> < 2 ^ 53" "a \<le> 1022"
  shows "scaled (Finite (real_of_int k)) (2 ^ a) (real_of_int N) =
         Finite (real_of_int (rescale (real_of_int k) (2 ^ a) (real_of_int N)))"
  by (rule scaled_exact [OF exactly_power_of_two [OF assms]])

lemma scaled_same:
  assumes "S \<noteq> 0" "\<bar>k\<bar> < 2 ^ 53"
  shows "scaled (Finite (real_of_int k)) S S = Finite (real_of_int k)"
proof -
  have "toDouble 1 = Finite 1" using toDouble_of_int [of 1] by simp
  then show ?thesis
    using assms(1) toDouble_of_int [OF assms(2)]
    by (simp add: scaled_def jsDiv_def jsMul_def)
qed

lemma scaleCube_rescale:
  "scaleCube (jsDiv nw ow) (jsDiv nh oh) (jsonCube cube) = rescaleCube (ow, oh) (nw, nh) cube"
  by (cases "cube_uv cube") (auto simp: scaleCube_def rescaleCube_def jsonCube_def scaled_def)

lemma round_diff_le:
  fixes x y :: real
  shows "\<bar>real_of_int (round x - round y)\<bar> \<le> \<bar>x - y\<bar> + 1"
proof -
  have "\<bar>real_of_int (round x) - x\<bar> \<le> 1 / 2" "\<bar>real_of_int (round y) - y\<bar> \<le> 1 / 2"
    by (rule of_int_round_abs_le)+
  then show ?thesis by (simp only: of_int_diff)
qed

lemma rescale_compose:
  assumes "0 < A" "0 < B" "0 < C"
  shows "\<bar>real_of_int (rescale (real_of_int (rescale u A B)) B C - rescale u A C)\<bar> \<le> C / (2 * B) + 1"
proof -
  let ?r1 = "real_of_int (round (u * B / A))"
  have e1: "\<bar>?r1 - u * B / A\<bar> \<le> 1 / 2" by (rule of_int_round_abs_le)
  have "?r1 * C / B - u * C / A = (?r1 - u * B / A) * (C / B)"
    using assms by (simp add: field_simps)
  then have "\<bar>?r1 * C / B - u * C / A\<bar> = \<bar>?r1 - u * B / A\<bar> * (C / B)"
    using assms by (simp add: abs_mult)
  also have "\<dots> \<le> (1 / 2) * (C / B)"
    using e1 assms by (intro mult_right_mono) simp_all
  finally have "\<bar>?r1 * C / B - u * C / A\<bar> \<le> C / (2 * B)" by simp
  moreover have "\<bar>real_of_int (round (?r1 * C / B) - round (u * C / A))\<bar>
        \<le> \<bar>?r1 * C / B - u * C / A\<bar> + 1"
    by (rule round_diff_le)
  ultimately show ?thesis by (simp add: rescale_def)
qed

lemma scaled_compose:
  assumes "0 < A" "0 < B" "0 < C"
    "exactly v A B" "exactly (real_of_int (rescale v A B)) B C" "exactly v A C"
  shows "\<exists>r d. scaled (scaled (Finite v) A B) B C = Finite (real_of_int r) \<and>
               scaled (Finite v) A C = Finite (real_of_int d) \<and>
               \<bar>real_of_int (r - d)\<bar> \<le> C / (2 * B) + 1 \<and> (C \<le> B \<longrightarrow> \<bar>r - d\<bar> \<le> 1)"
proof -
  let ?r = "rescale (real_of_int (rescale v A B)) B C"
  let ?d = "rescale v A C"
  have 1: "scaled (scaled (Finite v) A B) B C = Finite (real_of_int ?r)"
    by (simp only: scaled_exact [OF assms(4)] scaled_exact [OF assms(5)])
  have 2: "scaled (Finite v) A C = Finite (real_of_int ?d)"
    by (rule scaled_exact [OF assms(6)])
  have 3: "\<bar>real_of_int (?r - ?d)\<bar> \<le> C / (2 * B) + 1"
    by (rule rescale_compose [OF assms(1-3)])
  have 4: "\<bar>?r - ?d\<bar> \<le> 1" if "C \<le> B"
  proof -
    have "C / (2 * B) \<le> 1 / 2" using that assms(2) by (simp add: field_simps)
    then have "real_of_int \<bar>?r - ?d\<bar> < 2" using 3 by simp
    then have "\<bar>?r - ?d\<bar> < 2" by (simp only: of_int_less_iff [symmetric] of_int_numeral)
    then show ?thesis by simp
  qed
  show ?thesis using 1 2 3 4 by blast
qed

lemma abs_near:
  fixes a b c :: real
  shows "\<bar>a - b\<bar> \<le> 1 / 2 \<Longrightarrow> \<bar>b\<bar> \<le> c \<Longrightarrow> \<bar>a\<bar> < c + 1"
  by linarith

lemma scaled_compose_power_of_two:
  assumes "\<bar>j\<bar> < 2 ^ 20" "p \<le> 16" "q \<le> 16" "r \<le> 16"
  shows "\<exists>x d. scaled (scaled (Finite (real_of_int j)) (2 ^ p) (2 ^ q)) (2 ^ q) (2 ^ r) =
                 Finite (real_of_int x) \<and>
               scaled (Finite (real_of_int j)) (2 ^ p) (2 ^ r) = Finite (real_of_int d) \<and>
               \<bar>real_of_int (x - d)\<bar> \<le> 2 ^ r / (2 * 2 ^ q) + 1 \<and> (r \<le> q \<longrightarrow> \<bar>x - d\<bar> \<le> 1)"
proof -
  have le16: "(2::int) ^ n \<le> 2 ^ 16" if "n \<le> 16" for n
    using that by (intro power_increasing) simp_all
  have j1: "\<bar>j\<bar> \<le> 2 ^ 20" using assms(1) by simp
  have jq: "\<bar>j * 2 ^ n\<bar> \<le> 2 ^ 36" if "n \<le> 16" for n
  proof -
    have "\<bar>j\<bar> * 2 ^ n \<le> 2 ^ 20 * 2 ^ 16"
      using j1 le16 [OF that] by (intro mult_mono) simp_all
    then show ?thesis by (simp add: abs_mult)
  qed
  define r1 where "r1 = rescale (real_of_int j) (2 ^ p) (2 ^ q)"
  let ?y = "real_of_int j * 2 ^ q / 2 ^ p"
  have "\<bar>?y\<bar> \<le> \<bar>real_of_int (j * 2 ^ q)\<bar>"
  proof -
    have "(1::real) \<le> 2 ^ p" by (rule one_le_power) simp
    then have "\<bar>real_of_int (j * 2 ^ q)\<bar> * 1 \<le> \<bar>real_of_int (j * 2 ^ q)\<bar> * 2 ^ p"
      by (intro mult_left_mono) simp_all
    then show ?thesis by (simp add: abs_divide divide_le_eq abs_mult)
  qed
  moreover have "\<bar>real_of_int (j * 2 ^ q)\<bar> \<le> 2 ^ 36"
  proof -
    have "real_of_int \<bar>j * 2 ^ q\<bar> \<le> real_of_int (2 ^ 36)"
      using jq [OF assms(3)] by (simp only: of_int_le_iff)
    then show ?thesis by simp
  qed
  ultimately have y: "\<bar>?y\<bar> \<le> 2 ^ 36" by linarith
  have "\<bar>real_of_int (round ?y) - ?y\<bar> \<le> 1 / 2" by (rule of_int_round_abs_le)
  then have "\<bar>real_of_int (round ?y)\<bar> < 2 ^ 36 + 1" using y by (rule abs_near)
  then have "real_of_int \<bar>r1\<bar> < real_of_int (2 ^ 36 + 1)" by (simp add: r1_def rescale_def)
  then have "\<bar>r1\<bar> < 2 ^ 36 + 1" by (simp only: of_int_less_iff)
  then have r1: "\<bar>r1\<bar> \<le> 2 ^ 36" by simp
  have "\<bar>r1\<bar> * 2 ^ r \<le> 2 ^ 36 * 2 ^ 16"
    using r1 le16 [OF assms(4)] by (intro mult_mono) simp_all
  then have r1r: "\<bar>r1 * 2 ^ r\<bar> < 2 ^ 53" by (simp add: abs_mult)
  have sz: "\<bar>(2::int) ^ n\<bar> < 2 ^ 53" if "n \<le> 16" for n
    using le16 [OF that] by simp
  have jn: "\<bar>j * 2 ^ n\<bar> < 2 ^ 53" if "n \<le> 16" for n
    using jq [OF that] by simp
  have e1: "exactly (real_of_int j) (2 ^ p) (2 ^ q)"
    using exactly_power_of_two [OF sz [OF assms(3)] jn [OF assms(3)], of p] assms(2) by simp
  have e2: "exactly (real_of_int (rescale (real_of_int j) (2 ^ p) (2 ^ q))) (2 ^ q) (2 ^ r)"
    using exactly_power_of_two [OF sz [OF assms(4)] r1r, of q] assms(3) by (simp add: r1_def)
  have e3: "exactly (real_of_int j) (2 ^ p) (2 ^ r)"
    using exactly_power_of_two [OF sz [OF assms(4)] jn [OF assms(4)], of p] assms(2) by simp
  have "\<exists>x d. scaled (scaled (Finite (real_of_int j)) (2 ^ p) (2 ^ q)) (2 ^ q) (2 ^ r) =
                 Finite (real_of_int x) \<and>
               scaled (Finite (real_of_int j)) (2 ^ p) (2 ^ r) = Finite (real_of_int d) \<and>
               \<bar>real_of_int (x - d)\<bar> \<le> 2 ^ r / (2 * 2 ^ q) + 1 \<and>
               ((2::real) ^ r \<le> 2 ^ q \<longrightarrow> \<bar>x - d\<bar> \<le> 1)"
    by (rule scaled_compose [OF _ _ _ e1 e2 e3]) simp_all
  then show ?thesis by (auto simp: power_increasing)
qed

text \<open>
  C8, as amended.  \<open>scaleModelUVs\<close> returns the model itself when the new size is the
  recorded one.  Otherwise it raises a TypeError on a model without bones, and else records
  the new size and maps every entry of every assigned uv origin to
  \<^verbatim>\<open>Math.round(uv * (newSize / oldSize))\<close>, the quotient and the product each rounded to a
  double (\<open>scaled\<close>), axis by axis.  When the recorded size is a power of two, as the
  packer records it, and origin and new size are integers whose product is below \<open>2 ^ 53\<close>,
  neither operation rounds and the result is \<open>round (old * newSize / oldSize)\<close>.  On an
  axis whose size does not change an integer origin stays as it is.  For origins below
  \<open>2 ^ 20\<close> and atlas sizes that are powers of two up to \<open>2 ^ 16\<close>, two rescalings in a row
  differ from the direct one by at most \<open>C / (2 * B) + 1\<close> pixels: by at most one pixel when
  the second step does not enlarge the atlas, and by an amount that grows with \<open>C / B\<close>
  when it does.
\<close>

theorem scaleModelUVs_rescale:
  assumes "bedrockData m = Some bd" "recordedSize bd = (oldW, oldH)"
  shows "((oldW, oldH) = (newW, newH) \<longrightarrow> scaleModelUVs m newW newH = Inr m) \<and>
         ((oldW, oldH) \<noteq> (newW, newH) \<longrightarrow>
            scaleModelUVs m newW newH =
              (case bones bd of None \<Rightarrow> Inl TypeError
               | Some bs \<Rightarrow>
                   Inr (m\<lparr>bedrockData := Some (bd\<lparr>texture_size := Some (newW, newH),
                          bones := Some (map (\<lambda>bone. bone\<lparr>bone_cubes :=
                             map (rescaleCube (oldW, oldH) (newW, newH)) (bone_cubes bone)\<rparr>) bs)\<rparr>)\<rparr>))) \<and>
         (\<bar>N\<bar> < 2 ^ 53 \<and> \<bar>k * N\<bar> < 2 ^ 53 \<and> a \<le> 1022 \<longrightarrow>
            scaled (Finite (real_of_int k)) (2 ^ a) (real_of_int N) =
              Finite (real_of_int (rescale (real_of_int k) (2 ^ a) (real_of_int N)))) \<and>
         (S \<noteq> 0 \<and> \<bar>i\<bar> < 2 ^ 53 \<longrightarrow> scaled (Finite (real_of_int i)) S S = Finite (real_of_int i)) \<and>
         (\<bar>j\<bar> < 2 ^ 20 \<and> p \<le> 16 \<and> q \<le> 16 \<and> r \<le> 16 \<longrightarrow>
            (\<exists>x d. scaled (scaled (Finite (real_of_int j)) (2 ^ p) (2 ^ q)) (2 ^ q) (2 ^ r) =
                      Finite (real_of_int x) \<and>
                    scaled (Finite (real_of_int j)) (2 ^ p) (2 ^ r) = Finite (real_of_int d) \<and>
                    \<bar>real_of_int (x - d)\<bar> \<le> 2 ^ r / (2 * 2 ^ q) + 1 \<and>
                    (r \<le> q \<longrightarrow> \<bar>x - d\<bar> \<le> 1)))"
proof -
  have sz: "(case texture_size bd of
              None \<Rightarrow> (real_of_int MIN_TEXTURE_SIZE, real_of_int MIN_TEXTURE_SIZE)
            | Some ts \<Rightarrow> ts) = (oldW, oldH)"
    using assms(2) by (simp add: recordedSize_def)
  have 1: "(oldW, oldH) = (newW, newH) \<longrightarrow> scaleModelUVs m newW newH = Inr m"
    using assms(1) sz by (simp add: scaleModelUVs_def)
  have 2: "(oldW, oldH) \<noteq> (newW, newH) \<longrightarrow>
            scaleModelUVs m newW newH =
              (case bones bd of None \<Rightarrow> Inl TypeError
               | Some bs \<Rightarrow>
                   Inr (m\<lparr>bedrockData := Some (bd\<lparr>texture_size := Some (newW, newH),
                          bones := Some (map (\<lambda>bone. bone\<lparr>bone_cubes :=
                             map (rescaleCube (oldW, oldH) (newW, newH)) (bone_cubes bone)\<rparr>) bs)\<rparr>)\<rparr>))"
    using assms(1) sz
    by (cases "bones bd")
       (auto simp: scaleModelUVs_def jsonClone_def Let_def scaleCube_rescale comp_def)
  have 3: "\<bar>N\<bar> < 2 ^ 53 \<and> \<bar>k * N\<bar> < 2 ^ 53 \<and> a \<le> 1022 \<longrightarrow>
            scaled (Finite (real_of_int k)) (2 ^ a) (real_of_int N) =
              Finite (real_of_int (rescale (real_of_int k) (2 ^ a) (real_of_int N)))"
    using scaled_power_of_two by blast
  have 4: "S \<noteq> 0 \<and> \<bar>i\<bar> < 2 ^ 53 \<longrightarrow> scaled (Finite (real_of_int i)) S S = Finite (real_of_int i)"
    using scaled_same by blast
  have 5: "\<bar>j\<bar> < 2 ^ 20 \<and> p \<le> 16 \<and> q \<le> 16 \<and> r \<le> 16 \<longrightarrow>
            (\<exists>x d. scaled (scaled (Finite (real_of_int j)) (2 ^ p) (2 ^ q)) (2 ^ q) (2 ^ r) =
                      Finite (real_of_int x) \<and>
                    scaled (Finite (real_of_int j)) (2 ^ p) (2 ^ r) = Finite (real_of_int d) \<and>
                    \<bar>real_of_int (x - d)\<bar> \<le> 2 ^ r / (2 * 2 ^ q) + 1 \<and>
                    (r \<le> q \<longrightarrow> \<bar>x - d\<bar> \<le> 1))"
    using scaled_compose_power_of_two [of j p q r] by blast
  show ?thesis using 1 2 3 4 5 by (intro conjI)
qed

lemmas rescaler_eval = scaleModelUVs_def jsonClone_def jsonCube_def scaleCube_def atlasModel_def
  MIN_TEXTURE_SIZE_def Let_def

theorem scaleModelUVs_rescale_witness:
  "bedrockData (atlasModel (64, 64) (Some (Finite 26, Finite 18))) \<noteq> None \<and>
   scaleModelUVs (atlasModel (64, 64) (Some (Finite 26, Finite 18))) 64 64 =
     Inr (atlasModel (64, 64) (Some (Finite 26, Finite 18))) \<and>
   ((64::real), (64::real)) \<noteq> (128, 128) \<and>
   scaleModelUVs (atlasModel (64, 64) (Some (Finite 26, Finite 18))) 128 128 =
     Inr (atlasModel (128, 128) (Some (Finite 52, Finite 36))) \<and>
   \<bar>128::int\<bar> < 2 ^ 53 \<and> \<bar>26 * 128 :: int\<bar> < 2 ^ 53 \<and> (6::nat) \<le> 1022 \<and>
   scaled (Finite 26) (2 ^ 6) 128 = Finite 52 \<and> rescale 26 (2 ^ 6) 128 = 52 \<and>
   (64::real) \<noteq> 0 \<and> scaled (Finite 26) 64 64 = Finite 26 \<and>
   \<bar>26::int\<bar> < 2 ^ 20 \<and> (6::nat) \<le> 16 \<and> (7::nat) \<le> 16 \<and> (5::nat) \<le> 16 \<and> (5::nat) \<le> 7 \<and>
   (\<exists>x d. scaled (scaled (Finite 26) (2 ^ 6) (2 ^ 7)) (2 ^ 7) (2 ^ 5) = Finite (real_of_int x) \<and>
          scaled (Finite 26) (2 ^ 6) (2 ^ 5) = Finite (real_of_int d) \<and> \<bar>x - d\<bar> \<le> 1)"
proof -
  let ?m = "atlasModel (64, 64) (Some (Finite 26, Finite 18))"
  let ?bs = "[\<lparr>bone_name = ''root'', bone_parent = None, bone_pivot = Some (0, 0, 0),
             bone_rotation = None,
             bone_cubes =
               [\<lparr>cube_origin = (-4, 0, -4), cube_size = (8, 8, 8), cube_rotation = None,
                 cube_pivot = None, cube_uv = Some (Finite 26, Finite 18), cube_color = None\<rparr>],
             bone_attachments = None\<rparr>]"
  let ?bd = "\<lparr>format_version = ''1.12.0'', bedrock_identifier = ''geometry.example'',
              texture_size = Some (64, 64), bones = Some ?bs\<rparr>"
  have h1: "bedrockData ?m = Some ?bd" and h2: "recordedSize ?bd = (64, 64)"
    by (simp_all add: atlasModel_def recordedSize_def)
  have r52: "rescale 26 64 128 = 52" "rescale 18 64 128 = 36"
    by (simp_all add: rescale_def)
  note a = scaleModelUVs_rescale [OF h1 h2, of 64 64 128 26 6 64 26 26 6 7 5]
  note b = scaleModelUVs_rescale [OF h1 h2, of 128 128 128 26 6 64 26 26 6 7 5]
  note c = scaleModelUVs_rescale [OF h1 h2, of 128 128 128 18 6 64 26 26 6 7 5]
  have s26: "scaled (Finite 26) 64 128 = Finite 52" using b r52 by simp
  have s18: "scaled (Finite 18) 64 128 = Finite 36" using c r52 by simp
  have same: "scaled (Finite 26) 64 64 = Finite 26" using a by simp
  have noop: "scaleModelUVs ?m 64 64 = Inr ?m" using a by simp
  have twice: "scaleModelUVs ?m 128 128 = Inr (atlasModel (128, 128) (Some (Finite 52, Finite 36)))"
    using b by (simp add: rescaleCube_def s26 s18 atlasModel_def)
  have comp: "\<exists>x d. scaled (scaled (Finite 26) (2 ^ 6) (2 ^ 7)) (2 ^ 7) (2 ^ 5) = Finite (real_of_int x) \<and>
          scaled (Finite 26) (2 ^ 6) (2 ^ 5) = Finite (real_of_int d) \<and> \<bar>x - d\<bar> \<le> 1"
    using a by auto
  show ?thesis using h1 noop twice s26 r52 same comp by simp
qed

lemma toDouble_15_22: "toDouble (15 / 22) = Finite (6141272219141585 / 2 ^ 53)"
  using toDouble_at [of "- 1" "15 / 22"]
  by (simp add: powr_minus roundHalfEven_def Let_def)

lemma toDouble_product:
  "toDouble (67553994410557435 / 9007199254740992) = Finite (8444249301319679 / 2 ^ 50)"
  using toDouble_at [of 2 "67553994410557435 / 9007199254740992"]
  by (simp add: powr_minus roundHalfEven_def Let_def)

lemma scaled_11: "scaled (Finite 11) 22 15 = Finite 7"
  by (simp add: scaled_def jsDiv_def jsMul_def toDouble_15_22 toDouble_product round_def)

lemma toDouble_64th: "toDouble (1 / 64) = Finite (1 / 64)"
  using toDouble_at [of "- 6" "1 / 64"]
  by (simp add: powr_minus roundHalfEven_def Let_def)

lemma toDouble_31_64: "toDouble (31 / 64) = Finite (31 / 64)"
  using toDouble_at [of "- 2" "31 / 64"]
  by (simp add: powr_minus roundHalfEven_def Let_def)

lemma scaled_31: "scaled (Finite 31) 64 1 = Finite 0"
  by (simp add: scaled_def jsDiv_def jsMul_def toDouble_64th toDouble_31_64 round_def)

lemma toDouble_0: "toDouble 0 = Finite 0"
  by (simp add: toDouble_def)

lemma scaled_0: "scaled (Finite 0) 1 64 = Finite 0"
  using toDouble_of_int [of 64] by (simp add: scaled_def jsDiv_def jsMul_def toDouble_0)

lemma scaled_7: "scaled (Finite 7) 15 15 = Finite 7"
  using scaled_same [of 15 7] by simp

lemma scaled_31_same: "scaled (Finite 31) 64 64 = Finite 31"
  using scaled_same [of 64 31] by simp

text \<open>
  The claim as stated fails twice.  An origin of 11 in an atlas 22 wide, rescaled to a
  width of 15: the quotient \<open>15 / 22\<close> rounds down to the double 0.6818181818181818, the
  product with 11 to \<open>7.5 - 2 powr - 50\<close>, and \<^verbatim>\<open>Math.round\<close> gives 7, where
  \<open>round (old * newSize / oldSize)\<close> is 8.  And an origin of 31 in an atlas 64 high,
  rescaled to a height of 1 and then back to 64, ends at 0, where the direct rescaling, from
  64 to 64, leaves 31.
\<close>

theorem scaleModelUVs_rescale_counterexample:
  "scaleModelUVs (atlasModel (22, 64) (Some (Finite 11, Finite 31))) 15 1 =
     Inr (atlasModel (15, 1) (Some (Finite 7, Finite 0))) \<and>
   rescale 11 22 15 = 8 \<and>
   scaleModelUVs (atlasModel (15, 1) (Some (Finite 7, Finite 0))) 15 64 =
     Inr (atlasModel (15, 64) (Some (Finite 7, Finite 0))) \<and>
   scaleModelUVs (atlasModel (22, 64) (Some (Finite 11, Finite 31))) 15 64 =
     Inr (atlasModel (15, 64) (Some (Finite 7, Finite 31))) \<and>
   rescale 31 64 64 = 31"
proof -
  have s: "jsRound (jsMul (Finite 11) (jsDiv 15 22)) = Finite 7"
    "jsRound (jsMul (Finite 31) (jsDiv 1 64)) = Finite 0"
    "jsRound (jsMul (Finite 0) (jsDiv 64 1)) = Finite 0"
    "jsRound (jsMul (Finite 7) (jsDiv 15 15)) = Finite 7"
    "jsRound (jsMul (Finite 31) (jsDiv 64 64)) = Finite 31"
    using scaled_11 scaled_31 scaled_0 scaled_7 scaled_31_same by (simp_all add: scaled_def)
  have 1: "scaleModelUVs (atlasModel (22, 64) (Some (Finite 11, Finite 31))) 15 1 =
     Inr (atlasModel (15, 1) (Some (Finite 7, Finite 0)))"
    by (simp add: rescaler_eval s)
  have 2: "rescale 11 22 15 = 8" "rescale 31 64 64 = 31"
    by (simp_all add: rescale_def round_def)
  have 3: "scaleModelUVs (atlasModel (15, 1) (Some (Finite 7, Finite 0))) 15 64 =
     Inr (atlasModel (15, 64) (Some (Finite 7, Finite 0)))"
    by (simp add: rescaler_eval s)
  have 4: "scaleModelUVs (atlasModel (22, 64) (Some (Finite 11, Finite 31))) 15 64 =
     Inr (atlasModel (15, 64) (Some (Finite 7, Finite 31)))"
    by (simp add: rescaler_eval s)
  show ?thesis using 1 2 3 4 by (intro conjI)
qed

text \<open>
  A recorded size of zero: the quotient is an infinity, so every assigned origin becomes an
  infinity or NaN, and the next clone turns those into \<^verbatim>\<open>null\<close>, which rescales to 0;
  a cube without origin stays as it is.  A model without bones is cloned, and then raises.
\<close>

lemma scaleModelUVs_zero_size:
  "scaleModelUVs (atlasModel (0, 0) (Some (Finite 0, Finite 5))) 64 64 =
     Inr (atlasModel (64, 64) (Some (NaN, PosInfinity))) \<and>
   scaleModelUVs (atlasModel (64, 64) (Some (NaN, PosInfinity))) 64 0 =
     Inr (atlasModel (64, 0) (Some (Finite 0, Finite 0))) \<and>
   scaleModelUVs (atlasModel (0, 0) None) 64 64 = Inr (atlasModel (64, 64) None) \<and>
   scaleModelUVs \<lparr>model_type = ENTITY, bedrockData = Some
       \<lparr>format_version = ''1.12.0'', bedrock_identifier = ''geometry.example'',
        texture_size = Some (0, 0), bones = None\<rparr>\<rparr> 64 64 = Inl TypeError"
  using toDouble_of_int [of 1]
  by (simp add: rescaler_eval jsDiv_def jsMul_def toDouble_0)

subsection \<open>Bones whose parent is missing\<close>

text \<open>
  C10.  The export has no rejection path, and what it does with a bone whose parent is
  missing differs from what the viewer does.  Deleting the bone \<open>pelvis\<close> of the player
  template in the editor leaves \<open>head\<close>, the arms and the legs naming a parent that no
  longer exists.  The viewer draws all five at top level, beside \<open>root\<close>; the export, with
  whatever fuel from 2 on, returns the node of \<open>root\<close> alone, so the five bones and their
  cubes are left out of the exported file without an error.
\<close>

theorem export_drops_orphans:
  "\<forall>e2q fuel.
     handleDeleteBone 1 (entityModel STEVE_bones) = Inr (entityModel headlessBones) \<and>
     list_all (dangling headlessBones) (tl headlessBones) \<and>
     map bone_name (rootBones headlessBones) =
       [''root'', ''head'', ''arm_right'', ''arm_left'', ''leg_right'', ''leg_left''] \<and>
     buildHytaleNodeTree e2q (Suc (Suc fuel)) headlessBones None (0, 0, 0) (64, 64) 0 =
       Some ([HytaleNode 1 ''root'' [] (0, 0, 0) (e2q (0, 0, 0))
               \<lparr>shape_type = ''none'', shape_offset = (0, 0, 0), shape_stretch = (1, 1, 1),
                shape_isPiece = Some False, shape_size = None, shape_textureLayout = None\<rparr>], 1)"
  by (simp add: handleDeleteBone_def entityModel_def STEVE_bones_def headlessBones_def
      dangling_def rootBones_def plainBone_def belongsTo_def truthy_def orDefault_def boneNode_def)

subsection \<open>The store model: what the transforms write\<close>

lemmas store_eval = packUVsSt_def collectItemsSt_def mkItemSt_def sortItems_def getBoxUVSize_def
  totalArea_def growDim.simps MIN_TEXTURE_SIZE_def place_def PADDING_def newUV_def newCube_def
  newModel_def setCubeUV_def cloneModel_def parseModel_def parseCube_def readModel_def
  readBedrock_def readBone_def readCube_def setTextureSize_def reapplySt_def Let_def
  scaleModelUVsSt_def scaleCubeSt_def jsonClone_def jsonCube_def


lemma untouched_refl [simp]: "untouched s s"
  by (simp add: untouched_def)

lemma untouched_trans: "untouched s1 s2 \<Longrightarrow> untouched s2 s3 \<Longrightarrow> untouched s1 s3"
  by (auto simp: untouched_def)

lemma onlyUVWritten_refl [simp]: "onlyUVWritten s s"
  by (simp add: onlyUVWritten_def)

lemma untouched_onlyUVWritten: "untouched s s' \<Longrightarrow> onlyUVWritten s s'"
  by (simp add: untouched_def onlyUVWritten_def)

lemma onlyUVWritten_trans:
  "onlyUVWritten s1 s2 \<Longrightarrow> onlyUVWritten s2 s3 \<Longrightarrow> onlyUVWritten s1 s3"
  by (auto simp: onlyUVWritten_def)

lemma newUV_props:
  "newUV v s = (u, s') \<Longrightarrow>
   u = next_addr s \<and> next_addr s' = Suc (next_addr s) \<and> untouched s s' \<and>
   models s' = models s \<and> cubes s' = cubes s \<and> uvs s' u = v"
  by (auto simp: newUV_def untouched_def)

lemma newCube_props:
  "newCube c s = (a, s') \<Longrightarrow>
   a = next_addr s \<and> next_addr s' = Suc (next_addr s) \<and> untouched s s' \<and>
   models s' = models s \<and> uvs s' = uvs s \<and> cubes s' a = c"
  by (auto simp: newCube_def untouched_def)

lemma newModel_props:
  "newModel m s = (a, s') \<Longrightarrow>
   a = next_addr s \<and> next_addr s' = Suc (next_addr s) \<and> untouched s s' \<and>
   cubes s' = cubes s \<and> uvs s' = uvs s \<and> models s' a = m"
  by (auto simp: newModel_def untouched_def)

lemma setCubeUV_simps [simp]:
  "next_addr (setCubeUV c u s) = next_addr s" "models (setCubeUV c u s) = models s"
  "uvs (setCubeUV c u s) = uvs s"
  "cubes (setCubeUV c u s) x = (if x = c then (cubes s c)\<lparr>cube_uv := u\<rparr> else cubes s x)"
  by (simp_all add: setCubeUV_def)

lemma setTextureSize_simps [simp]:
  "next_addr (setTextureSize a ts s) = next_addr s" "cubes (setTextureSize a ts s) = cubes s"
  "uvs (setTextureSize a ts s) = uvs s"
  "x \<noteq> a \<Longrightarrow> models (setTextureSize a ts s) x = models s x"
  "cubeAddrs (models (setTextureSize a ts s) a) = cubeAddrs (models s a)"
  by (auto simp: setTextureSize_def cubeAddrs_def split: option.splits)

lemma untouched_setCubeUV:
  "untouched s0 s \<Longrightarrow> next_addr s0 \<le> c \<Longrightarrow> untouched s0 (setCubeUV c u s)"
  by (auto simp: untouched_def)

lemma untouched_setTextureSize:
  "untouched s0 s \<Longrightarrow> next_addr s0 \<le> a \<Longrightarrow> untouched s0 (setTextureSize a ts s)"
  by (auto simp: untouched_def)

lemma onlyUVWritten_setCubeUV:
  "onlyUVWritten s0 s \<Longrightarrow> onlyUVWritten s0 (setCubeUV c u s)"
  by (auto simp: onlyUVWritten_def)

lemma onlyUVWritten_setTextureSize:
  "onlyUVWritten s0 s \<Longrightarrow> next_addr s0 \<le> a \<Longrightarrow> onlyUVWritten s0 (setTextureSize a ts s)"
  by (auto simp: onlyUVWritten_def)


lemma freshCube_untouched:
  "freshCube n s c \<Longrightarrow> untouched s s' \<Longrightarrow> freshCube n s' c"
  by (auto simp: freshCube_def untouched_def)

lemma freshCube_mono:
  "freshCube n s c \<Longrightarrow> m \<le> n \<Longrightarrow> freshCube m s c"
  by (auto simp: freshCube_def)

lemma parseCube_props:
  assumes "parseCube c s = (a, s')"
  shows "untouched s s' \<and> freshCube (next_addr s) s' a"
proof (cases "cube_uv c")
  case None
  then show ?thesis
    using assms newCube_props [of _ s a s'] by (auto simp: parseCube_def freshCube_def)
next
  case (Some v)
  obtain u s1 where u: "newUV v s = (u, s1)" by (cases "newUV v s")
  then have c: "newCube \<lparr>cube_origin = cube_origin c, cube_size = cube_size c,
                      cube_rotation = cube_rotation c, cube_pivot = cube_pivot c,
                      cube_uv = Some u, cube_color = cube_color c\<rparr> s1 = (a, s')"
    using assms Some by (simp add: parseCube_def)
  note pu = newUV_props [OF u] and pc = newCube_props [OF c]
  have "untouched s s'" using pu pc untouched_trans by blast
  moreover have "freshCube (next_addr s) s' a"
    using pu pc by (auto simp: freshCube_def)
  ultimately show ?thesis by simp
qed

lemma parseCubes_props:
  "parseCubes cs s = (as, s') \<Longrightarrow>
   untouched s s' \<and> (\<forall>a\<in>set as. freshCube (next_addr s) s' a)"
proof (induction cs arbitrary: s as s')
  case Nil
  then show ?case by simp
next
  case (Cons c cs)
  obtain a s1 where a: "parseCube c s = (a, s1)" by (cases "parseCube c s")
  obtain as' s2 where r: "parseCubes cs s1 = (as', s2)" by (cases "parseCubes cs s1")
  have e: "as = a # as'" "s' = s2" using Cons.prems a r by simp_all
  note pa = parseCube_props [OF a] and pr = Cons.IH [OF r]
  have u: "untouched s s2" using pa pr untouched_trans by blast
  have n: "next_addr s \<le> next_addr s1" using pa by (simp add: untouched_def)
  have "freshCube (next_addr s) s2 a" using pa pr freshCube_untouched by blast
  moreover have "freshCube (next_addr s) s2 x" if "x \<in> set as'" for x
    using pr that n freshCube_mono by blast
  ultimately show ?case using u e by auto
qed

lemma parseBones_props:
  "parseBones bs s = (bs', s') \<Longrightarrow>
   untouched s s' \<and> (\<forall>a\<in>set (concat (map bone_cubes bs')). freshCube (next_addr s) s' a)"
proof (induction bs arbitrary: s bs' s')
  case Nil
  then show ?case by simp
next
  case (Cons b bs)
  obtain cs s1 where c: "parseCubes (bone_cubes b) s = (cs, s1)"
    by (cases "parseCubes (bone_cubes b) s")
  obtain bs2 s2 where r: "parseBones bs s1 = (bs2, s2)" by (cases "parseBones bs s1")
  have e: "concat (map bone_cubes bs') = cs @ concat (map bone_cubes bs2)" "s' = s2"
    using Cons.prems c r by auto
  note pc = parseCubes_props [OF c] and pr = Cons.IH [OF r]
  have u: "untouched s s2" using pc pr untouched_trans by blast
  have n: "next_addr s \<le> next_addr s1" using pc by (simp add: untouched_def)
  have "freshCube (next_addr s) s2 x" if "x \<in> set cs" for x
    using pc pr that freshCube_untouched by blast
  moreover have "freshCube (next_addr s) s2 x" if "x \<in> set (concat (map bone_cubes bs2))" for x
    using pr that n freshCube_mono by blast
  ultimately show ?case using u unfolding e by auto
qed

lemma parseModel_props:
  assumes "parseModel m s = (a, s')"
  shows "untouched s s' \<and> next_addr s \<le> a \<and> a < next_addr s' \<and>
         (\<forall>c\<in>set (cubeAddrs (models s' a)). freshCube (next_addr s) s' c)"
proof (cases "bedrockData m")
  case None
  then show ?thesis
    using assms newModel_props [of _ s a s'] by (auto simp: parseModel_def cubeAddrs_def)
next
  case (Some bd)
  show ?thesis
  proof (cases "bones bd")
    case None
    then show ?thesis
      using assms Some newModel_props [of _ s a s'] by (auto simp: parseModel_def cubeAddrs_def)
  next
    case (Some bs)
    obtain bs' s1 where b: "parseBones bs s = (bs', s1)" by (cases "parseBones bs s")
    let ?m = "\<lparr>model_type = model_type m,
                       bedrockData = Some \<lparr>format_version = format_version bd,
                                            bedrock_identifier = bedrock_identifier bd,
                                            texture_size = texture_size bd, bones = Some bs'\<rparr>\<rparr>"
    have n: "newModel ?m s1 = (a, s')"
      using assms \<open>bedrockData m = Some bd\<close> Some b by (simp add: parseModel_def)
    note pb = parseBones_props [OF b] and pn = newModel_props [OF n]
    have u: "untouched s s'" using pb pn untouched_trans by blast
    have "freshCube (next_addr s) s' c" if "c \<in> set (concat (map bone_cubes bs'))" for c
      using pb pn that freshCube_untouched by blast
    moreover have "cubeAddrs (models s' a) = concat (map bone_cubes bs')"
      using pn by (auto simp: cubeAddrs_def)
    moreover have "next_addr s \<le> a" "a < next_addr s'"
      using pb pn by (simp_all add: untouched_def)
    ultimately show ?thesis using u by simp
  qed
qed

lemma cloneModel_props:
  "cloneModel s a = (a', s') \<Longrightarrow>
   untouched s s' \<and> next_addr s \<le> a' \<and> a' < next_addr s' \<and>
   (\<forall>c\<in>set (cubeAddrs (models s' a')). freshCube (next_addr s) s' c)"
  unfolding cloneModel_def by (rule parseModel_props)

lemma scaleCubeSt_props:
  "models (scaleCubeSt sx sy c s) = models s \<and> next_addr s \<le> next_addr (scaleCubeSt sx sy c s)"
  by (auto simp: scaleCubeSt_def newUV_def split: option.splits)

lemma scaleCubeSt_untouched:
  "untouched s0 s \<Longrightarrow> next_addr s0 \<le> c \<Longrightarrow> untouched s0 (scaleCubeSt sx sy c s)"
  by (auto simp: scaleCubeSt_def newUV_def untouched_def split: option.splits)

lemma scaleCubeSt_fresh:
  "freshCube n s x \<Longrightarrow> n \<le> next_addr s \<Longrightarrow> freshCube n (scaleCubeSt sx sy c s) x"
  by (auto simp: scaleCubeSt_def newUV_def freshCube_def split: option.splits)

lemma fold_scaleCubeSt:
  assumes "untouched s0 s" "\<forall>c\<in>set cs. next_addr s0 \<le> c" "\<forall>x\<in>X. freshCube (next_addr s0) s x"
  shows "untouched s0 (fold (scaleCubeSt sx sy) cs s) \<and>
         models (fold (scaleCubeSt sx sy) cs s) = models s \<and>
         (\<forall>x\<in>X. freshCube (next_addr s0) (fold (scaleCubeSt sx sy) cs s) x)"
  using assms
proof (induction cs arbitrary: s)
  case Nil
  then show ?case by simp
next
  case (Cons c cs)
  have n: "next_addr s0 \<le> next_addr s" using Cons.prems(1) by (simp add: untouched_def)
  have 1: "untouched s0 (scaleCubeSt sx sy c s)"
    using Cons.prems by (intro scaleCubeSt_untouched) simp_all
  have 2: "\<forall>c\<in>set cs. next_addr s0 \<le> c" using Cons.prems(2) by simp
  have 3: "\<forall>x\<in>X. freshCube (next_addr s0) (scaleCubeSt sx sy c s) x"
    using Cons.prems(3) n scaleCubeSt_fresh by blast
  show ?case
    using Cons.IH [OF 1 2 3] scaleCubeSt_props [of sx sy c s] by simp
qed

lemma fold_bones_scaleCubeSt:
  assumes "untouched s0 s" "\<forall>c\<in>set (concat (map bone_cubes bs)). next_addr s0 \<le> c"
    "\<forall>x\<in>X. freshCube (next_addr s0) s x"
  shows "untouched s0 (fold (\<lambda>bone s. fold (scaleCubeSt sx sy) (bone_cubes bone) s) bs s) \<and>
         models (fold (\<lambda>bone s. fold (scaleCubeSt sx sy) (bone_cubes bone) s) bs s) = models s \<and>
         (\<forall>x\<in>X. freshCube (next_addr s0)
                    (fold (\<lambda>bone s. fold (scaleCubeSt sx sy) (bone_cubes bone) s) bs s) x)"
  using assms
proof (induction bs arbitrary: s)
  case Nil
  then show ?case by simp
next
  case (Cons b bs)
  have c: "\<forall>c\<in>set (bone_cubes b). next_addr s0 \<le> c" using Cons.prems(2) by simp
  note f = fold_scaleCubeSt [OF Cons.prems(1) c Cons.prems(3), of sx sy]
  have 2: "\<forall>c\<in>set (concat (map bone_cubes bs)). next_addr s0 \<le> c" using Cons.prems(2) by simp
  show ?case
    using Cons.IH [of "fold (scaleCubeSt sx sy) (bone_cubes b) s"] f 2 by simp
qed

lemma freshCube_setTextureSize [simp]:
  "freshCube n (setTextureSize a ts s) c = freshCube n s c"
  by (simp add: freshCube_def)

lemma allocatedAfter_fresh:
  "n \<le> a \<Longrightarrow> \<forall>c\<in>set (cubeAddrs (models s a)). freshCube n s c \<Longrightarrow> allocatedAfter n s a"
  by (auto simp: allocatedAfter_def freshCube_def)

lemma parseCubes_length: "parseCubes cs s = (as, s') \<Longrightarrow> length as = length cs"
proof (induction cs arbitrary: s as s')
  case Nil
  then show ?case by simp
next
  case (Cons c cs)
  obtain a s1 where a: "parseCube c s = (a, s1)" by (cases "parseCube c s")
  obtain as' s2 where r: "parseCubes cs s1 = (as', s2)" by (cases "parseCubes cs s1")
  have "as = a # as'" using Cons.prems a r by simp
  then show ?case using Cons.IH [OF r] by simp
qed

lemma parseBones_counts:
  "parseBones bs s = (bs', s') \<Longrightarrow>
   map (\<lambda>b. (bone_name b, length (bone_cubes b))) bs' =
   map (\<lambda>b. (bone_name b, length (bone_cubes b))) bs"
proof (induction bs arbitrary: s bs' s')
  case Nil
  then show ?case by simp
next
  case (Cons b bs)
  obtain cs s1 where c: "parseCubes (bone_cubes b) s = (cs, s1)"
    by (cases "parseCubes (bone_cubes b) s")
  obtain bs2 s2 where r: "parseBones bs s1 = (bs2, s2)" by (cases "parseBones bs s1")
  obtain b' where e: "bs' = b' # bs2" "bone_name b' = bone_name b" "bone_cubes b' = cs"
    using Cons.prems c r by auto
  show ?case using e parseCubes_length [OF c] Cons.IH [OF r] by simp
qed

lemma cloneModel_model:
  assumes "cloneModel s a = (a', s')"
  shows "model_type (models s' a') = model_type (models s a) \<and>
         atlasOf (models s' a') = atlasOf (models s a) \<and>
         hasBones (models s' a') = hasBones (models s a) \<and>
         cubeCounts (models s' a') = cubeCounts (models s a)"
proof (cases "bedrockData (models s a)")
  case None
  then show ?thesis
    using assms newModel_props [of _ s a' s']
    by (auto simp: cloneModel_def parseModel_def readModel_def jsonClone_def Let_def
        atlasOf_def hasBones_def cubeCounts_def)
next
  case (Some bd)
  show ?thesis
  proof (cases "bones bd")
    case None
    then show ?thesis
      using assms Some newModel_props [of _ s a' s']
      by (auto simp: cloneModel_def parseModel_def readModel_def readBedrock_def jsonClone_def
          Let_def atlasOf_def hasBones_def cubeCounts_def)
  next
    case (Some bs)
    let ?vs = "map (\<lambda>bone. bone\<lparr>bone_cubes := map jsonCube (bone_cubes bone)\<rparr>) (map (readBone s) bs)"
    obtain bs' s1 where b: "parseBones ?vs s = (bs', s1)" by (cases "parseBones ?vs s")
    let ?m = "\<lparr>model_type = model_type (models s a),
               bedrockData = Some \<lparr>format_version = format_version bd,
                                    bedrock_identifier = bedrock_identifier bd,
                                    texture_size = texture_size bd, bones = Some bs'\<rparr>\<rparr>"
    have n: "newModel ?m s1 = (a', s')"
      using assms \<open>bedrockData (models s a) = Some bd\<close> Some b
      by (simp add: cloneModel_def parseModel_def readModel_def readBedrock_def jsonClone_def Let_def)
    have m: "models s' a' = ?m" using newModel_props [OF n] by blast
    have "map (\<lambda>b. (bone_name b, length (bone_cubes b))) bs' =
          map (\<lambda>b. (bone_name b, length (bone_cubes b))) ?vs"
      by (rule parseBones_counts [OF b])
    also have "\<dots> = map (\<lambda>b. (bone_name b, length (bone_cubes b))) bs"
      by (simp add: readBone_def comp_def)
    finally show ?thesis
      using m \<open>bedrockData (models s a) = Some bd\<close> Some
      by (simp add: atlasOf_def hasBones_def cubeCounts_def)
  qed
qed

lemma setTextureSize_model:
  "model_type (models (setTextureSize a ts s) a) = model_type (models s a) \<and>
   hasBones (models (setTextureSize a ts s) a) = hasBones (models s a) \<and>
   cubeCounts (models (setTextureSize a ts s) a) = cubeCounts (models s a) \<and>
   atlasOf (models (setTextureSize a ts s) a) =
     (if bedrockData (models s a) = None then None else Some ts)"
  by (auto simp: setTextureSize_def hasBones_def cubeCounts_def atlasOf_def split: option.splits)

lemma scaleModelUVsSt_keeps:
  "keepsAtlas (models s a) w h \<Longrightarrow> scaleModelUVsSt s a w h = Inr (a, s)"
  by (auto simp: keepsAtlas_def scaleModelUVsSt_def recordedSize_def split: option.splits)

lemma scaleModelUVsSt_raises:
  assumes "\<not> keepsAtlas (models s a) w h" "\<not> hasBones (models s a)"
  shows "scaleModelUVsSt s a w h = Inl TypeError"
proof -
  obtain a1 s1 where cl: "cloneModel s a = (a1, s1)" by (cases "cloneModel s a")
  have "\<not> hasBones (models (setTextureSize a1 (w, h) s1) a1)"
    using cloneModel_model [OF cl] setTextureSize_model [of a1 "(w, h)" s1] assms(2) by simp
  then have "case bedrockData (models (setTextureSize a1 (w, h) s1) a1) of None \<Rightarrow> True
             | Some bd' \<Rightarrow> bones bd' = None"
    by (simp add: hasBones_def split: option.splits)
  then show ?thesis
    using assms(1) cl
    by (auto simp: keepsAtlas_def scaleModelUVsSt_def recordedSize_def Let_def split: option.splits)
qed

lemma scaleModelUVsSt_copies:
  assumes "\<not> keepsAtlas (models s a) w h" "hasBones (models s a)"
  shows "\<exists>a' s'. scaleModelUVsSt s a w h = Inr (a', s') \<and> untouched s s' \<and>
           allocatedAfter (next_addr s) s' a' \<and> atlasOf (models s' a') = Some (w, h) \<and>
           cubeCounts (models s' a') = cubeCounts (models s a)"
proof -
  obtain bd where bd: "bedrockData (models s a) = Some bd"
    using assms(2) by (auto simp: hasBones_def split: option.splits)
  obtain oldW oldH where sz: "(case texture_size bd of
                 None \<Rightarrow> (real_of_int MIN_TEXTURE_SIZE, real_of_int MIN_TEXTURE_SIZE)
               | Some ts \<Rightarrow> ts) = (oldW, oldH)"
    by (cases "case texture_size bd of
                 None \<Rightarrow> (real_of_int MIN_TEXTURE_SIZE, real_of_int MIN_TEXTURE_SIZE)
               | Some ts \<Rightarrow> ts")
  have ne: "\<not> (oldW = w \<and> oldH = h)"
    using assms(1) bd sz by (simp add: keepsAtlas_def recordedSize_def)
  obtain a1 s1 where cl: "cloneModel s a = (a1, s1)" by (cases "cloneModel s a")
  let ?s2 = "setTextureSize a1 (w, h) s1"
  note cm = cloneModel_model [OF cl] and tm = setTextureSize_model [of a1 "(w, h)" s1]
  have "hasBones (models ?s2 a1)" using cm tm assms(2) by simp
  then obtain bd' bs' where bd': "bedrockData (models ?s2 a1) = Some bd'" and bs': "bones bd' = Some bs'"
    by (auto simp: hasBones_def split: option.splits)
  define s' where "s' = fold (\<lambda>bone s. fold (scaleCubeSt (jsDiv w oldW) (jsDiv h oldH)) (bone_cubes bone) s) bs' ?s2"
  have r: "scaleModelUVsSt s a w h = Inr (a1, s')"
    using bd sz ne cl bd' bs' by (auto simp: scaleModelUVsSt_def Let_def s'_def)
  note pc = cloneModel_props [OF cl]
  have u2: "untouched s ?s2" using pc by (intro untouched_setTextureSize) simp_all
  have ca: "cubeAddrs (models ?s2 a1) = concat (map bone_cubes bs')"
    using bd' bs' by (simp add: cubeAddrs_def)
  have ca1: "cubeAddrs (models s1 a1) = concat (map bone_cubes bs')"
    using ca by simp
  have fr: "\<forall>x\<in>set (concat (map bone_cubes bs')). freshCube (next_addr s) ?s2 x"
    using pc ca1 by simp
  then have ge: "\<forall>c\<in>set (concat (map bone_cubes bs')). next_addr s \<le> c"
    by (simp add: freshCube_def)
  note f = fold_bones_scaleCubeSt [OF u2 ge fr, of "jsDiv w oldW" "jsDiv h oldH"]
  have ms: "models s' a1 = models ?s2 a1" using f by (simp add: s'_def)
  have 1: "untouched s s'" using f by (simp add: s'_def)
  have 2: "allocatedAfter (next_addr s) s' a1"
  proof (rule allocatedAfter_fresh)
    show "next_addr s \<le> a1" using pc by simp
    show "\<forall>c\<in>set (cubeAddrs (models s' a1)). freshCube (next_addr s) s' c"
      using f ms ca by (simp add: s'_def)
  qed
  have hb1: "bedrockData (models s1 a1) \<noteq> None"
    using cm assms(2) by (auto simp: hasBones_def split: option.splits)
  have 3: "atlasOf (models s' a1) = Some (w, h)" using ms tm hb1 by simp
  have 4: "cubeCounts (models s' a1) = cubeCounts (models s a)" using ms tm cm by simp
  show ?thesis using r 1 2 3 4 by blast
qed

lemma readModel_untouched:
  assumes "allocatedBefore (next_addr s) s a" "untouched s s'"
  shows "readModel s' a = readModel s a"
proof -
  have m: "models s' a = models s a" using assms by (simp add: allocatedBefore_def untouched_def)
  have c: "readCube s' c = readCube s c" if "c \<in> set (cubeAddrs (models s a))" for c
  proof -
    have "c < next_addr s" "\<forall>u. cube_uv (cubes s c) = Some u \<longrightarrow> u < next_addr s"
      using assms(1) that by (auto simp: allocatedBefore_def)
    then show ?thesis
      using assms(2) by (cases "cube_uv (cubes s c)") (auto simp: readCube_def untouched_def)
  qed
  show ?thesis
  proof (cases "bedrockData (models s a)")
    case None
    then show ?thesis using m by (simp add: readModel_def)
  next
    case (Some bd)
    show ?thesis
    proof (cases "bones bd")
      case None
      then show ?thesis using m Some by (simp add: readModel_def readBedrock_def)
    next
      case (Some bs)
      have "readBone s' b = readBone s b" if "b \<in> set bs" for b
      proof -
        have "set (bone_cubes b) \<subseteq> set (cubeAddrs (models s a))"
          using that \<open>bedrockData (models s a) = Some bd\<close> Some by (auto simp: cubeAddrs_def)
        then show ?thesis using c by (auto simp: readBone_def)
      qed
      then have "map (readBone s') bs = map (readBone s) bs" by simp
      then show ?thesis
        using m \<open>bedrockData (models s a) = Some bd\<close> Some
        by (simp add: readModel_def readBedrock_def)
    qed
  qed
qed

lemma packLoopSt_onlyUV:
  "onlyUVWritten s0 s \<Longrightarrow> packLoopSt tw st items s = (st', s') \<Longrightarrow> onlyUVWritten s0 s'"
proof (induction items arbitrary: st s)
  case Nil
  then show ?case by simp
next
  case (Cons item items)
  obtain p st1 where p: "place tw st item = (p, st1)" by (cases "place tw st item")
  obtain u s1 where u: "newUV (Finite (real_of_int (fst p)), Finite (real_of_int (snd p))) s = (u, s1)"
    by (cases "newUV (Finite (real_of_int (fst p)), Finite (real_of_int (snd p))) s")
  have r: "packLoopSt tw st1 items (setCubeUV (cubeRef item) (Some u) s1) = (st', s')"
    using Cons.prems(2) p u by simp
  have "onlyUVWritten s0 s1"
    using Cons.prems(1) newUV_props [OF u] untouched_onlyUVWritten onlyUVWritten_trans by blast
  then have "onlyUVWritten s0 (setCubeUV (cubeRef item) (Some u) s1)"
    by (rule onlyUVWritten_setCubeUV)
  then show ?case using r by (rule Cons.IH)
qed

lemma reapplySt_props:
  "models (reapplySt a' item s) = models s \<and> next_addr (reapplySt a' item s) = next_addr s"
  by (simp add: reapplySt_def split: prod.splits option.splits)

lemma reapplySt_onlyUV:
  "onlyUVWritten s0 s \<Longrightarrow> onlyUVWritten s0 (reapplySt a' item s)"
  by (simp add: reapplySt_def onlyUVWritten_setCubeUV split: prod.splits option.splits)

lemma fold_reapplySt:
  "onlyUVWritten s0 s \<Longrightarrow>
   onlyUVWritten s0 (fold (reapplySt a') items s) \<and>
   models (fold (reapplySt a') items s) = models s"
proof (induction items arbitrary: s)
  case Nil
  then show ?case by simp
next
  case (Cons item items)
  from Cons.IH [OF reapplySt_onlyUV [OF Cons.prems]] reapplySt_props [of a' item s]
  show ?case by simp
qed

lemma packUVsSt_passes:
  "\<not> (model_type (models s a) = ENTITY \<and> hasBones (models s a)) \<Longrightarrow>
   packUVsSt s a dn = Some (a, s)"
  by (auto simp: packUVsSt_def hasBones_def Let_def split: option.splits)

lemma packLoopSt_models:
  "packLoopSt tw st items s = (st', s') \<Longrightarrow> models s' = models s"
proof (induction items arbitrary: st s)
  case Nil
  then show ?case by simp
next
  case (Cons item items)
  obtain p st1 where p: "place tw st item = (p, st1)" by (cases "place tw st item")
  obtain u s1 where u: "newUV (Finite (real_of_int (fst p)), Finite (real_of_int (snd p))) s = (u, s1)"
    by (cases "newUV (Finite (real_of_int (fst p)), Finite (real_of_int (snd p))) s")
  have r: "packLoopSt tw st1 items (setCubeUV (cubeRef item) (Some u) s1) = (st', s')"
    using Cons.prems p u by simp
  show ?case using Cons.IH [OF r] newUV_props [OF u] by simp
qed

lemma packUVsSt_packs:
  assumes "model_type (models s a) = ENTITY" "hasBones (models s a)"
  shows "\<exists>a' s'. packUVsSt s a dn = Some (a', s') \<and> onlyUVWritten s s' \<and> next_addr s \<le> a' \<and>
           (\<forall>c\<in>set (cubeAddrs (models s' a')). next_addr s \<le> c) \<and>
           atlasOf (models s' a') \<noteq> None \<and>
           cubeCounts (models s' a') = cubeCounts (models s a)"
proof -
  obtain bd bs where m: "bedrockData (models s a) = Some bd" "bones bd = Some bs"
    using assms(2) by (auto simp: hasBones_def split: option.splits)
  let ?items = "sortItems (collectItemsSt s bs (densityScale dn))"
  obtain dm where dm: "growDim MIN_TEXTURE_SIZE (totalArea ?items) = Some dm"
    using growDim_returns by blast
  let ?st0 = "\<lparr>textureH = dm, currentX = 0, currentY = 0, rowHeight = 0\<rparr>"
  obtain st s1 where l: "packLoopSt dm ?st0 ?items s = (st, s1)"
    by (cases "packLoopSt dm ?st0 ?items s")
  obtain a1 s2 where cl: "cloneModel s1 a = (a1, s2)" by (cases "cloneModel s1 a")
  obtain ts where r: "packUVsSt s a dn = Some (a1, fold (reapplySt a1) ?items (setTextureSize a1 ts s2))"
    using assms(1) m dm l cl by (auto simp: packUVsSt_def Let_def)
  define s' where "s' = fold (reapplySt a1) ?items (setTextureSize a1 ts s2)"
  have o1: "onlyUVWritten s s1" using onlyUVWritten_refl l by (rule packLoopSt_onlyUV)
  note pc = cloneModel_props [OF cl] and cm = cloneModel_model [OF cl]
    and tm = setTextureSize_model [of a1 ts s2] and pm = packLoopSt_models [OF l]
  have n: "next_addr s \<le> next_addr s1" using o1 by (simp add: onlyUVWritten_def)
  have "onlyUVWritten s s2"
    using o1 pc untouched_onlyUVWritten onlyUVWritten_trans by blast
  then have "onlyUVWritten s (setTextureSize a1 ts s2)"
    using pc n by (intro onlyUVWritten_setTextureSize) simp_all
  note f = fold_reapplySt [OF this, of a1 ?items]
  have ms: "models s' a1 = models (setTextureSize a1 ts s2) a1" using f by (simp add: s'_def)
  have "cubeAddrs (models s' a1) = cubeAddrs (models s2 a1)"
    using ms by simp
  then have 1: "\<forall>c\<in>set (cubeAddrs (models s' a1)). next_addr s \<le> c"
    using pc n by (auto simp: freshCube_def)
  have 2: "next_addr s \<le> a1" using pc n by simp
  have hb: "hasBones (models s2 a1)" using cm pm assms(2) by simp
  have hb1: "bedrockData (models s2 a1) \<noteq> None"
    using hb by (auto simp: hasBones_def split: option.splits)
  have 3: "atlasOf (models s' a1) \<noteq> None"
    using ms tm hb1 by simp
  have 4: "cubeCounts (models s' a1) = cubeCounts (models s a)" using ms tm cm pm by simp
  have 5: "onlyUVWritten s s'" using f by (simp add: s'_def)
  show ?thesis using r 1 2 3 4 5 unfolding s'_def by blast
qed

text \<open>
  On the store, a recorded size of zero is a size like any other: the clone is returned,
  the cube that had an origin holds a new array of NaN and an infinity, and the input's
  array is as it was.
\<close>

lemma scaleModelUVsSt_zero_size:
  "(case scaleModelUVsSt zeroStore 0 64 64 of
      Inl e \<Rightarrow> False
    | Inr (a', s') \<Rightarrow>
        a' = 7 \<and> atlasOf (models s' 7) = Some (64, 64) \<and> cubeAddrs (models s' 7) = [5, 6] \<and>
        cube_uv (cubes s' 5) = Some 8 \<and> uvs s' 8 = (NaN, PosInfinity) \<and>
        cube_uv (cubes s' 6) = None \<and> uvs s' 3 = (Finite 0, Finite 5))"
  by (simp add: store_eval zeroStore_def cubeAddrs_def atlasOf_def jsDiv_def jsMul_def)

text \<open>
  C7, as amended.  The input model, its cubes and their uv arrays are taken to be allocated.
  \<open>scaleModelUVs\<close> returns the input model itself, with the store as it was, when
  \<^verbatim>\<open>bedrockData\<close> is missing or the size is the recorded one (a recorded size of zero
  included).  Otherwise it raises a TypeError if the model has no bones, and else returns
  a model allocated during the call, with all its cubes and their uv arrays, which records
  the new size and has the bones and cube counts of the input.  In either case it writes to
  no object that existed before the call, so the value of the input model is unchanged.
  \<open>packUVs\<close> always returns: the input model itself, with the store as it was, unless
  the model is an ENTITY with bones, and else a model and cubes allocated during the call,
  with a recorded size and the bones and cube counts of the input.  Of the objects that
  existed before the call it leaves the model objects (the recorded \<^verbatim>\<open>texture_size\<close> with
  them) and the uv arrays unchanged, and the cube objects in every field other than \<^verbatim>\<open>uv\<close>.
\<close>

theorem transforms_on_store:
  assumes "allocatedBefore (next_addr s) s a"
  shows
   "(case scaleModelUVsSt s a w h of
       Inl e \<Rightarrow> \<not> keepsAtlas (models s a) w h \<and> \<not> hasBones (models s a)
     | Inr (a', s') \<Rightarrow>
         untouched s s' \<and> readModel s' a = readModel s a \<and>
         (if keepsAtlas (models s a) w h then a' = a \<and> s' = s
          else hasBones (models s a) \<and> a' \<noteq> a \<and> allocatedAfter (next_addr s) s' a' \<and>
               atlasOf (models s' a') = Some (w, h) \<and>
               cubeCounts (models s' a') = cubeCounts (models s a))) \<and>
    (case packUVsSt s a dn of
       None \<Rightarrow> False
     | Some (a'', s'') \<Rightarrow>
         onlyUVWritten s s'' \<and>
         (if model_type (models s a) = ENTITY \<and> hasBones (models s a)
          then a'' \<noteq> a \<and> next_addr s \<le> a'' \<and>
               (\<forall>c\<in>set (cubeAddrs (models s'' a'')). next_addr s \<le> c) \<and>
               atlasOf (models s'' a'') \<noteq> None \<and>
               cubeCounts (models s'' a'') = cubeCounts (models s a)
          else a'' = a \<and> s'' = s))"
proof -
  have lt: "a < next_addr s" using assms by (simp add: allocatedBefore_def)
  have 1: "case scaleModelUVsSt s a w h of
       Inl e \<Rightarrow> \<not> keepsAtlas (models s a) w h \<and> \<not> hasBones (models s a)
     | Inr (a', s') \<Rightarrow>
         untouched s s' \<and> readModel s' a = readModel s a \<and>
         (if keepsAtlas (models s a) w h then a' = a \<and> s' = s
          else hasBones (models s a) \<and> a' \<noteq> a \<and> allocatedAfter (next_addr s) s' a' \<and>
               atlasOf (models s' a') = Some (w, h) \<and>
               cubeCounts (models s' a') = cubeCounts (models s a))"
  proof (cases "keepsAtlas (models s a) w h")
    case True
    then show ?thesis by (simp add: scaleModelUVsSt_keeps)
  next
    case False
    show ?thesis
    proof (cases "hasBones (models s a)")
      case nb: False
      show ?thesis using False nb by (simp add: scaleModelUVsSt_raises)
    next
      case hb: True
      obtain a' s' where r: "scaleModelUVsSt s a w h = Inr (a', s')" "untouched s s'"
          "allocatedAfter (next_addr s) s' a'" "atlasOf (models s' a') = Some (w, h)"
          "cubeCounts (models s' a') = cubeCounts (models s a)"
        using scaleModelUVsSt_copies [OF False hb] by blast
      have "a' \<noteq> a" using r(3) lt by (simp add: allocatedAfter_def)
      moreover have "readModel s' a = readModel s a"
        using assms r(2) by (rule readModel_untouched)
      ultimately show ?thesis using r False hb by simp
    qed
  qed
  have 2: "case packUVsSt s a dn of
       None \<Rightarrow> False
     | Some (a'', s'') \<Rightarrow>
         onlyUVWritten s s'' \<and>
         (if model_type (models s a) = ENTITY \<and> hasBones (models s a)
          then a'' \<noteq> a \<and> next_addr s \<le> a'' \<and>
               (\<forall>c\<in>set (cubeAddrs (models s'' a'')). next_addr s \<le> c) \<and>
               atlasOf (models s'' a'') \<noteq> None \<and>
               cubeCounts (models s'' a'') = cubeCounts (models s a)
          else a'' = a \<and> s'' = s)"
  proof (cases "model_type (models s a) = ENTITY \<and> hasBones (models s a)")
    case False
    then show ?thesis using packUVsSt_passes [OF False, of dn] by auto
  next
    case True
    obtain a' s' where r: "packUVsSt s a dn = Some (a', s')" "onlyUVWritten s s'"
        "next_addr s \<le> a'" "\<forall>c\<in>set (cubeAddrs (models s' a')). next_addr s \<le> c"
        "atlasOf (models s' a') \<noteq> None" "cubeCounts (models s' a') = cubeCounts (models s a)"
      using packUVsSt_packs [of s a dn] True by blast
    have "a' \<noteq> a" using r(3) lt by simp
    then show ?thesis using r True by simp
  qed
  show ?thesis using 1 2 by (rule conjI)
qed

theorem transforms_on_store_witness:
  "allocatedBefore (next_addr paintedStore) paintedStore 0 \<and>
   scaleModelUVsSt paintedStore 0 64 64 = Inr (0, paintedStore) \<and>
   (\<exists>a' s'. scaleModelUVsSt paintedStore 0 128 128 = Inr (a', s') \<and> a' \<noteq> 0 \<and>
      untouched paintedStore s' \<and> readModel s' 0 = readModel paintedStore 0 \<and>
      allocatedAfter (next_addr paintedStore) s' a' \<and> atlasOf (models s' a') = Some (128, 128) \<and>
      cubeCounts (models s' a') = [(''root'', 1)]) \<and>
   (\<exists>a'' s''. packUVsSt paintedStore 0 D16x = Some (a'', s'') \<and> a'' \<noteq> 0 \<and>
      onlyUVWritten paintedStore s'' \<and> next_addr paintedStore \<le> a'' \<and>
      list_all ((\<le>) (next_addr paintedStore)) (cubeAddrs (models s'' a'')) \<and>
      cubeCounts (models s'' a'') = [(''root'', 1)])"
proof -
  have b: "allocatedBefore (next_addr paintedStore) paintedStore 0"
    by (simp add: allocatedBefore_def paintedStore_def cubeAddrs_def)
  have k: "keepsAtlas (models paintedStore 0) 64 64" "\<not> keepsAtlas (models paintedStore 0) 128 128"
    "hasBones (models paintedStore 0)" "model_type (models paintedStore 0) = ENTITY"
    "cubeCounts (models paintedStore 0) = [(''root'', 1)]"
    by (simp_all add: keepsAtlas_def hasBones_def recordedSize_def cubeCounts_def paintedStore_def)
  note t0 = transforms_on_store [OF b, of 64 64 D16x]
  note t = transforms_on_store [OF b, of 128 128 D16x]
  have 0: "scaleModelUVsSt paintedStore 0 64 64 = Inr (0, paintedStore)"
    using t0 k(1) by (auto split: sum.splits)
  have 1: "\<exists>a' s'. scaleModelUVsSt paintedStore 0 128 128 = Inr (a', s') \<and> a' \<noteq> 0 \<and>
      untouched paintedStore s' \<and> readModel s' 0 = readModel paintedStore 0 \<and>
      allocatedAfter (next_addr paintedStore) s' a' \<and> atlasOf (models s' a') = Some (128, 128) \<and>
      cubeCounts (models s' a') = [(''root'', 1)]"
    using t k(2,3,5) by (auto split: sum.splits)
  have 2: "\<exists>a'' s''. packUVsSt paintedStore 0 D16x = Some (a'', s'') \<and> a'' \<noteq> 0 \<and>
      onlyUVWritten paintedStore s'' \<and> next_addr paintedStore \<le> a'' \<and>
      list_all ((\<le>) (next_addr paintedStore)) (cubeAddrs (models s'' a'')) \<and>
      cubeCounts (models s'' a'') = [(''root'', 1)]"
    using t k(3,4,5) by (auto split: option.splits simp: list_all_iff)
  show ?thesis using b 0 1 2 by (intro conjI)
qed

text \<open>
  The claim as stated fails twice.  \<open>scaleModelUVs\<close>, given the recorded size, returns the
  input model itself.  \<open>packUVs\<close> writes the packed origin into the cube of its input
  (\<^verbatim>\<open>item.cubeRef.uv = ...\<close>, before the clone is made): the input's cube, without uv
  before the call, holds the array at address 2 after it, and the cube of the returned
  model holds the same array.
\<close>

theorem transforms_on_store_counterexample:
  "scaleModelUVsSt initialStore 0 64 64 = Inr (0, initialStore) \<and>
   cube_uv (cubes initialStore 1) = None \<and>
   (case packUVsSt initialStore 0 D16x of
      None \<Rightarrow> False
    | Some (a', s') \<Rightarrow>
        a' = 5 \<and> cube_uv (cubes s' 1) = Some 2 \<and> uvs s' 2 = (Finite 0, Finite 0) \<and>
        cubeAddrs (models s' 5) = [4] \<and> cube_uv (cubes s' 4) = Some 2 \<and>
        readModel s' 0 \<noteq> readModel initialStore 0)"
  by (simp add: store_eval initialStore_def cubeAddrs_def)

end
